theory Spec2Isabelle
  imports Complex_Main "HOL-Library.AList" "HOL-Library.Char_ord" "HOL-Library.List_Lexorder"
begin

section \<open>Flat price prediction: preprocessing, training and evaluation\<close>

text \<open>
  A shallow embedding of \<^verbatim>\<open>src/preprocessing.py\<close>, \<^verbatim>\<open>src/training.py\<close> and
  \<^verbatim>\<open>src/evaluation.py\<close>. Python exceptions are values of type \<open>error\<close>; a function
  that can raise returns \<open>error + 'a\<close> with \<open>Inl\<close> for the exception.
\<close>

subsection \<open>Exceptions\<close>

text \<open>
  One constructor per situation in which the modelled code raises. The Python class is
  given in the comment. \<open>LibraryError\<close> stands for any exception raised inside a
  library call whose behaviour is not modelled (fitting or applying a regressor).
\<close>

datatype error =
    UnknownModelType string  \<comment> \<open>ValueError, \<^verbatim>\<open>build_model\<close>\<close>
  | ModelNotTrained          \<comment> \<open>ValueError, \<^verbatim>\<open>ModelTrainer.predict\<close> with \<^verbatim>\<open>model is None\<close>\<close>
  | NoModelsTrained          \<comment> \<open>ValueError, \<^verbatim>\<open>EnsembleTrainer.predict\<close>\<close>
  | PreprocessorNotFitted    \<comment> \<open>ValueError, \<^verbatim>\<open>DataPreprocessor.transform\<close>\<close>
  | ValueError               \<comment> \<open>ValueError raised by numpy or scikit-learn input checks\<close>
  | TypeError
  | KeyError
  | IndexError
  | ZeroDivisionError
  | StopIteration
  | LibraryError nat
  | OutsideModel             \<comment> \<open>not an exception: the input is outside what this model covers\<close>

definition and_then :: "error + 'a \<Rightarrow> ('a \<Rightarrow> error + 'b) \<Rightarrow> error + 'b" where
  "and_then r f = (case r of Inl e \<Rightarrow> Inl e | Inr v \<Rightarrow> f v)"

subsection \<open>Floating-point values\<close>

text \<open>
  A float64 value is a real number, NaN, or one of the two infinities. The operations
  follow IEEE 754 on these values: NaN is absorbing, \<open>x / 0\<close> is an infinity for
  \<open>x \<noteq> 0\<close> and NaN for \<open>0 / 0\<close>, every comparison with NaN is false, and a result
  overflows to the infinity of its sign when its magnitude reaches
  \<open>2\<^sup>1\<^sup>0\<^sup>2\<^sup>4 - 2\<^sup>9\<^sup>7\<^sup>0\<close>, the midpoint above the largest float64, from which
  round-to-nearest goes to infinity. So an operation on two float64 operands is finite
  here exactly when it is finite in float64. The rounding of a finite result to 53
  bits and the sign of zero are not modelled in the column arithmetic; the rounding
  matters for the weight grid of \<^verbatim>\<open>optimize_weights\<close> and is modelled there (\<open>r64\<close>);
  the arithmetic of the ensemble's score is a parameter of the environment.
\<close>

datatype fval = Fin real | NaN | PInf | NInf

definition inf_of_sign :: "real \<Rightarrow> fval" where
  "inf_of_sign s = (if s > 0 then PInf else if s < 0 then NInf else NaN)"

definition overflow_threshold :: real where
  "overflow_threshold = 2 ^ 1024 - 2 ^ 970"

text \<open>A finite float64 value: a real number below the overflow threshold.\<close>

definition is_finite :: "fval \<Rightarrow> bool" where
  "is_finite v = (case v of Fin r \<Rightarrow> \<bar>r\<bar> < overflow_threshold | _ \<Rightarrow> False)"

definition fin :: "real \<Rightarrow> fval" where
  "fin r = (if \<bar>r\<bar> < overflow_threshold then Fin r else inf_of_sign r)"

fun fsgn :: "fval \<Rightarrow> real" where
  "fsgn (Fin a) = sgn a"
| "fsgn PInf = 1"
| "fsgn NInf = - 1"
| "fsgn NaN = 0"

fun fsub :: "fval \<Rightarrow> fval \<Rightarrow> fval" where
  "fsub NaN y = NaN"
| "fsub x NaN = NaN"
| "fsub (Fin a) (Fin b) = fin (a - b)"
| "fsub PInf PInf = NaN"
| "fsub NInf NInf = NaN"
| "fsub PInf y = PInf"
| "fsub NInf y = NInf"
| "fsub (Fin a) PInf = NInf"
| "fsub (Fin a) NInf = PInf"

fun fadd :: "fval \<Rightarrow> fval \<Rightarrow> fval" where
  "fadd NaN y = NaN"
| "fadd x NaN = NaN"
| "fadd (Fin a) (Fin b) = fin (a + b)"
| "fadd PInf NInf = NaN"
| "fadd NInf PInf = NaN"
| "fadd PInf y = PInf"
| "fadd NInf y = NInf"
| "fadd (Fin a) y = y"

fun fmul :: "fval \<Rightarrow> fval \<Rightarrow> fval" where
  "fmul NaN y = NaN"
| "fmul x NaN = NaN"
| "fmul (Fin a) (Fin b) = fin (a * b)"
| "fmul x y = inf_of_sign (fsgn x * fsgn y)"

fun fdiv :: "fval \<Rightarrow> fval \<Rightarrow> fval" where
  "fdiv NaN y = NaN"
| "fdiv x NaN = NaN"
| "fdiv (Fin a) (Fin b) = (if b \<noteq> 0 then fin (a / b) else inf_of_sign (sgn a))"
| "fdiv (Fin a) y = Fin 0"
| "fdiv x (Fin b) = inf_of_sign (fsgn x * (if b \<ge> 0 then 1 else - 1))"
| "fdiv x y = NaN"

fun fgt :: "fval \<Rightarrow> fval \<Rightarrow> bool" where
  "fgt NaN y = False"
| "fgt x NaN = False"
| "fgt (Fin a) (Fin b) = (a > b)"
| "fgt PInf PInf = False"
| "fgt PInf y = True"
| "fgt x NInf = (x \<noteq> NInf)"
| "fgt x y = False"

text \<open>\<^verbatim>\<open>==\<close> on floats: NaN is not equal to itself.\<close>

definition feq :: "fval \<Rightarrow> fval \<Rightarrow> bool" where
  "feq x y = (x \<noteq> NaN \<and> x = y)"

subsection \<open>ModelTrainer\<close>

text \<open>
  The three regressor families are library objects. An estimator is the family it was
  built as together with its fitted state, which is opaque (type \<open>'m\<close>); fitting,
  predicting and cross-validation are parameters of the model, collected in \<open>env\<close>.
  A feature matrix has the opaque type \<open>'x\<close>; a target vector is a list of reals.
  The float64 arithmetic behind the ensemble's score is a parameter as well: \<open>fl_mul\<close>
  and \<open>fl_add\<close> are numpy's elementwise product and sum, \<open>r2_fn\<close> is
  \<^verbatim>\<open>sklearn.metrics.r2_score\<close> as \<^verbatim>\<open>optimize_weights\<close> calls it. What is proved about
  the ensemble holds whatever these compute, in particular for the rounded operations.
\<close>

datatype kind = XGBRegressor | LGBMRegressor | CatBoostRegressor

datatype 'm estimator = Estimator kind "'m option"

record ('x, 'm) env =
  fit_model :: "kind \<Rightarrow> 'x \<Rightarrow> real list \<Rightarrow> ('x \<times> real list) option \<Rightarrow> error + 'm"
  predict_model :: "'m \<Rightarrow> 'x \<Rightarrow> error + real list"
  cross_val_score :: "kind \<Rightarrow> 'x \<Rightarrow> real list \<Rightarrow> error + real list"
  elapsed :: real
  fl_mul :: "real \<Rightarrow> real \<Rightarrow> real"
  fl_add :: "real \<Rightarrow> real \<Rightarrow> real"
  r2_fn :: "real list \<Rightarrow> real list \<Rightarrow> error + fval"

record 'm trainer =
  model_type :: string
  model :: "'m estimator option"
  training_time :: real
  cv_scores :: "real list option"

definition ModelTrainer_init :: "string \<Rightarrow> 'm trainer" where
  "ModelTrainer_init mt =
     \<lparr>model_type = mt, model = None, training_time = 0, cv_scores = None\<rparr>"

definition build_model :: "'m trainer \<Rightarrow> error + 'm trainer" where
  "build_model tr =
     (if model_type tr = ''xgboost'' then Inr (tr\<lparr>model := Some (Estimator XGBRegressor None)\<rparr>)
      else if model_type tr = ''lightgbm'' then Inr (tr\<lparr>model := Some (Estimator LGBMRegressor None)\<rparr>)
      else if model_type tr = ''catboost'' then Inr (tr\<lparr>model := Some (Estimator CatBoostRegressor None)\<rparr>)
      else Inl (UnknownModelType (model_type tr)))"

text \<open>
  \<^verbatim>\<open>self.model.fit(...)\<close>: the estimator object is fitted in place. With a validation
  split and one of the three boosting types the call passes the evaluation set
  (\<^verbatim>\<open>_train_with_early_stopping\<close>), otherwise it is the plain \<^verbatim>\<open>fit(X_train, y_train)\<close>.
\<close>

definition fit_estimator ::
  "('x, 'm) env \<Rightarrow> 'm estimator \<Rightarrow> 'x \<Rightarrow> real list \<Rightarrow> ('x \<times> real list) option
     \<Rightarrow> error + 'm estimator" where
  "fit_estimator E est X y ev =
     (case est of Estimator k st \<Rightarrow>
        (case fit_model E k X y ev of
           Inl e \<Rightarrow> Inl e
         | Inr m \<Rightarrow> Inr (Estimator k (Some m))))"

definition boosting_types :: "string list" where
  "boosting_types = [''xgboost'', ''lightgbm'', ''catboost'']"

definition train ::
  "('x, 'm) env \<Rightarrow> 'm trainer \<Rightarrow> 'x \<Rightarrow> real list \<Rightarrow> 'x option \<Rightarrow> real list option
     \<Rightarrow> error + 'm trainer" where
  "train E tr X_train y_train X_val y_val =
     and_then (if model tr = None then build_model tr else Inr tr) (\<lambda>tr1.
       (case model tr1 of
          None \<Rightarrow> Inl TypeError
        | Some est \<Rightarrow>
            and_then
              (case (X_val, y_val) of
                 (Some Xv, Some yv) \<Rightarrow>
                   (if model_type tr1 \<in> set boosting_types
                    then fit_estimator E est X_train y_train (Some (Xv, yv))
                    else fit_estimator E est X_train y_train None)
               | _ \<Rightarrow> fit_estimator E est X_train y_train None)
              (\<lambda>est'. Inr (tr1\<lparr>model := Some est', training_time := elapsed E\<rparr>))))"

definition cross_validate ::
  "('x, 'm) env \<Rightarrow> 'm trainer \<Rightarrow> 'x \<Rightarrow> real list \<Rightarrow> error + 'm trainer" where
  "cross_validate E tr X y =
     and_then (if model tr = None then build_model tr else Inr tr) (\<lambda>tr1.
       (case model tr1 of
          None \<Rightarrow> Inl TypeError
        | Some (Estimator k st) \<Rightarrow>
            and_then (cross_val_score E k X y) (\<lambda>scores.
              Inr (tr1\<lparr>cv_scores := Some scores\<rparr>))))"

definition predict :: "('x, 'm) env \<Rightarrow> 'm trainer \<Rightarrow> 'x \<Rightarrow> error + real list" where
  "predict E tr X =
     (case model tr of
        None \<Rightarrow> Inl ModelNotTrained
      | Some (Estimator k None) \<Rightarrow> Inl (LibraryError 0)
      | Some (Estimator k (Some m)) \<Rightarrow> predict_model E m X)"

definition known_model_type :: "string \<Rightarrow> bool" where
  "known_model_type mt \<longleftrightarrow> mt \<in> {''xgboost'', ''lightgbm'', ''catboost''}"

subsection \<open>Python dictionaries\<close>

text \<open>
  A \<^verbatim>\<open>dict\<close> with string keys is an association list in insertion order; assigning to
  an existing key replaces the value and keeps the key's position.
\<close>

type_synonym 'a pydict = "(string \<times> 'a) list"

definition dict_set :: "string \<Rightarrow> 'a \<Rightarrow> 'a pydict \<Rightarrow> 'a pydict" where
  "dict_set k v d = AList.update k v d"

definition dict_of_pairs :: "(string \<times> 'a) list \<Rightarrow> 'a pydict" where
  "dict_of_pairs kvs = foldl (\<lambda>d (k, v). dict_set k v d) [] kvs"

definition dict_values :: "'a pydict \<Rightarrow> 'a list" where
  "dict_values d = map snd d"

subsection \<open>Library functions: numpy and scikit-learn\<close>

text \<open>
  Rounding of a real number to float64, to nearest with ties to even: \<open>binade x\<close> is
  the exponent \<open>e\<close> with \<open>2\<^sup>e \<le> |x| < 2\<^sup>e\<^sup>+\<^sup>1\<close>, the spacing of the floats around \<open>x\<close>
  is \<open>2\<^sup>e\<^sup>-\<^sup>5\<^sup>2\<close> (from the subnormal exponent \<open>-1022\<close> on it stays \<open>2\<^sup>-\<^sup>1\<^sup>0\<^sup>7\<^sup>4\<close>), and \<open>x\<close>
  is rounded to a multiple of the spacing. Overflow is not part of \<open>r64\<close>: it is only
  applied to weights, which are below 1. A Python float literal such as \<^verbatim>\<open>0.1\<close> is
  \<open>r64 (1/10)\<close>.
\<close>

fun ilog2 :: "nat \<Rightarrow> nat" where
  "ilog2 n = (if n < 2 then 0 else Suc (ilog2 (n div 2)))"

definition binade :: "real \<Rightarrow> int" where
  "binade x = (if 1 \<le> \<bar>x\<bar> then int (ilog2 (nat \<lfloor>\<bar>x\<bar>\<rfloor>))
               else - int (Suc (ilog2 (nat (\<lceil>1 / \<bar>x\<bar>\<rceil> - 1)))))"

definition rne :: "real \<Rightarrow> int" where
  "rne x = (let f = \<lfloor>x\<rfloor>; d = x - of_int f in
            if d < 1/2 then f else if 1/2 < d then f + 1 else if even f then f else f + 1)"

definition r64 :: "real \<Rightarrow> real" where
  "r64 x = (let e = max (binade x) (- 1022) - 52 in of_int (rne (x / 2 powi e)) * 2 powi e)"

text \<open>
  \<^verbatim>\<open>np.arange(start, stop, step)\<close> on floats, as numpy computes it: the length is
  \<open>\<lceil>(stop - start) / step\<rceil>\<close> in float64 arithmetic; the first two elements are
  \<open>start\<close> and \<open>start + step\<close>; with \<open>delta\<close> the float64 difference of these two,
  element \<open>i \<ge> 2\<close> is \<open>start + i * delta\<close>, the product and the sum each rounded.
\<close>

definition arange :: "real \<Rightarrow> real \<Rightarrow> real \<Rightarrow> real list" where
  "arange start stop step =
     (let n = nat \<lceil>r64 (r64 (stop - start) / step)\<rceil>;
          next = r64 (start + step);
          delta = r64 (next - start)
      in map (\<lambda>i. if i = 0 then start else if i = 1 then next
                   else r64 (start + r64 (real i * delta))) [0 ..< n])"

definition mean :: "real list \<Rightarrow> real" where
  "mean xs = sum_list xs / real (length xs)"

text \<open>
  \<^verbatim>\<open>sklearn.metrics.r2_score\<close>: inputs of different length or without samples are
  rejected with a ValueError; with fewer than two samples the score is NaN (and a
  warning); a constant \<^verbatim>\<open>y_true\<close> gives 1 for a perfect prediction and 0 otherwise.
\<close>

definition check_targets :: "real list \<Rightarrow> real list \<Rightarrow> error + unit" where
  "check_targets y_true y_pred =
     (if length y_true \<noteq> length y_pred then Inl ValueError
      else if y_true = [] then Inl ValueError
      else Inr ())"

definition r2_score :: "real list \<Rightarrow> real list \<Rightarrow> error + fval" where
  "r2_score y_true y_pred =
     and_then (check_targets y_true y_pred) (\<lambda>_.
       if length y_pred < 2 then Inr NaN
       else
         let numerator = (\<Sum>(t, p) \<leftarrow> zip y_true y_pred. (t - p)\<^sup>2);
             denominator = (\<Sum>t \<leftarrow> y_true. (t - mean y_true)\<^sup>2)
         in if denominator \<noteq> 0 then Inr (Fin (1 - numerator / denominator))
            else if numerator \<noteq> 0 then Inr (Fin 0)
            else Inr (Fin 1))"

text \<open>
  \<^verbatim>\<open>acc += v\<close> on one-dimensional arrays: \<open>v\<close> must have the length of \<open>acc\<close> or
  length one (broadcast); anything else is a ValueError.
\<close>

definition vec_iadd :: "('x, 'm) env \<Rightarrow> real list \<Rightarrow> real list \<Rightarrow> error + real list" where
  "vec_iadd E acc v =
     (if length v = length acc then Inr (map2 (fl_add E) acc v)
      else if length v = 1 then Inr (map (\<lambda>a. fl_add E a (hd v)) acc)
      else Inl ValueError)"

subsection \<open>EnsembleTrainer\<close>

record 'm ensemble =
  model_types :: "string list"
  models :: "'m trainer pydict"
  weights :: "real pydict option"

definition EnsembleTrainer_init :: "string list \<Rightarrow> 'm ensemble" where
  "EnsembleTrainer_init mts = \<lparr>model_types = mts, models = [], weights = None\<rparr>"

text \<open>\<^verbatim>\<open>{mt: 1/len(model_types) for mt in model_types}\<close>\<close>

definition equal_weights :: "string list \<Rightarrow> real pydict" where
  "equal_weights mts = dict_of_pairs (map (\<lambda>mt. (mt, 1 / real (length mts))) mts)"

fun train_each ::
  "('x, 'm) env \<Rightarrow> string list \<Rightarrow> 'x \<Rightarrow> real list \<Rightarrow> 'x option \<Rightarrow> real list option
     \<Rightarrow> 'm trainer pydict \<Rightarrow> error + 'm trainer pydict" where
  "train_each E [] X y Xv yv ms = Inr ms"
| "train_each E (mt # mts) X y Xv yv ms =
     (case train E (ModelTrainer_init mt) X y Xv yv of
        Inl e \<Rightarrow> Inl e
      | Inr tr \<Rightarrow> train_each E mts X y Xv yv (dict_set mt tr ms))"

definition train_all ::
  "('x, 'm) env \<Rightarrow> 'm ensemble \<Rightarrow> 'x \<Rightarrow> real list \<Rightarrow> 'x option \<Rightarrow> real list option
     \<Rightarrow> error + 'm ensemble" where
  "train_all E et X y Xv yv =
     and_then (train_each E (model_types et) X y Xv yv (models et)) (\<lambda>ms.
       Inr (et\<lparr>models := ms, weights := Some (equal_weights (model_types et))\<rparr>))"

fun predict_each ::
  "('x, 'm) env \<Rightarrow> 'm trainer pydict \<Rightarrow> 'x \<Rightarrow> error + real list pydict" where
  "predict_each E [] X = Inr []"
| "predict_each E ((mt, tr) # rest) X =
     (case predict E tr X of
        Inl e \<Rightarrow> Inl e
      | Inr p \<Rightarrow> and_then (predict_each E rest X) (\<lambda>ps. Inr ((mt, p) # ps)))"

fun weighted_sum ::
  "('x, 'm) env \<Rightarrow> real list pydict \<Rightarrow> real pydict \<Rightarrow> real list \<Rightarrow> error + real list" where
  "weighted_sum E [] ws acc = Inr acc"
| "weighted_sum E ((mt, pred) # rest) ws acc =
     (case map_of ws mt of
        None \<Rightarrow> Inl KeyError
      | Some w \<Rightarrow> and_then (vec_iadd E acc (map (fl_mul E w) pred)) (weighted_sum E rest ws))"

definition weighted_predict ::
  "('x, 'm) env \<Rightarrow> real list pydict \<Rightarrow> real pydict \<Rightarrow> error + real list" where
  "weighted_predict E predictions ws =
     (case predictions of
        [] \<Rightarrow> Inl StopIteration
      | (mt, first) # _ \<Rightarrow> weighted_sum E predictions ws (replicate (length first) 0))"

text \<open>
  The body of the two nested loops of \<^verbatim>\<open>optimize_weights\<close> for one pair \<open>(w1, w2)\<close>:
  the state is \<open>(best_score, best_weights)\<close>. The weights are float64 values:
  \<^verbatim>\<open>1 - w1 - w2\<close> is two rounded subtractions and \<^verbatim>\<open>0.1\<close>, \<^verbatim>\<open>0.8\<close> are the float64
  literals. The weighted sum \<^verbatim>\<open>ensemble_pred += weights[mt] * pred\<close> and the score
  \<^verbatim>\<open>r2_score(y_val, ensemble_pred)\<close> use the operations of the environment.
\<close>

definition grid_body ::
  "('x, 'm) env \<Rightarrow> string list \<Rightarrow> real list pydict \<Rightarrow> real list \<Rightarrow> real \<times> real
     \<Rightarrow> fval \<times> real pydict option \<Rightarrow> error + fval \<times> real pydict option" where
  "grid_body E mts predictions y_val w st =
     (case w of (w1, w2) \<Rightarrow>
        let w3 = r64 (r64 (1 - w1) - w2) in
        if w3 < r64 (1/10) \<or> w3 > r64 (8/10) then Inr st
        else
          let ws = dict_of_pairs (zip mts [w1, w2, w3]) in
          and_then (weighted_predict E predictions ws) (\<lambda>ensemble_pred.
          and_then (r2_fn E y_val ensemble_pred) (\<lambda>score.
            if fgt score (fst st) then Inr (score, Some ws) else Inr st)))"

fun grid_loop ::
  "('x, 'm) env \<Rightarrow> string list \<Rightarrow> real list pydict \<Rightarrow> real list \<Rightarrow> (real \<times> real) list
     \<Rightarrow> fval \<times> real pydict option \<Rightarrow> error + fval \<times> real pydict option" where
  "grid_loop E mts predictions y_val [] st = Inr st"
| "grid_loop E mts predictions y_val (w # rest) st =
     (case grid_body E mts predictions y_val w st of
        Inl e \<Rightarrow> Inl e
      | Inr st' \<Rightarrow> grid_loop E mts predictions y_val rest st')"

definition grid_points :: "(real \<times> real) list" where
  "grid_points =
     List.product (arange (r64 (2/10)) (r64 (8/10)) (r64 (1/10)))
                  (arange (r64 (2/10)) (r64 (8/10)) (r64 (1/10)))"

definition optimize_weights ::
  "('x, 'm) env \<Rightarrow> 'm ensemble \<Rightarrow> 'x \<Rightarrow> real list \<Rightarrow> string \<Rightarrow> error + 'm ensemble" where
  "optimize_weights E et X_val y_val method =
     (if method = ''equal'' then Inr (et\<lparr>weights := Some (equal_weights (model_types et))\<rparr>)
      else
        and_then (predict_each E (models et) X_val) (\<lambda>predictions.
        and_then
          (if length (model_types et) = 3
           then grid_loop E (model_types et) predictions y_val grid_points (NInf, None)
           else Inr (NInf, None))
          (\<lambda>(best_score, best_weights).
             case best_weights of
               Some ws \<Rightarrow> Inr (et\<lparr>weights := Some ws\<rparr>)
             | None \<Rightarrow> Inr et)))"

definition ensemble_predict :: "('x, 'm) env \<Rightarrow> 'm ensemble \<Rightarrow> 'x \<Rightarrow> error + real list" where
  "ensemble_predict E et X =
     (if models et = [] then Inl NoModelsTrained
      else
        and_then (predict_each E (models et) X) (\<lambda>predictions.
          case weights et of
            None \<Rightarrow> Inl TypeError
          | Some ws \<Rightarrow> weighted_predict E predictions ws))"

subsection \<open>TrainingPipeline\<close>

datatype 'm entry = Single "'m trainer" | Ensemble "'m ensemble"

record 'm pipeline =
  models_to_train :: "string list"
  trained_models :: "'m entry pydict"

definition TrainingPipeline_init :: "string list \<Rightarrow> 'm pipeline" where
  "TrainingPipeline_init ms = \<lparr>models_to_train = ms, trained_models = []\<rparr>"

text \<open>The body of the \<^verbatim>\<open>try\<close> block for one model type.\<close>

definition train_member ::
  "('x, 'm) env \<Rightarrow> string \<Rightarrow> 'x \<Rightarrow> real list \<Rightarrow> 'x option \<Rightarrow> real list option \<Rightarrow> bool
     \<Rightarrow> error + 'm trainer" where
  "train_member E mt X y Xv yv perform_cv =
     and_then (if perform_cv then cross_validate E (ModelTrainer_init mt) X y
               else Inr (ModelTrainer_init mt)) (\<lambda>tr.
       train E tr X y Xv yv)"

text \<open>Whether the \<^verbatim>\<open>try\<close> block for a model type ends without an exception.\<close>

definition member_ok ::
  "('x, 'm) env \<Rightarrow> 'x \<Rightarrow> real list \<Rightarrow> 'x option \<Rightarrow> real list option \<Rightarrow> bool \<Rightarrow> string \<Rightarrow> bool" where
  "member_ok E X y Xv yv cv m =
     (case train_member E m X y Xv yv cv of Inl e \<Rightarrow> False | Inr tr \<Rightarrow> True)"

text \<open>
  The member loop: \<^verbatim>\<open>'ensemble'\<close> is skipped, an exception is caught by
  \<^verbatim>\<open>except Exception\<close> and the loop goes on with the next type.
\<close>

fun train_members ::
  "('x, 'm) env \<Rightarrow> string list \<Rightarrow> 'x \<Rightarrow> real list \<Rightarrow> 'x option \<Rightarrow> real list option \<Rightarrow> bool
     \<Rightarrow> 'm entry pydict \<Rightarrow> 'm entry pydict" where
  "train_members E [] X y Xv yv cv tm = tm"
| "train_members E (mt # rest) X y Xv yv cv tm =
     (if mt = ''ensemble'' then train_members E rest X y Xv yv cv tm
      else
        (case train_member E mt X y Xv yv cv of
           Inl e \<Rightarrow> train_members E rest X y Xv yv cv tm
         | Inr tr \<Rightarrow> train_members E rest X y Xv yv cv (dict_set mt (Single tr) tm)))"

definition available_models :: "'m entry pydict \<Rightarrow> string list" where
  "available_models tm = filter (\<lambda>m. m \<in> fst ` set tm) boosting_types"

text \<open>
  \<^verbatim>\<open>{m: self.trained_models[m] for m in available_models}\<close>. The entries under the
  three boosting keys are trainers; an ensemble object stored under such a key is
  outside this model.
\<close>

fun member_trainers :: "'m entry pydict \<Rightarrow> string list \<Rightarrow> error + (string \<times> 'm trainer) list" where
  "member_trainers tm [] = Inr []"
| "member_trainers tm (m # ms) =
     (case map_of tm m of
        Some (Single tr) \<Rightarrow> and_then (member_trainers tm ms) (\<lambda>rest. Inr ((m, tr) # rest))
      | Some (Ensemble e) \<Rightarrow> Inl OutsideModel
      | None \<Rightarrow> Inl KeyError)"

definition build_ensemble ::
  "('x, 'm) env \<Rightarrow> 'm entry pydict \<Rightarrow> 'x option \<Rightarrow> real list option \<Rightarrow> error + 'm entry pydict" where
  "build_ensemble E tm Xv yv =
     (let available = available_models tm in
      if length available \<ge> 2 then
        and_then (member_trainers tm available) (\<lambda>ms.
          let ensemble = (EnsembleTrainer_init available)\<lparr>models := dict_of_pairs ms\<rparr> in
          and_then
            (case (Xv, yv) of
               (Some X_val, Some y_val) \<Rightarrow> optimize_weights E ensemble X_val y_val ''grid_search''
             | _ \<Rightarrow> Inr (ensemble\<lparr>weights := Some (equal_weights available)\<rparr>))
            (\<lambda>ensemble'. Inr (dict_set ''ensemble'' (Ensemble ensemble') tm)))
      else Inr tm)"

definition train_all_models ::
  "('x, 'm) env \<Rightarrow> 'm pipeline \<Rightarrow> 'x \<Rightarrow> real list \<Rightarrow> 'x option \<Rightarrow> real list option \<Rightarrow> bool
     \<Rightarrow> error + 'm pipeline" where
  "train_all_models E p X y Xv yv perform_cv =
     (let tm = train_members E (models_to_train p) X y Xv yv perform_cv (trained_models p) in
      if ''ensemble'' \<in> set (models_to_train p)
      then and_then (build_ensemble E tm Xv yv) (\<lambda>tm'. Inr (p\<lparr>trained_models := tm'\<rparr>))
      else Inr (p\<lparr>trained_models := tm\<rparr>))"

subsection \<open>The grid of \<^verbatim>\<open>optimize_weights\<close>, described\<close>

text \<open>
  The third weight of a pair \<open>(w1, w2)\<close>, the pairs for which the loop body does not
  \<^verbatim>\<open>continue\<close>, in iteration order, the weight list built from such a pair, and the score
  the body computes for it.
\<close>

definition third_weight :: "real \<Rightarrow> real \<Rightarrow> real" where
  "third_weight w1 w2 = r64 (r64 (1 - w1) - w2)"

definition admissible :: "real \<times> real \<Rightarrow> bool" where
  "admissible w = (case w of (w1, w2) \<Rightarrow>
     \<not> (third_weight w1 w2 < r64 (1/10) \<or> third_weight w1 w2 > r64 (8/10)))"

definition candidates :: "(real \<times> real) list" where
  "candidates = filter admissible grid_points"

definition triple :: "real \<times> real \<Rightarrow> real list" where
  "triple w = (case w of (w1, w2) \<Rightarrow> [w1, w2, third_weight w1 w2])"

definition score_of ::
  "('x, 'm) env \<Rightarrow> string list \<Rightarrow> real list pydict \<Rightarrow> real list \<Rightarrow> real \<times> real
     \<Rightarrow> error + fval" where
  "score_of E mts predictions y_val w =
     and_then (weighted_predict E predictions (dict_of_pairs (zip mts (triple w))))
       (r2_fn E y_val)"

subsection \<open>ModelEvaluator\<close>

fun fle :: "fval \<Rightarrow> fval \<Rightarrow> bool" where
  "fle NaN y = False"
| "fle x NaN = False"
| "fle (Fin a) (Fin b) = (a \<le> b)"
| "fle NInf y = True"
| "fle x PInf = True"
| "fle x y = False"

record metrics =
  m_r2_score :: fval
  m_rmse :: real
  m_mae :: real
  m_mape :: real
  m_mse :: real
  within_5_pct :: real
  within_10_pct :: real
  within_15_pct :: real
  within_20_pct :: real
  mean_error :: real
  std_error :: real
  max_error :: real
  median_error :: real
  explained_variance :: real
  adj_r2_score :: fval

text \<open>
  The scikit-learn metrics on two checked vectors, and the numpy reductions.
  \<^verbatim>\<open>mean_absolute_percentage_error\<close> divides by \<open>max(|y_true|, eps)\<close> with the float64
  machine epsilon \<open>2\<^sup>-\<^sup>5\<^sup>2\<close>; \<^verbatim>\<open>np.var\<close> and \<^verbatim>\<open>np.std\<close> are the population variance
  and its root; \<^verbatim>\<open>np.median\<close> is the middle of the sorted values, or the mean of the
  two middle ones.
\<close>

definition mean_squared_error :: "real list \<Rightarrow> real list \<Rightarrow> real" where
  "mean_squared_error y_true y_pred = mean (map (\<lambda>(t, p). (t - p)\<^sup>2) (zip y_true y_pred))"

definition mean_absolute_error :: "real list \<Rightarrow> real list \<Rightarrow> real" where
  "mean_absolute_error y_true y_pred = mean (map (\<lambda>(t, p). \<bar>p - t\<bar>) (zip y_true y_pred))"

definition mean_absolute_percentage_error :: "real list \<Rightarrow> real list \<Rightarrow> real" where
  "mean_absolute_percentage_error y_true y_pred =
     mean (map (\<lambda>(t, p). \<bar>p - t\<bar> / max \<bar>t\<bar> (1 / 2 ^ 52)) (zip y_true y_pred))"

definition np_var :: "real list \<Rightarrow> real" where
  "np_var xs = mean (map (\<lambda>x. (x - mean xs)\<^sup>2) xs)"

definition np_std :: "real list \<Rightarrow> real" where
  "np_std xs = sqrt (np_var xs)"

definition np_max :: "real list \<Rightarrow> real" where
  "np_max xs = Max (set xs)"

definition np_median :: "real list \<Rightarrow> real" where
  "np_median xs =
     (let ys = sort xs; n = length ys in
      if even n then (ys ! (n div 2 - 1) + ys ! (n div 2)) / 2 else ys ! (n div 2))"

definition explained_variance_score :: "real list \<Rightarrow> real list \<Rightarrow> real" where
  "explained_variance_score y_true y_pred =
     (let numerator = np_var (map (\<lambda>(t, p). t - p) (zip y_true y_pred));
          denominator = np_var y_true
      in if denominator \<noteq> 0 then 1 - numerator / denominator else 0)"

text \<open>
  \<^verbatim>\<open>relative_errors = np.abs(y_true - y_pred) / y_true\<close>, a float division: a zero
  \<^verbatim>\<open>y_true\<close> gives an infinity or NaN, which no threshold comparison accepts.
\<close>

definition relative_errors :: "real list \<Rightarrow> real list \<Rightarrow> fval list" where
  "relative_errors y_true y_pred = map (\<lambda>(t, p). fdiv (Fin \<bar>t - p\<bar>) (Fin t)) (zip y_true y_pred)"

definition within_pct :: "real list \<Rightarrow> real list \<Rightarrow> real \<Rightarrow> real" where
  "within_pct y_true y_pred k =
     real (length (filter (\<lambda>r. fle r (Fin k)) (relative_errors y_true y_pred)))
       / real (length y_true) * 100"

text \<open>
  \<^verbatim>\<open>1 - (1 - r2) * (n - 1) / (n - p - 1)\<close> with \<open>p = 1\<close>. For two samples the divisor is
  the integer zero: when \<^verbatim>\<open>r2_score\<close> returns a numpy scalar (\<open>np_scalar\<close>, older
  scikit-learn) the division gives an infinity or NaN, when it returns a Python float
  it raises ZeroDivisionError.
\<close>

definition adjusted_r2 :: "bool \<Rightarrow> fval \<Rightarrow> nat \<Rightarrow> error + fval" where
  "adjusted_r2 np_scalar r2 n =
     (let num = fmul (fsub (Fin 1) r2) (Fin (real n - 1));
          den = real n - 1 - 1
      in if den = 0 \<and> \<not> np_scalar then Inl ZeroDivisionError
         else Inr (fsub (Fin 1) (fdiv num (Fin den))))"

definition evaluate :: "bool \<Rightarrow> real list \<Rightarrow> real list \<Rightarrow> error + metrics" where
  "evaluate np_scalar y_true y_pred =
     and_then (r2_score y_true y_pred) (\<lambda>r2.
     and_then (adjusted_r2 np_scalar r2 (length y_true)) (\<lambda>adj.
       Inr \<lparr>m_r2_score = r2,
            m_rmse = sqrt (mean_squared_error y_true y_pred),
            m_mae = mean_absolute_error y_true y_pred,
            m_mape = mean_absolute_percentage_error y_true y_pred * 100,
            m_mse = mean_squared_error y_true y_pred,
            within_5_pct = within_pct y_true y_pred (5/100),
            within_10_pct = within_pct y_true y_pred (10/100),
            within_15_pct = within_pct y_true y_pred (15/100),
            within_20_pct = within_pct y_true y_pred (20/100),
            mean_error = mean (map (\<lambda>(t, p). p - t) (zip y_true y_pred)),
            std_error = np_std (map (\<lambda>(t, p). p - t) (zip y_true y_pred)),
            max_error = np_max (map (\<lambda>(t, p). \<bar>p - t\<bar>) (zip y_true y_pred)),
            median_error = np_median (map (\<lambda>(t, p). \<bar>p - t\<bar>) (zip y_true y_pred)),
            explained_variance = explained_variance_score y_true y_pred,
            adj_r2_score = adj\<rparr>))"

subsection \<open>DataFrames\<close>

text \<open>
  A column is a float64 column (a missing value is NaN) or an object column of strings
  (a missing value is \<open>None\<close>). Integers and booleans are held as floats, which is
  what pandas has for a column with a missing value and is exact up to \<open>2\<^sup>5\<^sup>3\<close>; a
  column of dtype int64, whose products wrap around, is not modelled separately. A
  frame has a number of rows (its index) and named columns in order. Row labels are
  not modelled: every operation below works by position and all columns of a frame
  share one index.
\<close>

datatype column = NumCol "fval list" | StrCol "string option list"

datatype cell = CNum fval | CStr "string option"

record frame =
  nrows :: nat
  cols :: "(string \<times> column) list"

definition col_len :: "column \<Rightarrow> nat" where
  "col_len c = (case c of NumCol xs \<Rightarrow> length xs | StrCol xs \<Rightarrow> length xs)"

definition cell_at :: "column \<Rightarrow> nat \<Rightarrow> cell" where
  "cell_at c i = (case c of NumCol xs \<Rightarrow> CNum (xs ! i) | StrCol xs \<Rightarrow> CStr (xs ! i))"

definition wf_frame :: "frame \<Rightarrow> bool" where
  "wf_frame df \<longleftrightarrow>
     distinct (map fst (cols df)) \<and> list_all (\<lambda>(n, c). col_len c = nrows df) (cols df)"

definition columns :: "frame \<Rightarrow> string list" where
  "columns df = map fst (cols df)"

definition has_col :: "frame \<Rightarrow> string \<Rightarrow> bool" where
  "has_col df c \<longleftrightarrow> c \<in> set (columns df)"

definition get_col :: "frame \<Rightarrow> string \<Rightarrow> column option" where
  "get_col df c = map_of (cols df) c"

text \<open>\<^verbatim>\<open>df[c] = values\<close>: an existing column is replaced in place, a new one is appended.\<close>

definition set_col :: "string \<Rightarrow> column \<Rightarrow> frame \<Rightarrow> frame" where
  "set_col c v df = df\<lparr>cols := AList.update c v (cols df)\<rparr>"

text \<open>\<^verbatim>\<open>df.drop(columns=cs)\<close> for names that are present.\<close>

definition drop_cols :: "string list \<Rightarrow> frame \<Rightarrow> frame" where
  "drop_cols cs df = df\<lparr>cols := filter (\<lambda>(n, c). n \<notin> set cs) (cols df)\<rparr>"

text \<open>\<^verbatim>\<open>df[names]\<close>: the named columns in the order of the list; KeyError for a missing name.\<close>

definition select_cols :: "string list \<Rightarrow> frame \<Rightarrow> error + frame" where
  "select_cols names df =
     (if \<forall>n \<in> set names. has_col df n
      then Inr (df\<lparr>cols := map (\<lambda>n. (n, the (get_col df n))) names\<rparr>)
      else Inl KeyError)"

text \<open>A float column read for arithmetic. Arithmetic on object columns is not modelled.\<close>

definition num_col :: "frame \<Rightarrow> string \<Rightarrow> error + fval list" where
  "num_col df c =
     (case get_col df c of
        None \<Rightarrow> Inl KeyError
      | Some (NumCol xs) \<Rightarrow> Inr xs
      | Some (StrCol xs) \<Rightarrow> Inl OutsideModel)"

text \<open>
  What pandas does to a single string or number when it converts types is a parameter:
  \<^verbatim>\<open>pd.to_numeric(errors='coerce')\<close> on a string, and \<^verbatim>\<open>astype(str)\<close> on a number.
\<close>

record lib =
  to_numeric :: "string \<Rightarrow> fval"
  str_of_num :: "fval \<Rightarrow> string"

subsection \<open>Configuration (\<^verbatim>\<open>src/config.py\<close>)\<close>

definition CATEGORICAL_FEATURES :: "string list" where
  "CATEGORICAL_FEATURES =
     [''gas'', ''hot_water'', ''central_heating'', ''extra_area_type_name'', ''district_name'']"

definition NUMERICAL_FEATURES :: "string list" where
  "NUMERICAL_FEATURES =
     [''kitchen_area'', ''bath_area'', ''other_area'', ''extra_area'', ''extra_area_count'',
      ''year'', ''ceil_height'', ''floor_max'', ''floor'', ''total_area'', ''bath_count'',
      ''rooms_count'']"

definition CURRENT_YEAR :: real where
  "CURRENT_YEAR = 2024"

definition FEATURE_ENGINEERING_CONFIG :: "bool pydict" where
  "FEATURE_ENGINEERING_CONFIG =
     [(''building_age'', True), (''building_age_squared'', True), (''area_ratios'', True),
      (''floor_features'', True), (''amenities_score'', True), (''volume'', True),
      (''extra_area_features'', True), (''interaction_features'', True),
      (''polynomial_features'', False)]"

definition REMOVE_OUTLIERS :: bool where
  "REMOVE_OUTLIERS = False"

subsection \<open>DataCleaner\<close>

definition count_missing :: "column \<Rightarrow> nat" where
  "count_missing c =
     (case c of NumCol xs \<Rightarrow> length (filter (\<lambda>x. x = NaN) xs)
              | StrCol xs \<Rightarrow> length (filter (\<lambda>x. x = None) xs))"

text \<open>Sorting floats that are not NaN: \<open>-\<infinity>\<close> first, \<open>+\<infinity>\<close> last.\<close>

fun finsert :: "fval \<Rightarrow> fval list \<Rightarrow> fval list" where
  "finsert x [] = [x]"
| "finsert x (y # ys) = (if fle x y then x # y # ys else y # finsert x ys)"

definition fsort :: "fval list \<Rightarrow> fval list" where
  "fsort xs = foldr finsert xs []"

text \<open>\<^verbatim>\<open>Series.median()\<close>: NaN is skipped; NaN when nothing is left.\<close>

definition median :: "fval list \<Rightarrow> fval" where
  "median xs =
     (let ys = fsort (filter (\<lambda>x. x \<noteq> NaN) xs); n = length ys in
      if n = 0 then NaN
      else if even n then fdiv (fadd (ys ! (n div 2 - 1)) (ys ! (n div 2))) (Fin 2)
      else ys ! (n div 2))"

text \<open>
  \<^verbatim>\<open>Series.mode()[0]\<close>: the most frequent value that is not missing, the smallest one
  among several; a KeyError when every value is missing. The sorted distinct values
  are passed in.
\<close>

definition mode0 :: "'a list \<Rightarrow> 'a list \<Rightarrow> error + 'a" where
  "mode0 sorted_distinct xs =
     (let top = fold max (map (count_list xs) xs) 0 in
      case filter (\<lambda>x. count_list xs x = top) sorted_distinct of
        [] \<Rightarrow> Inl KeyError
      | m # _ \<Rightarrow> Inr m)"

definition fill_median :: "column \<Rightarrow> error + column" where
  "fill_median c =
     (case c of
        NumCol xs \<Rightarrow> Inr (NumCol (map (\<lambda>x. if x = NaN then median xs else x) xs))
      | StrCol xs \<Rightarrow> Inl OutsideModel)"

definition fill_mode :: "column \<Rightarrow> error + column" where
  "fill_mode c =
     (case c of
        NumCol xs \<Rightarrow>
          (let present = filter (\<lambda>x. x \<noteq> NaN) xs in
           and_then (mode0 (fsort (remdups present)) present) (\<lambda>m.
             Inr (NumCol (map (\<lambda>x. if x = NaN then m else x) xs))))
      | StrCol xs \<Rightarrow>
          (let present = map the (filter (\<lambda>x. x \<noteq> None) xs) in
           and_then (mode0 (sort (remdups present)) present) (\<lambda>m.
             Inr (StrCol (map (\<lambda>x. if x = None then Some m else x) xs)))))"

text \<open>
  \<^verbatim>\<open>_handle_missing_values\<close> with the configured strategies (median, mode): the columns
  with missing values are visited in column order; other columns are left alone.
\<close>

fun fill_columns :: "string list \<Rightarrow> frame \<Rightarrow> error + frame" where
  "fill_columns [] df = Inr df"
| "fill_columns (c # cs) df =
     (case get_col df c of
        None \<Rightarrow> Inl KeyError
      | Some v \<Rightarrow>
          if c \<in> set NUMERICAL_FEATURES
          then and_then (fill_median v) (\<lambda>v'. fill_columns cs (set_col c v' df))
          else if c \<in> set CATEGORICAL_FEATURES
          then and_then (fill_mode v) (\<lambda>v'. fill_columns cs (set_col c v' df))
          else fill_columns cs df)"

definition handle_missing_values :: "frame \<Rightarrow> error + frame" where
  "handle_missing_values df =
     fill_columns (map fst (filter (\<lambda>(n, c). count_missing c > 0) (cols df))) df"

text \<open>
  \<^verbatim>\<open>drop_duplicates\<close>: a row equal to an earlier row is dropped (missing values count
  as equal). A frame without columns or rows has no duplicates.
\<close>

definition row :: "frame \<Rightarrow> nat \<Rightarrow> cell list" where
  "row df i = map (\<lambda>(n, c). cell_at c i) (cols df)"

definition take_rows :: "nat list \<Rightarrow> column \<Rightarrow> column" where
  "take_rows is c =
     (case c of NumCol xs \<Rightarrow> NumCol (map (\<lambda>i. xs ! i) is)
              | StrCol xs \<Rightarrow> StrCol (map (\<lambda>i. xs ! i) is))"

definition remove_duplicates :: "frame \<Rightarrow> frame" where
  "remove_duplicates df =
     (if cols df = [] then df
      else
        let keep = filter (\<lambda>i. row df i \<notin> set (map (row df) [0 ..< i])) [0 ..< nrows df]
        in \<lparr>nrows = length keep, cols = map (\<lambda>(n, c). (n, take_rows keep c)) (cols df)\<rparr>)"

text \<open>\<^verbatim>\<open>_handle_outliers\<close> returns at once: outlier removal is disabled in the configuration.\<close>

definition handle_outliers :: "frame \<Rightarrow> error + frame" where
  "handle_outliers df = (if \<not> REMOVE_OUTLIERS then Inr df else Inl OutsideModel)"

definition as_numeric :: "lib \<Rightarrow> column \<Rightarrow> column" where
  "as_numeric L c =
     (case c of
        NumCol xs \<Rightarrow> NumCol xs
      | StrCol xs \<Rightarrow> NumCol (map (\<lambda>x. case x of None \<Rightarrow> NaN | Some s \<Rightarrow> to_numeric L s) xs))"

definition astype_str :: "lib \<Rightarrow> column \<Rightarrow> string list" where
  "astype_str L c =
     (case c of
        NumCol xs \<Rightarrow> map (\<lambda>x. if x = NaN then ''nan'' else str_of_num L x) xs
      | StrCol xs \<Rightarrow> map (\<lambda>x. case x of None \<Rightarrow> ''nan'' | Some s \<Rightarrow> s) xs)"

definition update_present :: "(column \<Rightarrow> column) \<Rightarrow> string \<Rightarrow> frame \<Rightarrow> frame" where
  "update_present f c df =
     (case get_col df c of None \<Rightarrow> df | Some v \<Rightarrow> set_col c (f v) df)"

definition fix_data_types :: "lib \<Rightarrow> frame \<Rightarrow> frame" where
  "fix_data_types L df =
     fold (update_present (\<lambda>v. StrCol (map Some (astype_str L v)))) CATEGORICAL_FEATURES
       (fold (update_present (as_numeric L)) NUMERICAL_FEATURES df)"

definition clean :: "lib \<Rightarrow> frame \<Rightarrow> error + frame" where
  "clean L df =
     and_then (handle_missing_values df) (\<lambda>df1.
     and_then (handle_outliers (remove_duplicates df1)) (\<lambda>df2.
       Inr (fix_data_types L df2)))"

subsection \<open>FeatureEngineer\<close>

text \<open>\<^verbatim>\<open>self.config.get(key, True)\<close>\<close>

definition cfg_get :: "bool pydict \<Rightarrow> string \<Rightarrow> bool" where
  "cfg_get cfg k = (case map_of cfg k of None \<Rightarrow> True | Some b \<Rightarrow> b)"

text \<open>\<^verbatim>\<open>Series.replace(0, v)\<close> on a float column.\<close>

definition replace0 :: "fval \<Rightarrow> fval list \<Rightarrow> fval list" where
  "replace0 v xs = map (\<lambda>x. if x = Fin 0 then v else x) xs"

definition bool_int :: "bool \<Rightarrow> fval" where
  "bool_int b = (if b then Fin 1 else Fin 0)"

definition create_building_age_features :: "bool pydict \<Rightarrow> frame \<Rightarrow> error + frame" where
  "create_building_age_features cfg df =
     (if has_col df ''year'' then
        and_then (num_col df ''year'') (\<lambda>year.
          let age = map (fsub (Fin CURRENT_YEAR)) year;
              df1 = set_col ''building_age'' (NumCol age) df
          in if cfg_get cfg ''building_age_squared''
             then Inr (set_col ''building_age_squared'' (NumCol (map (\<lambda>a. fmul a a) age)) df1)
             else Inr df1)
      else Inr df)"

definition create_area_ratio_features :: "frame \<Rightarrow> error + frame" where
  "create_area_ratio_features df =
     (if has_col df ''total_area'' then
        and_then (num_col df ''total_area'') (\<lambda>total_area.
          let total_area_safe = replace0 NaN total_area in
          and_then
            (if has_col df ''kitchen_area''
             then and_then (num_col df ''kitchen_area'') (\<lambda>k.
                    Inr (set_col ''kitchen_ratio'' (NumCol (map2 fdiv k total_area_safe)) df))
             else Inr df) (\<lambda>df1.
          and_then
            (if has_col df1 ''bath_area''
             then and_then (num_col df1 ''bath_area'') (\<lambda>b.
                    Inr (set_col ''bath_ratio'' (NumCol (map2 fdiv b total_area_safe)) df1))
             else Inr df1) (\<lambda>df2.
          and_then
            (if has_col df2 ''other_area''
             then and_then (num_col df2 ''other_area'') (\<lambda>other.
                    Inr (set_col ''living_ratio'' (NumCol (map2 fdiv other total_area_safe))
                          (set_col ''living_area'' (NumCol other) df2)))
             else Inr df2) (\<lambda>df3.
          if has_col df3 ''rooms_count''
          then and_then (num_col df3 ''rooms_count'') (\<lambda>rooms.
               and_then (num_col df3 ''total_area'') (\<lambda>total.
                 let rooms_safe = replace0 (Fin 1) rooms in
                 Inr (set_col ''area_per_room'' (NumCol (map2 fdiv total rooms_safe)) df3)))
          else Inr df3))))
      else Inr df)"

definition create_floor_features :: "frame \<Rightarrow> error + frame" where
  "create_floor_features df =
     (if has_col df ''floor'' \<and> has_col df ''floor_max'' then
        and_then (num_col df ''floor'') (\<lambda>floor.
        and_then (num_col df ''floor_max'') (\<lambda>floor_max.
          let df1 = set_col ''is_first_floor''
                      (NumCol (map (\<lambda>f. bool_int (feq f (Fin 1))) floor)) df;
              df2 = set_col ''is_last_floor''
                      (NumCol (map2 (\<lambda>f m. bool_int (feq f m)) floor floor_max)) df1;
              floor_max_safe = replace0 (Fin 1) floor_max
          in Inr (set_col ''floor_ratio'' (NumCol (map2 fdiv floor floor_max_safe)) df2)))
      else Inr df)"

text \<open>\<^verbatim>\<open>(self.df[col] == 'Yes').astype(int)\<close>: a number is never equal to the string.\<close>

definition is_yes :: "column \<Rightarrow> real list" where
  "is_yes c =
     (case c of
        NumCol xs \<Rightarrow> map (\<lambda>x. 0) xs
      | StrCol xs \<Rightarrow> map (\<lambda>x. if x = Some ''Yes'' then 1 else 0) xs)"

definition create_amenities_score :: "frame \<Rightarrow> frame" where
  "create_amenities_score df =
     (case (get_col df ''gas'', get_col df ''hot_water'', get_col df ''central_heating'') of
        (Some g, Some h, Some c) \<Rightarrow>
          set_col ''amenities_score''
            (NumCol (map Fin (map2 (+) (map2 (+) (map ((+) 0) (is_yes g)) (is_yes h)) (is_yes c))))
            df
      | _ \<Rightarrow> df)"

definition create_volume_feature :: "frame \<Rightarrow> error + frame" where
  "create_volume_feature df =
     (if has_col df ''total_area'' \<and> has_col df ''ceil_height'' then
        and_then (num_col df ''total_area'') (\<lambda>total_area.
        and_then (num_col df ''ceil_height'') (\<lambda>ceil_height.
          Inr (set_col ''volume'' (NumCol (map2 fmul total_area ceil_height)) df)))
      else Inr df)"

definition create_extra_area_features :: "frame \<Rightarrow> error + frame" where
  "create_extra_area_features df =
     (if has_col df ''extra_area'' then
        and_then (num_col df ''extra_area'') (\<lambda>extra_area.
          let df1 = set_col ''has_extra_area''
                      (NumCol (map (\<lambda>x. bool_int (fgt x (Fin 0))) extra_area)) df
          in if has_col df1 ''total_area''
             then and_then (num_col df1 ''total_area'') (\<lambda>total_area.
                    let total_area_safe = replace0 (Fin 1) total_area in
                    Inr (set_col ''extra_area_ratio''
                           (NumCol (map2 fdiv extra_area total_area_safe)) df1))
             else Inr df1)
      else Inr df)"

definition create_interaction_features :: "frame \<Rightarrow> error + frame" where
  "create_interaction_features df =
     and_then
       (if has_col df ''rooms_count'' \<and> has_col df ''floor''
        then and_then (num_col df ''rooms_count'') (\<lambda>rooms.
             and_then (num_col df ''floor'') (\<lambda>floor.
               Inr (set_col ''rooms_floor_interaction'' (NumCol (map2 fmul rooms floor)) df)))
        else Inr df) (\<lambda>df1.
     if has_col df1 ''total_area'' \<and> has_col df1 ''building_age''
     then and_then (num_col df1 ''total_area'') (\<lambda>total_area.
          and_then (num_col df1 ''building_age'') (\<lambda>age.
            Inr (set_col ''area_age_interaction'' (NumCol (map2 fmul total_area age)) df1)))
     else Inr df1)"

definition when_enabled ::
  "bool pydict \<Rightarrow> string \<Rightarrow> (frame \<Rightarrow> error + frame) \<Rightarrow> frame \<Rightarrow> error + frame" where
  "when_enabled cfg k step df = (if cfg_get cfg k then step df else Inr df)"

text \<open>
  \<^verbatim>\<open>FeatureEngineer(df, config).engineer_all()\<close> on the engineer's own copy of the frame;
  \<^verbatim>\<open>config or FEATURE_ENGINEERING_CONFIG\<close> takes the default for \<^verbatim>\<open>None\<close> and for an empty
  dictionary.
\<close>

definition effective_config :: "bool pydict option \<Rightarrow> bool pydict" where
  "effective_config config =
     (case config of None \<Rightarrow> FEATURE_ENGINEERING_CONFIG
      | Some cfg \<Rightarrow> if cfg = [] then FEATURE_ENGINEERING_CONFIG else cfg)"

definition engineer_all :: "bool pydict option \<Rightarrow> frame \<Rightarrow> error + frame" where
  "engineer_all config df =
     (let cfg = effective_config config in
      and_then (when_enabled cfg ''building_age'' (create_building_age_features cfg) df) (\<lambda>df1.
      and_then (when_enabled cfg ''area_ratios'' create_area_ratio_features df1) (\<lambda>df2.
      and_then (when_enabled cfg ''floor_features'' create_floor_features df2) (\<lambda>df3.
      and_then (when_enabled cfg ''amenities_score'' (\<lambda>d. Inr (create_amenities_score d)) df3) (\<lambda>df4.
      and_then (when_enabled cfg ''volume'' create_volume_feature df4) (\<lambda>df5.
      and_then (when_enabled cfg ''extra_area_features'' create_extra_area_features df5) (\<lambda>df6.
      when_enabled cfg ''interaction_features'' create_interaction_features df6)))))))"

subsection \<open>Label encoding\<close>

text \<open>
  A fitted \<^verbatim>\<open>LabelEncoder\<close> is its \<^verbatim>\<open>classes_\<close>: the sorted distinct values seen at
  fit time. \<^verbatim>\<open>transform\<close> maps a value to its position and raises ValueError for a
  value that is not a class.
\<close>

definition fit_encoder :: "string list \<Rightarrow> string list" where
  "fit_encoder xs = sort (remdups xs)"

fun index_of :: "'a \<Rightarrow> 'a list \<Rightarrow> nat option" where
  "index_of x [] = None"
| "index_of x (y # ys) = (if x = y then Some 0 else map_option Suc (index_of x ys))"

fun le_transform :: "string list \<Rightarrow> string list \<Rightarrow> error + nat list" where
  "le_transform classes [] = Inr []"
| "le_transform classes (x # xs) =
     (case index_of x classes of
        None \<Rightarrow> Inl ValueError
      | Some i \<Rightarrow> and_then (le_transform classes xs) (\<lambda>is. Inr (i # is)))"

text \<open>\<^verbatim>\<open>lambda x: x if x in le.classes_ else le.classes_[0]\<close>\<close>

definition fallback :: "string list \<Rightarrow> string \<Rightarrow> error + string" where
  "fallback classes x =
     (if x \<in> set classes then Inr x
      else case classes of [] \<Rightarrow> Inl IndexError | c # _ \<Rightarrow> Inr c)"

fun map_err :: "('a \<Rightarrow> error + 'b) \<Rightarrow> 'a list \<Rightarrow> error + 'b list" where
  "map_err f [] = Inr []"
| "map_err f (x # xs) =
     (case f x of Inl e \<Rightarrow> Inl e | Inr v \<Rightarrow> and_then (map_err f xs) (\<lambda>vs. Inr (v # vs)))"

text \<open>The two statements of the branch \<^verbatim>\<open>fit=False\<close> on the strings of one column.\<close>

definition apply_encoding :: "string list \<Rightarrow> string list \<Rightarrow> error + nat list" where
  "apply_encoding classes xs = and_then (map_err (fallback classes) xs) (le_transform classes)"

definition code_column :: "nat list \<Rightarrow> column" where
  "code_column codes = NumCol (map (\<lambda>i. Fin (real i)) codes)"

subsection \<open>DataValidator\<close>

datatype issue =
    MissingValues string nat
  | ShouldBeNumeric string
  | ShouldBeCategorical string
  | RequiredColumnMissing string
  | BelowMinimum string nat
  | AboveMaximum string nat
  | DuplicateRecords nat

text \<open>\<^verbatim>\<open>VALIDATION_RULES\<close>: column, minimum, maximum; every rule is \<^verbatim>\<open>required\<close>.\<close>

definition VALIDATION_RULES :: "(string \<times> real \<times> real) list" where
  "VALIDATION_RULES =
     [(''price'', 1000000, 100000000), (''total_area'', 10, 500), (''rooms_count'', 0, 10),
      (''year'', 1800, 2025), (''floor'', 1, 100), (''ceil_height'', 3/2, 6)]"

definition check_missing_values :: "frame \<Rightarrow> issue list" where
  "check_missing_values df =
     map (\<lambda>(n, c). MissingValues n (count_missing c))
       (filter (\<lambda>(n, c). count_missing c > 0) (cols df))"

definition check_data_types :: "frame \<Rightarrow> issue list" where
  "check_data_types df =
     concat (map (\<lambda>c. case get_col df c of Some (StrCol xs) \<Rightarrow> [ShouldBeNumeric c] | _ \<Rightarrow> [])
               NUMERICAL_FEATURES) @
     concat (map (\<lambda>c. case get_col df c of Some (NumCol xs) \<Rightarrow> [ShouldBeCategorical c] | _ \<Rightarrow> [])
               CATEGORICAL_FEATURES)"

text \<open>
  \<^verbatim>\<open>(self.df[col] < rules['min']).sum()\<close>: comparing a string with a number raises
  TypeError; a missing value compares false.
\<close>

fun check_value_ranges :: "(string \<times> real \<times> real) list \<Rightarrow> frame \<Rightarrow> error + issue list" where
  "check_value_ranges [] df = Inr []"
| "check_value_ranges ((c, lo, hi) # rules) df =
     and_then
       (case get_col df c of
          None \<Rightarrow> Inr [RequiredColumnMissing c]
        | Some (StrCol xs) \<Rightarrow> if \<exists>x \<in> set xs. x \<noteq> None then Inl TypeError else Inr []
        | Some (NumCol xs) \<Rightarrow>
            let below = length (filter (\<lambda>x. fgt (Fin lo) x) xs);
                above = length (filter (\<lambda>x. fgt x (Fin hi)) xs)
            in Inr ((if below > 0 then [BelowMinimum c below] else []) @
                    (if above > 0 then [AboveMaximum c above] else [])))
       (\<lambda>found. and_then (check_value_ranges rules df) (\<lambda>others. Inr (found @ others)))"

definition check_duplicates :: "frame \<Rightarrow> issue list" where
  "check_duplicates df =
     (let n = nrows df - nrows (remove_duplicates df) in
      if n > 0 then [DuplicateRecords n] else [])"

definition validate_all :: "frame \<Rightarrow> error + bool \<times> issue list" where
  "validate_all df =
     and_then (check_value_ranges VALIDATION_RULES df) (\<lambda>ranges.
       let issues = check_missing_values df @ check_data_types df @ ranges @ check_duplicates df
       in Inr (issues = [], issues))"

subsection \<open>DataPreprocessor\<close>

record preprocessor =
  label_encoders :: "string list pydict"
  feature_names :: "string list"
  is_fitted :: bool

definition DataPreprocessor_init :: preprocessor where
  "DataPreprocessor_init = \<lparr>label_encoders = [], feature_names = [], is_fitted = False\<rparr>"

text \<open>
  The loop of \<^verbatim>\<open>_encode_categorical\<close> over the categorical features, on the copy of
  the frame: the state is the encoders and the frame.
\<close>

fun encode_columns ::
  "lib \<Rightarrow> bool \<Rightarrow> string list \<Rightarrow> string list pydict \<times> frame
     \<Rightarrow> error + string list pydict \<times> frame" where
  "encode_columns L fit [] st = Inr st"
| "encode_columns L fit (c # cs) (encs, df) =
     (case get_col df c of
        None \<Rightarrow> encode_columns L fit cs (encs, df)
      | Some v \<Rightarrow>
          if fit then
            (let classes = fit_encoder (astype_str L v) in
             and_then (le_transform classes (astype_str L v)) (\<lambda>codes.
               encode_columns L fit cs
                 (dict_set c classes encs, set_col c (code_column codes) df)))
          else
            (case map_of encs c of
               None \<Rightarrow> encode_columns L fit cs (encs, df)
             | Some classes \<Rightarrow>
                 and_then (apply_encoding classes (astype_str L v)) (\<lambda>codes.
                   encode_columns L fit cs (encs, set_col c (code_column codes) df))))"

definition encode_categorical ::
  "lib \<Rightarrow> string list pydict \<Rightarrow> bool \<Rightarrow> frame \<Rightarrow> error + string list pydict \<times> frame" where
  "encode_categorical L encs fit df = encode_columns L fit CATEGORICAL_FEATURES (encs, df)"

text \<open>
  The column reconciliation of \<^verbatim>\<open>transform\<close>. \<^verbatim>\<open>X[col] = 0\<close> adds a column of zeros, one
  per row. The missing features are a Python set, iterated in an order the language
  does not fix; here they are taken in the order of the frozen list.
\<close>

definition zero_col :: "nat \<Rightarrow> column" where
  "zero_col n = NumCol (replicate n (Fin 0))"

definition missing_features :: "string list \<Rightarrow> frame \<Rightarrow> string list" where
  "missing_features names X = remdups (filter (\<lambda>c. \<not> has_col X c) names)"

definition extra_features :: "string list \<Rightarrow> frame \<Rightarrow> string list" where
  "extra_features names X = filter (\<lambda>c. c \<notin> set names) (columns X)"

definition add_missing :: "string list \<Rightarrow> frame \<Rightarrow> frame" where
  "add_missing ms X = fold (\<lambda>c. set_col c (zero_col (nrows X))) ms X"

subsection \<open>The pipeline on a store of frames\<close>

text \<open>
  A DataFrame is an object: the store is the list of the frames allocated so far and
  an address is a position in it. \<^verbatim>\<open>df.copy()\<close>, \<^verbatim>\<open>drop\<close> and \<^verbatim>\<open>df[names]\<close> allocate a
  new frame; the methods of DataCleaner and FeatureEngineer and column assignment
  change the frame at an address in place. A computation takes the store and returns
  its result or exception together with the new store.
\<close>

type_synonym store = "frame list"

type_synonym 'a st = "store \<Rightarrow> (error + 'a) \<times> store"

definition st_return :: "'a \<Rightarrow> 'a st" where
  "st_return v h = (Inr v, h)"

definition st_bind :: "'a st \<Rightarrow> ('a \<Rightarrow> 'b st) \<Rightarrow> 'b st" where
  "st_bind m f h = (case m h of (Inl e, h') \<Rightarrow> (Inl e, h') | (Inr v, h') \<Rightarrow> f v h')"

definition st_lift :: "error + 'a \<Rightarrow> 'a st" where
  "st_lift r h = (r, h)"

definition st_read :: "nat \<Rightarrow> frame st" where
  "st_read a h = (Inr (h ! a), h)"

definition st_new :: "frame \<Rightarrow> nat st" where
  "st_new df h = (Inr (length h), h @ [df])"

definition st_copy :: "nat \<Rightarrow> nat st" where
  "st_copy a h = (Inr (length h), h @ [h ! a])"

definition st_in_place :: "nat \<Rightarrow> (frame \<Rightarrow> error + frame) \<Rightarrow> unit st" where
  "st_in_place a f h =
     (case f (h ! a) of Inl e \<Rightarrow> (Inl e, h) | Inr df \<Rightarrow> (Inr (), h[a := df]))"

text \<open>\<^verbatim>\<open>DataCleaner(df).clean()\<close>: the constructor copies, \<^verbatim>\<open>clean\<close> returns \<^verbatim>\<open>self.df\<close>.\<close>

definition DataCleaner_clean :: "lib \<Rightarrow> nat \<Rightarrow> nat st" where
  "DataCleaner_clean L a =
     st_bind (st_copy a) (\<lambda>self_df.
     st_bind (st_in_place self_df (clean L)) (\<lambda>_.
     st_return self_df))"

definition FeatureEngineer_engineer_all :: "bool pydict option \<Rightarrow> nat \<Rightarrow> nat st" where
  "FeatureEngineer_engineer_all config a =
     st_bind (st_copy a) (\<lambda>self_df.
     st_bind (st_in_place self_df (engineer_all config)) (\<lambda>_.
     st_return self_df))"

definition DataPreprocessor_encode_categorical ::
  "lib \<Rightarrow> string list pydict \<Rightarrow> bool \<Rightarrow> nat \<Rightarrow> (string list pydict \<times> nat) st" where
  "DataPreprocessor_encode_categorical L encs fit a =
     st_bind (st_copy a) (\<lambda>df.
     st_bind (st_read df) (\<lambda>v.
     st_bind (st_lift (encode_categorical L encs fit v)) (\<lambda>(encs', v').
     st_bind (st_in_place df (\<lambda>_. Inr v')) (\<lambda>_.
     st_return (encs', df)))))"

definition prepare :: "lib \<Rightarrow> string list pydict \<Rightarrow> bool \<Rightarrow> nat \<Rightarrow> (string list pydict \<times> nat) st" where
  "prepare L encs fit a =
     st_bind (DataCleaner_clean L a) (\<lambda>df_clean.
     st_bind (FeatureEngineer_engineer_all None df_clean) (\<lambda>df_engineered.
     DataPreprocessor_encode_categorical L encs fit df_engineered))"

definition fit_transform_st ::
  "lib \<Rightarrow> preprocessor \<Rightarrow> nat \<Rightarrow> string \<Rightarrow> (preprocessor \<times> nat \<times> column option) st" where
  "fit_transform_st L pp a target_col =
     st_bind (st_read a) (\<lambda>df.
     st_bind (st_lift (validate_all df)) (\<lambda>_.
     st_bind (prepare L (label_encoders pp) True a) (\<lambda>(encs, df_encoded).
     st_bind (st_read df_encoded) (\<lambda>enc.
     st_bind (if has_col enc target_col
              then st_bind (st_new (drop_cols [target_col] enc)) (\<lambda>X.
                     st_return (X, get_col enc target_col))
              else st_return (df_encoded, None)) (\<lambda>(X, y).
     st_bind (st_read X) (\<lambda>Xv.
     st_bind (st_new (drop_cols (filter (has_col Xv) [''index'', ''Unnamed: 0'']) Xv)) (\<lambda>X'.
     st_bind (st_read X') (\<lambda>Xv'.
     st_return (pp\<lparr>label_encoders := encs, feature_names := columns Xv', is_fitted := True\<rparr>,
                X', y)))))))))"

definition transform_st :: "lib \<Rightarrow> preprocessor \<Rightarrow> nat \<Rightarrow> nat st" where
  "transform_st L pp a =
     (if \<not> is_fitted pp then st_lift (Inl PreprocessorNotFitted)
      else
        st_bind (prepare L (label_encoders pp) False a) (\<lambda>(encs, df_encoded).
        st_bind (st_read df_encoded) (\<lambda>enc.
        st_bind (st_new (drop_cols (filter (has_col enc) [''index'', ''Unnamed: 0'', ''price'']) enc))
          (\<lambda>X.
        st_bind (st_read X) (\<lambda>Xv.
        st_bind (st_in_place X (\<lambda>v. Inr (add_missing (missing_features (feature_names pp) Xv) v)))
          (\<lambda>_.
        st_bind (st_read X) (\<lambda>Xv1.
        st_bind (if extra_features (feature_names pp) Xv1 \<noteq> []
                 then st_new (drop_cols (extra_features (feature_names pp) Xv1) Xv1)
                 else st_return X) (\<lambda>X1.
        st_bind (st_read X1) (\<lambda>Xv2.
        st_bind (st_lift (select_cols (feature_names pp) Xv2)) (\<lambda>Xv3.
        st_new Xv3))))))))))"

text \<open>
  The pipeline as a function of the caller's frame: run on a store that holds only
  that frame, the result is the frame at the returned address.
\<close>

definition transform :: "lib \<Rightarrow> preprocessor \<Rightarrow> frame \<Rightarrow> error + frame" where
  "transform L pp df =
     (case transform_st L pp 0 [df] of
        (Inl e, h) \<Rightarrow> Inl e
      | (Inr X, h) \<Rightarrow> Inr (h ! X))"

definition fit_transform ::
  "lib \<Rightarrow> preprocessor \<Rightarrow> frame \<Rightarrow> string \<Rightarrow> error + preprocessor \<times> frame \<times> column option" where
  "fit_transform L pp df target_col =
     (case fit_transform_st L pp 0 target_col [df] of
        (Inl e, h) \<Rightarrow> Inl e
      | (Inr (pp', X, y), h) \<Rightarrow> Inr (pp', h ! X, y))"

subsection \<open>A stub environment for concrete runs\<close>

text \<open>
  Feature matrices are lists of reals, the fitted state of a regressor is a scale
  factor that depends on its family, fitting always succeeds and a fitted regressor
  predicts its input times the factor. The arithmetic of the score is exact, with
  \<open>r2_score\<close> as defined above.
\<close>

definition stub_env :: "(real list, real) env" where
  "stub_env =
     \<lparr>fit_model = (\<lambda>k X y ev. Inr (case k of XGBRegressor \<Rightarrow> 1 | LGBMRegressor \<Rightarrow> 2
                                   | CatBoostRegressor \<Rightarrow> 3)),
      predict_model = (\<lambda>m X. Inr (map (\<lambda>x. m * x) X)),
      cross_val_score = (\<lambda>k X y. Inr []),
      elapsed = 0,
      fl_mul = (\<lambda>a b. a * b), fl_add = (\<lambda>a b. a + b), r2_fn = r2_score\<rparr>"

definition stub_trainer :: "string \<Rightarrow> kind \<Rightarrow> real \<Rightarrow> real trainer" where
  "stub_trainer mt k c =
     \<lparr>model_type = mt, model = Some (Estimator k (Some c)), training_time = 0, cv_scores = None\<rparr>"

definition stub_ensemble :: "real ensemble" where
  "stub_ensemble =
     \<lparr>model_types = boosting_types,
      models = [(''xgboost'', stub_trainer ''xgboost'' XGBRegressor 1),
                (''lightgbm'', stub_trainer ''lightgbm'' LGBMRegressor 2),
                (''catboost'', stub_trainer ''catboost'' CatBoostRegressor 3)],
      weights = None\<rparr>"

definition stub_predictions :: "real list pydict" where
  "stub_predictions = [(''xgboost'', [1, 2]), (''lightgbm'', [2, 4]), (''catboost'', [3, 6])]"

subsection \<open>Well-typed batches, and names used in the statements\<close>

text \<open>
  The columns on which FeatureEngineer does arithmetic. A batch is numerically
  well-typed when each of them, if present, is a float column.
\<close>

definition numeric_names :: "string list" where
  "numeric_names = ''building_age'' # NUMERICAL_FEATURES"

definition numeric_ok :: "frame \<Rightarrow> bool" where
  "numeric_ok df \<longleftrightarrow>
     list_all (\<lambda>c. case get_col df c of Some (StrCol xs) \<Rightarrow> False | _ \<Rightarrow> True) numeric_names"

definition derived_names :: "string list" where
  "derived_names =
     [''building_age'', ''building_age_squared'', ''kitchen_ratio'', ''bath_ratio'',
      ''living_area'', ''living_ratio'', ''area_per_room'', ''is_first_floor'', ''is_last_floor'',
      ''floor_ratio'', ''amenities_score'', ''volume'', ''has_extra_area'', ''extra_area_ratio'',
      ''rooms_floor_interaction'', ''area_age_interaction'']"

definition engineered_column :: "frame \<Rightarrow> string \<Rightarrow> error + column option" where
  "engineered_column df c = and_then (engineer_all None df) (\<lambda>df'. Inr (get_col df' c))"

text \<open>
  The quotient of two finite values by a non-zero divisor stays below the overflow
  threshold.
\<close>

definition quotient_fits :: "fval \<Rightarrow> fval \<Rightarrow> bool" where
  "quotient_fits a b =
     (case (a, b) of
        (Fin x, Fin y) \<Rightarrow> y \<noteq> 0 \<and> \<bar>x / y\<bar> < overflow_threshold
      | _ \<Rightarrow> False)"

definition finite_column :: "frame \<Rightarrow> string \<Rightarrow> fval list \<Rightarrow> bool" where
  "finite_column df c xs \<longleftrightarrow>
     get_col df c = Some (NumCol xs) \<and> length xs = nrows df \<and> list_all is_finite xs"

definition sample_frame :: "real \<Rightarrow> frame" where
  "sample_frame total_area =
     \<lparr>nrows = 1,
      cols = [(''kitchen_area'', NumCol [Fin 10]), (''bath_area'', NumCol [Fin 5]),
              (''other_area'', NumCol [Fin (101/2)]), (''gas'', StrCol [Some ''Yes'']),
              (''hot_water'', StrCol [Some ''Yes'']), (''central_heating'', StrCol [Some ''Yes'']),
              (''extra_area'', NumCol [Fin 10]), (''extra_area_count'', NumCol [Fin 1]),
              (''year'', NumCol [Fin 2010]), (''ceil_height'', NumCol [Fin (27/10)]),
              (''floor_max'', NumCol [Fin 10]), (''floor'', NumCol [Fin 5]),
              (''total_area'', NumCol [Fin total_area]), (''bath_count'', NumCol [Fin 1]),
              (''extra_area_type_name'', StrCol [Some ''Balcony'']),
              (''district_name'', StrCol [Some ''District1'']),
              (''rooms_count'', NumCol [Fin 3])]\<rparr>"

definition unchanged_except :: "string list \<Rightarrow> frame \<Rightarrow> frame \<Rightarrow> bool" where
  "unchanged_except outs df df' \<longleftrightarrow>
     nrows df' = nrows df \<and> (\<forall>c. c \<notin> set outs \<longrightarrow> get_col df' c = get_col df c)"

subsection \<open>Intermediate values of \<open>transform\<close>\<close>

text \<open>
  \<open>encoded_frame\<close> is the frame \<open>transform\<close> holds after cleaning, feature engineering,
  encoding and dropping the index and target columns; \<open>reconcile\<close> is its last block,
  which adds the missing feature columns, drops the extra ones and selects
  \<open>feature_names\<close>. Python iterates the set of missing names in an unspecified order,
  so \<open>reconcile_with\<close> takes the iteration order as a parameter. \<open>st_grows\<close> says
  that a store computation only appends to the store.
\<close>

definition reconcile_with :: "string list \<Rightarrow> string list \<Rightarrow> frame \<Rightarrow> error + frame" where
  "reconcile_with ms names X =
     (let X1 = add_missing ms X; extra = extra_features names X1
      in select_cols names (if extra \<noteq> [] then drop_cols extra X1 else X1))"

definition reconcile :: "string list \<Rightarrow> frame \<Rightarrow> error + frame" where
  "reconcile names X = reconcile_with (missing_features names X) names X"

definition encoded_frame :: "lib \<Rightarrow> preprocessor \<Rightarrow> frame \<Rightarrow> error + frame" where
  "encoded_frame L pp df =
     and_then (clean L df) (\<lambda>df_clean.
     and_then (engineer_all None df_clean) (\<lambda>df_engineered.
     and_then (encode_categorical L (label_encoders pp) False df_engineered) (\<lambda>(encs, enc).
       Inr (drop_cols (filter (has_col enc) [''index'', ''Unnamed: 0'', ''price'']) enc))))"

definition st_grows :: "'a st \<Rightarrow> bool" where
  "st_grows m \<longleftrightarrow> (\<forall>h. \<exists>ys. snd (m h) = h @ ys)"

subsection \<open>Well-typed input batches\<close>

text \<open>
  A batch is well typed when its columns are distinct and of the frame's length, its
  numerical features hold numbers, and each categorical feature it has is complete or
  has at least one value present (so that its mode exists). Fitted encoders have a
  non-empty vocabulary.
\<close>

definition fillable :: "column \<Rightarrow> bool" where
  "fillable v \<longleftrightarrow> count_missing v = 0 \<or> count_missing v < col_len v"

definition categorical_ok :: "frame \<Rightarrow> bool" where
  "categorical_ok df \<longleftrightarrow>
     list_all (\<lambda>c. case get_col df c of None \<Rightarrow> True | Some v \<Rightarrow> fillable v) CATEGORICAL_FEATURES"

definition well_typed :: "frame \<Rightarrow> bool" where
  "well_typed df \<longleftrightarrow> wf_frame df \<and> numeric_ok df \<and> categorical_ok df"

definition encoders_ok :: "string list pydict \<Rightarrow> bool" where
  "encoders_ok encs \<longleftrightarrow> list_all (\<lambda>(c, classes). classes \<noteq> []) encs"

subsection \<open>A fitted preprocessor and a raw batch\<close>

definition stub_lib :: lib where
  "stub_lib = \<lparr>to_numeric = (\<lambda>s. NaN), str_of_num = (\<lambda>x. ''num'')\<rparr>"

definition fitted_preprocessor :: preprocessor where
  "fitted_preprocessor =
     \<lparr>label_encoders = [(''gas'', [''No'', ''Yes''])],
      feature_names = [''total_area'', ''gas'', ''area_per_room'', ''district_name''],
      is_fitted = True\<rparr>"

definition raw_frame :: frame where
  "raw_frame =
     \<lparr>nrows = 1,
      cols = [(''note'', StrCol [Some ''x'']), (''gas'', StrCol [Some ''Maybe'']),
              (''rooms_count'', NumCol [Fin 3]), (''total_area'', NumCol [Fin 65])]\<rparr>"

subsection \<open>Fitted encoders for a concrete run\<close>

definition encoders_gas :: "string list pydict" where
  "encoders_gas = [(''gas'', fit_encoder [''Yes'', ''No'', ''Yes''])]"

subsection \<open>A pipeline used twice\<close>

text \<open>
  An environment in which fitting raises on an empty training set and otherwise behaves
  as the stub; the pipeline after a first call that trained xgboost and lightgbm with
  a validation split, and after a second call on an empty training set.
\<close>

definition strict_env :: "(real list, real) env" where
  "strict_env =
     \<lparr>fit_model = (\<lambda>k X y ev. if y = [] then Inl (LibraryError 0)
                              else Inr (case k of XGBRegressor \<Rightarrow> 1 | LGBMRegressor \<Rightarrow> 2
                                        | CatBoostRegressor \<Rightarrow> 3)),
      predict_model = (\<lambda>m X. Inr (map (\<lambda>x. m * x) X)),
      cross_val_score = (\<lambda>k X y. Inr []),
      elapsed = 0,
      fl_mul = (\<lambda>a b. a * b), fl_add = (\<lambda>a b. a + b), r2_fn = r2_score\<rparr>"

definition first_call :: "real pipeline" where
  "first_call =
     \<lparr>models_to_train = [''xgboost'', ''lightgbm'', ''ensemble''],
      trained_models =
        [(''xgboost'', Single (stub_trainer ''xgboost'' XGBRegressor 1)),
         (''lightgbm'', Single (stub_trainer ''lightgbm'' LGBMRegressor 2)),
         (''ensemble'', Ensemble
            \<lparr>model_types = [''xgboost'', ''lightgbm''],
             models = [(''xgboost'', stub_trainer ''xgboost'' XGBRegressor 1),
                       (''lightgbm'', stub_trainer ''lightgbm'' LGBMRegressor 2)],
             weights = None\<rparr>)]\<rparr>"

definition second_call :: "real pipeline" where
  "second_call =
     \<lparr>models_to_train = [''xgboost'', ''lightgbm'', ''ensemble''],
      trained_models =
        [(''xgboost'', Single (stub_trainer ''xgboost'' XGBRegressor 1)),
         (''lightgbm'', Single (stub_trainer ''lightgbm'' LGBMRegressor 2)),
         (''ensemble'', Ensemble
            \<lparr>model_types = [''xgboost'', ''lightgbm''],
             models = [(''xgboost'', stub_trainer ''xgboost'' XGBRegressor 1),
                       (''lightgbm'', stub_trainer ''lightgbm'' LGBMRegressor 2)],
             weights = Some [(''xgboost'', 1/2), (''lightgbm'', 1/2)]\<rparr>)]\<rparr>"

subsection \<open>The raw batch along the pipeline, and a batch with a missing category\<close>

definition engineered_raw_frame :: frame where
  "engineered_raw_frame =
     \<lparr>nrows = 1,
      cols = [(''note'', StrCol [Some ''x'']), (''gas'', StrCol [Some ''Maybe'']),
              (''rooms_count'', NumCol [Fin 3]), (''total_area'', NumCol [Fin 65]),
              (''area_per_room'', NumCol [Fin (65/3)])]\<rparr>"

definition encoded_raw_frame :: frame where
  "encoded_raw_frame =
     \<lparr>nrows = 1,
      cols = [(''note'', StrCol [Some ''x'']), (''gas'', NumCol [Fin 0]),
              (''rooms_count'', NumCol [Fin 3]), (''total_area'', NumCol [Fin 65]),
              (''area_per_room'', NumCol [Fin (65/3)])]\<rparr>"

definition missing_gas_frame :: frame where
  "missing_gas_frame =
     \<lparr>nrows = 1,
      cols = [(''gas'', StrCol [None]), (''rooms_count'', NumCol [Fin 3]),
              (''total_area'', NumCol [Fin 65])]\<rparr>"

section \<open>Properties\<close>

lemma and_then_simps [simp]:
  "and_then (Inl e) f = Inl e"
  "and_then (Inr v) f = f v"
  by (simp_all add: and_then_def)

lemma fin_small: "\<bar>r\<bar> < 2 ^ 64 \<Longrightarrow> fin r = Fin r"
proof -
  have "(2::real) ^ 64 < overflow_threshold"
    by (simp add: overflow_threshold_def)
  then show "\<bar>r\<bar> < 2 ^ 64 \<Longrightarrow> fin r = Fin r"
    by (simp add: fin_def)
qed

lemma overflow_threshold_pos: "0 < overflow_threshold"
  by (simp add: overflow_threshold_def)

lemma is_finite_fin: "is_finite (fin r) \<longleftrightarrow> \<bar>r\<bar> < overflow_threshold"
  by (simp add: fin_def is_finite_def inf_of_sign_def)

lemma fin_not_NaN: "fin r \<noteq> NaN"
  using overflow_threshold_pos by (auto simp: fin_def inf_of_sign_def)

lemma is_finite_small: "\<bar>r\<bar> < 2 ^ 64 \<Longrightarrow> is_finite (Fin r)"
proof -
  have "(2::real) ^ 64 < overflow_threshold"
    by (simp add: overflow_threshold_def)
  then show "\<bar>r\<bar> < 2 ^ 64 \<Longrightarrow> is_finite (Fin r)"
    by (simp add: is_finite_def)
qed

lemma build_model_unknown:
  "\<not> known_model_type (model_type tr) \<Longrightarrow> build_model tr = Inl (UnknownModelType (model_type tr))"
  by (simp add: build_model_def known_model_type_def)

subsection \<open>ModelTrainer: where an unknown model type fails\<close>

lemma train_unknown:
  "\<not> known_model_type mt \<Longrightarrow>
   train E (ModelTrainer_init mt) X y Xv yv = Inl (UnknownModelType mt)"
  by (simp add: train_def ModelTrainer_init_def build_model_unknown)

text \<open>
  C4 (as stated): an unknown model type fails at construction time, never at train time.
  It does not hold: the constructor stores the string and returns a trainer without a
  model, and the failure is raised by \<^verbatim>\<open>build_model\<close> inside the later \<^verbatim>\<open>train\<close> call.
\<close>

theorem unknown_type_fails_in_train_counterexample:
  "\<not> known_model_type ''random_forest'' \<and>
   (ModelTrainer_init ''random_forest'' :: real trainer) =
     \<lparr>model_type = ''random_forest'', model = None, training_time = 0, cv_scores = None\<rparr> \<and>
   train stub_env (ModelTrainer_init ''random_forest'') [1] [1] None None =
     Inl (UnknownModelType ''random_forest'')"
  by (simp add: train_def ModelTrainer_init_def build_model_def known_model_type_def)

text \<open>
  C4 (amended): for every model type outside xgboost, lightgbm and catboost, constructing
  the ModelTrainer succeeds and yields a trainer holding the type and no model; the
  first \<^verbatim>\<open>train\<close> call (and likewise \<^verbatim>\<open>cross_validate\<close>) fails with the unknown-type
  error, whatever the data and before the regressor library is called.
\<close>

theorem unknown_type_fails_at_first_use:
  assumes "\<not> known_model_type mt"
  shows "model_type (ModelTrainer_init mt :: 'm trainer) = mt \<and>
         model (ModelTrainer_init mt :: 'm trainer) = None \<and>
         train E (ModelTrainer_init mt) X y Xv yv = Inl (UnknownModelType mt) \<and>
         cross_validate E (ModelTrainer_init mt) X y = Inl (UnknownModelType mt)"
  using assms
  by (simp add: train_def cross_validate_def ModelTrainer_init_def build_model_unknown)

theorem unknown_type_fails_at_first_use_witness:
  "\<not> known_model_type ''svm'' \<and>
   model (ModelTrainer_init ''svm'' :: real trainer) = None \<and>
   train stub_env (ModelTrainer_init ''svm'') [1, 2] [3, 4] (Some [5]) (Some [6]) =
     Inl (UnknownModelType ''svm'')"
proof -
  have h: "\<not> known_model_type ''svm''"
    by (simp add: known_model_type_def)
  show ?thesis
    using h unknown_type_fails_at_first_use [OF h, of stub_env "[1, 2]" "[3, 4]" "Some [5]" "Some [6]"]
    by blast
qed

subsection \<open>Dictionaries\<close>

lemma dict_set_keys: "fst ` set (dict_set k v d) = insert k (fst ` set d)"
  by (simp add: dict_set_def AList.dom_update)

lemma map_of_dict_set: "map_of (dict_set k v d) = (map_of d)(k \<mapsto> v)"
  by (simp add: dict_set_def AList.update_conv')

lemma dict_set_new: "k \<notin> fst ` set d \<Longrightarrow> dict_set k v d = d @ [(k, v)]"
  by (induction d) (auto simp: dict_set_def)

lemma dict_of_pairs_acc:
  "distinct (map fst (acc @ kvs)) \<Longrightarrow>
   foldl (\<lambda>d (k, v). dict_set k v d) acc kvs = acc @ kvs"
proof (induction kvs arbitrary: acc)
  case Nil
  then show ?case by simp
next
  case (Cons kv kvs)
  obtain k v where kv: "kv = (k, v)" by (cases kv)
  from Cons.prems kv have new: "k \<notin> fst ` set acc" by auto
  from Cons.prems kv have "distinct (map fst ((acc @ [(k, v)]) @ kvs))" by auto
  from Cons.IH [OF this] new kv show ?case
    by (simp add: dict_set_new)
qed

lemma dict_of_pairs_distinct: "distinct (map fst kvs) \<Longrightarrow> dict_of_pairs kvs = kvs"
  using dict_of_pairs_acc [of "[]" kvs] by (simp add: dict_of_pairs_def)

subsection \<open>Weights that sum to one\<close>

lemma equal_weights_distinct:
  "distinct mts \<Longrightarrow> equal_weights mts = map (\<lambda>mt. (mt, 1 / real (length mts))) mts"
  by (simp add: equal_weights_def dict_of_pairs_distinct comp_def)

lemma equal_weights_sum:
  assumes "distinct mts" "mts \<noteq> []"
  shows "sum_list (dict_values (equal_weights mts)) = 1"
  using assms
  by (simp add: equal_weights_distinct dict_values_def comp_def sum_list_triv)

subsection \<open>Rounding to float64\<close>

declare ilog2.simps [simp del]

lemma ilog2_bounds: "0 < n \<Longrightarrow> 2 ^ ilog2 n \<le> n \<and> n < 2 ^ Suc (ilog2 n)"
proof (induction n rule: ilog2.induct)
  case (1 n)
  show ?case
  proof (cases "n < 2")
    case True
    with 1 show ?thesis by (simp add: ilog2.simps [of n])
  next
    case False
    then have "0 < n div 2" by simp
    from 1(1) [OF False this]
    have "2 ^ ilog2 (n div 2) \<le> n div 2" "n div 2 < 2 ^ Suc (ilog2 (n div 2))"
      by simp_all
    with False show ?thesis
      by (simp add: ilog2.simps [of n]) linarith
  qed
qed

lemma ilog2_eqI:
  assumes "2 ^ k \<le> n" "n < 2 ^ Suc k"
  shows "ilog2 n = k"
proof -
  from assms(1) have pos: "0 < n"
    by (metis less_le_trans zero_less_numeral zero_less_power)
  note b = ilog2_bounds [OF pos]
  have "(2::nat) ^ k < 2 ^ Suc (ilog2 n)"
    using assms(1) b by linarith
  then have "k < Suc (ilog2 n)"
    by (simp only: power_strict_increasing_iff one_less_numeral_iff semiring_norm)
  moreover have "(2::nat) ^ ilog2 n < 2 ^ Suc k"
    using assms(2) b by linarith
  then have "ilog2 n < Suc k"
    by (simp only: power_strict_increasing_iff one_less_numeral_iff semiring_norm)
  ultimately show ?thesis by simp
qed

lemma binade_ge1:
  assumes "2 ^ k \<le> \<bar>x\<bar>" "\<bar>x\<bar> < 2 ^ Suc k"
  shows "binade x = int k"
proof -
  have one: "1 \<le> \<bar>x\<bar>"
    using assms(1) one_le_power [of "2::real" k] by linarith
  have "(2::int) ^ k \<le> \<lfloor>\<bar>x\<bar>\<rfloor>"
    using assms(1) by (simp add: le_floor_iff)
  then have a: "2 ^ k \<le> nat \<lfloor>\<bar>x\<bar>\<rfloor>"
    by (simp add: le_nat_iff)
  have "\<lfloor>\<bar>x\<bar>\<rfloor> < (2::int) ^ Suc k"
    using assms(2) by (simp add: floor_less_iff)
  then have b: "nat \<lfloor>\<bar>x\<bar>\<rfloor> < 2 ^ Suc k"
    by (simp add: nat_less_iff)
  from ilog2_eqI [OF a b] one show ?thesis
    by (simp add: binade_def)
qed

lemma binade_lt1:
  assumes "1 / 2 ^ Suc k \<le> \<bar>x\<bar>" "\<bar>x\<bar> < 1 / 2 ^ k"
  shows "binade x = - int (Suc k)"
proof -
  have pos: "0 < \<bar>x\<bar>"
  proof -
    have "0 < 1 / (2::real) ^ Suc k" by simp
    with assms(1) show ?thesis by linarith
  qed
  have lt1: "\<not> 1 \<le> \<bar>x\<bar>"
  proof -
    have "1 / (2::real) ^ k \<le> 1" by simp
    with assms(2) show ?thesis by linarith
  qed
  let ?y = "1 / \<bar>x\<bar>"
  have u: "?y \<le> 2 ^ Suc k"
    using assms(1) pos by (simp add: field_simps)
  have l: "2 ^ k < ?y"
    using assms(2) pos by (simp add: field_simps)
  have cu: "\<lceil>?y\<rceil> \<le> (2::int) ^ Suc k"
    using u by (simp add: ceiling_le_iff)
  have cl: "(2::int) ^ k < \<lceil>?y\<rceil>"
    using l by (simp add: less_ceiling_iff)
  have a: "2 ^ k \<le> nat (\<lceil>?y\<rceil> - 1)"
  proof -
    from cl have "(2::int) ^ k \<le> \<lceil>?y\<rceil> - 1" by simp
    moreover have "(0::int) \<le> 2 ^ k" by simp
    ultimately show ?thesis
      by (simp add: le_nat_iff)
  qed
  have b: "nat (\<lceil>?y\<rceil> - 1) < 2 ^ Suc k"
  proof -
    from cu have "\<lceil>?y\<rceil> - 1 < (2::int) ^ Suc k" by simp
    moreover have "(0::int) \<le> 2 ^ k" by simp
    with cl have "0 \<le> \<lceil>?y\<rceil> - 1" by linarith
    ultimately show ?thesis
      by (simp add: nat_less_iff)
  qed
  from ilog2_eqI [OF a b] lt1 show ?thesis
    by (simp add: binade_def)
qed

lemma r64_scaled:
  assumes "max (binade x) (- 1022) - 52 = - int n"
  shows "r64 x = of_int (rne (x * 2 ^ n)) / 2 ^ n"
proof -
  have p: "2 powi (- int n) = 1 / (2::real) ^ n"
    by (simp add: power_int_minus divide_inverse)
  show ?thesis
    unfolding r64_def assms Let_def p by simp
qed

text \<open>The rounding of a number between two neighbouring powers of two.\<close>

lemma r64_ge1:
  assumes "2 ^ k \<le> \<bar>x\<bar>" "\<bar>x\<bar> < 2 ^ Suc k" "k \<le> 52"
  shows "r64 x = of_int (rne (x * 2 ^ (52 - k))) / 2 ^ (52 - k)"
proof (rule r64_scaled)
  show "max (binade x) (- 1022) - 52 = - int (52 - k)"
    using assms(3) by (simp add: binade_ge1 [OF assms(1,2)])
qed

lemma r64_lt1:
  assumes "1 / 2 ^ Suc k \<le> \<bar>x\<bar>" "\<bar>x\<bar> < 1 / 2 ^ k" "Suc k \<le> 1022"
  shows "r64 x = of_int (rne (x * 2 ^ (53 + k))) / 2 ^ (53 + k)"
proof (rule r64_scaled)
  show "max (binade x) (- 1022) - 52 = - int (53 + k)"
    using assms(3) by (simp add: binade_lt1 [OF assms(1,2)])
qed

lemmas r64_eval =
  r64_lt1 [of 3] r64_lt1 [of 2] r64_lt1 [of 1] r64_lt1 [of 0]
  r64_ge1 [of 0] r64_ge1 [of 1] r64_ge1 [of 2]

lemmas r64_sub =
  r64_lt1 [of 52] r64_lt1 [of 51] r64_lt1 [of 3] r64_lt1 [of 2] r64_lt1 [of 1] r64_lt1 [of 0]

text \<open>The float64 literals \<^verbatim>\<open>0.2\<close>, \<^verbatim>\<open>0.1\<close> and \<^verbatim>\<open>0.8\<close>.\<close>

lemma float_literals:
  "r64 (2/10) = 3602879701896397/18014398509481984"
  "r64 (1/5) = 3602879701896397/18014398509481984"
  "r64 (1/10) = 3602879701896397/36028797018963968"
  "r64 (8/10) = 3602879701896397/4503599627370496"
  "r64 (4/5) = 3602879701896397/4503599627370496"
  by (simp_all add: r64_eval rne_def)

subsection \<open>The grid search of \<^verbatim>\<open>optimize_weights\<close>\<close>

text \<open>
  \<^verbatim>\<open>np.arange(0.2, 0.8, 0.1)\<close> has seven elements: 0.2, 0.30000000000000004,
  0.4000000000000001, 0.5000000000000001, 0.6000000000000001, 0.7000000000000002 and
  0.8000000000000003.
\<close>

lemma arange_grid:
  "arange (r64 (2/10)) (r64 (8/10)) (r64 (1/10)) =
    [3602879701896397/18014398509481984,
     1351079888211149/4503599627370496,
     7205759403792795/18014398509481984,
     4503599627370497/9007199254740992,
     1351079888211149/2251799813685248,
     788129934789837/1125899906842624,
     1801439850948199/2251799813685248]"
  by (simp add: arange_def float_literals r64_eval rne_def Let_def upt_rec)

text \<open>The third weight \<^verbatim>\<open>1 - w1 - w2\<close> for the 49 pairs of the grid.\<close>

lemma third_weight_grid:
  "third_weight (3602879701896397/18014398509481984) (3602879701896397/18014398509481984) = 1351079888211149/2251799813685248"
  "third_weight (3602879701896397/18014398509481984) (1351079888211149/4503599627370496) = 1/2"
  "third_weight (3602879701896397/18014398509481984) (7205759403792795/18014398509481984) = 7205759403792793/18014398509481984"
  "third_weight (3602879701896397/18014398509481984) (4503599627370497/9007199254740992) = 2702159776422297/9007199254740992"
  "third_weight (3602879701896397/18014398509481984) (1351079888211149/2251799813685248) = 900719925474099/4503599627370496"
  "third_weight (3602879701896397/18014398509481984) (788129934789837/1125899906842624) = 450359962737049/4503599627370496"
  "third_weight (3602879701896397/18014398509481984) (1801439850948199/2251799813685248) = - (1/4503599627370496)"
  "third_weight (1351079888211149/4503599627370496) (3602879701896397/18014398509481984) = 9007199254740991/18014398509481984"
  "third_weight (1351079888211149/4503599627370496) (1351079888211149/4503599627370496) = 900719925474099/2251799813685248"
  "third_weight (1351079888211149/4503599627370496) (7205759403792795/18014398509481984) = 5404319552844593/18014398509481984"
  "third_weight (1351079888211149/4503599627370496) (4503599627370497/9007199254740992) = 1801439850948197/9007199254740992"
  "third_weight (1351079888211149/4503599627370496) (1351079888211149/2251799813685248) = 450359962737049/4503599627370496"
  "third_weight (1351079888211149/4503599627370496) (788129934789837/1125899906842624) = - (1/4503599627370496)"
  "third_weight (1351079888211149/4503599627370496) (1801439850948199/2251799813685248) = - (450359962737051/4503599627370496)"
  "third_weight (7205759403792795/18014398509481984) (3602879701896397/18014398509481984) = 7205759403792791/18014398509481984"
  "third_weight (7205759403792795/18014398509481984) (1351079888211149/4503599627370496) = 337769972052787/1125899906842624"
  "third_weight (7205759403792795/18014398509481984) (7205759403792795/18014398509481984) = 3602879701896393/18014398509481984"
  "third_weight (7205759403792795/18014398509481984) (4503599627370497/9007199254740992) = 900719925474097/9007199254740992"
  "third_weight (7205759403792795/18014398509481984) (1351079888211149/2251799813685248) = - (1/4503599627370496)"
  "third_weight (7205759403792795/18014398509481984) (788129934789837/1125899906842624) = - (450359962737051/4503599627370496)"
  "third_weight (7205759403792795/18014398509481984) (1801439850948199/2251799813685248) = - (900719925474101/4503599627370496)"
  "third_weight (4503599627370497/9007199254740992) (3602879701896397/18014398509481984) = 5404319552844593/18014398509481984"
  "third_weight (4503599627370497/9007199254740992) (1351079888211149/4503599627370496) = 1801439850948197/9007199254740992"
  "third_weight (4503599627370497/9007199254740992) (7205759403792795/18014398509481984) = 1801439850948195/18014398509481984"
  "third_weight (4503599627370497/9007199254740992) (4503599627370497/9007199254740992) = - (1/4503599627370496)"
  "third_weight (4503599627370497/9007199254740992) (1351079888211149/2251799813685248) = - (900719925474101/9007199254740992)"
  "third_weight (4503599627370497/9007199254740992) (788129934789837/1125899906842624) = - (1801439850948201/9007199254740992)"
  "third_weight (4503599627370497/9007199254740992) (1801439850948199/2251799813685248) = - (2702159776422301/9007199254740992)"
  "third_weight (1351079888211149/2251799813685248) (3602879701896397/18014398509481984) = 3602879701896395/18014398509481984"
  "third_weight (1351079888211149/2251799813685248) (1351079888211149/4503599627370496) = 450359962737049/4503599627370496"
  "third_weight (1351079888211149/2251799813685248) (7205759403792795/18014398509481984) = - (3/18014398509481984)"
  "third_weight (1351079888211149/2251799813685248) (4503599627370497/9007199254740992) = - (900719925474101/9007199254740992)"
  "third_weight (1351079888211149/2251799813685248) (1351079888211149/2251799813685248) = - (225179981368525/1125899906842624)"
  "third_weight (1351079888211149/2251799813685248) (788129934789837/1125899906842624) = - (675539944105575/2251799813685248)"
  "third_weight (1351079888211149/2251799813685248) (1801439850948199/2251799813685248) = - (225179981368525/562949953421312)"
  "third_weight (788129934789837/1125899906842624) (3602879701896397/18014398509481984) = 1801439850948195/18014398509481984"
  "third_weight (788129934789837/1125899906842624) (1351079888211149/4503599627370496) = - (1/4503599627370496)"
  "third_weight (788129934789837/1125899906842624) (7205759403792795/18014398509481984) = - (1801439850948203/18014398509481984)"
  "third_weight (788129934789837/1125899906842624) (4503599627370497/9007199254740992) = - (1801439850948201/9007199254740992)"
  "third_weight (788129934789837/1125899906842624) (1351079888211149/2251799813685248) = - (675539944105575/2251799813685248)"
  "third_weight (788129934789837/1125899906842624) (788129934789837/1125899906842624) = - (225179981368525/562949953421312)"
  "third_weight (788129934789837/1125899906842624) (1801439850948199/2251799813685248) = - (1125899906842625/2251799813685248)"
  "third_weight (1801439850948199/2251799813685248) (3602879701896397/18014398509481984) = - (5/18014398509481984)"
  "third_weight (1801439850948199/2251799813685248) (1351079888211149/4503599627370496) = - (450359962737051/4503599627370496)"
  "third_weight (1801439850948199/2251799813685248) (7205759403792795/18014398509481984) = - (3602879701896403/18014398509481984)"
  "third_weight (1801439850948199/2251799813685248) (4503599627370497/9007199254740992) = - (2702159776422301/9007199254740992)"
  "third_weight (1801439850948199/2251799813685248) (1351079888211149/2251799813685248) = - (225179981368525/562949953421312)"
  "third_weight (1801439850948199/2251799813685248) (788129934789837/1125899906842624) = - (1125899906842625/2251799813685248)"
  "third_weight (1801439850948199/2251799813685248) (1801439850948199/2251799813685248) = - (675539944105575/1125899906842624)"
  by (simp add: third_weight_def r64_sub rne_def)+

text \<open>
  Fifteen pairs pass the test on the third weight. The six pairs with
  \<open>w1 + w2\<close> near 0.9 do not: their third weight is 0.09999999999999998 or less,
  below the float64 literal \<^verbatim>\<open>0.1\<close>.
\<close>

lemma candidates_eq:
  "candidates =
    [(3602879701896397/18014398509481984, 3602879701896397/18014398509481984),
     (3602879701896397/18014398509481984, 1351079888211149/4503599627370496),
     (3602879701896397/18014398509481984, 7205759403792795/18014398509481984),
     (3602879701896397/18014398509481984, 4503599627370497/9007199254740992),
     (3602879701896397/18014398509481984, 1351079888211149/2251799813685248),
     (1351079888211149/4503599627370496, 3602879701896397/18014398509481984),
     (1351079888211149/4503599627370496, 1351079888211149/4503599627370496),
     (1351079888211149/4503599627370496, 7205759403792795/18014398509481984),
     (1351079888211149/4503599627370496, 4503599627370497/9007199254740992),
     (7205759403792795/18014398509481984, 3602879701896397/18014398509481984),
     (7205759403792795/18014398509481984, 1351079888211149/4503599627370496),
     (7205759403792795/18014398509481984, 7205759403792795/18014398509481984),
     (4503599627370497/9007199254740992, 3602879701896397/18014398509481984),
     (4503599627370497/9007199254740992, 1351079888211149/4503599627370496),
     (1351079888211149/2251799813685248, 3602879701896397/18014398509481984)]"
  unfolding candidates_def grid_points_def arange_grid
  by (simp add: admissible_def third_weight_grid float_literals)

lemma grid_body_eq:
  "grid_body E mts P y w st =
     (if \<not> admissible w then Inr st
      else case score_of E mts P y w of
             Inl e \<Rightarrow> Inl e
           | Inr s \<Rightarrow> if fgt s (fst st)
                      then Inr (s, Some (dict_of_pairs (zip mts (triple w)))) else Inr st)"
  by (cases w)
     (auto simp: grid_body_def admissible_def third_weight_def score_of_def triple_def Let_def
           and_then_def split: sum.splits)

lemma grid_loop_filter:
  "grid_loop E mts P y ps st = grid_loop E mts P y (filter admissible ps) st"
  by (induction ps arbitrary: st) (auto simp: grid_body_eq split: sum.splits)

lemma fgt_trans: "fgt s a \<Longrightarrow> fgt a b \<Longrightarrow> fgt s b"
  by (cases s; cases a; cases b) auto

lemma fgt_between: "\<not> fgt a b \<Longrightarrow> fgt s b \<Longrightarrow> b \<noteq> NaN \<Longrightarrow> fgt s a \<or> a = NaN"
  by (cases s; cases a; cases b) auto

lemma fgt_not_NaN: "fgt s b \<Longrightarrow> s \<noteq> NaN"
  by (cases s) auto

lemma fgt_irrefl: "\<not> fgt s s"
  by (cases s) auto

lemma grid_loop_first_max:
  assumes "grid_loop E mts P y ps (b, bw) = Inr (b', bw')" "b \<noteq> NaN"
    and "\<forall>w\<in>set ps. admissible w"
  shows "(\<forall>w\<in>set ps. \<exists>s. score_of E mts P y w = Inr s) \<and>
     ((b' = b \<and> bw' = bw \<and>
         (\<forall>w\<in>set ps. \<forall>s. score_of E mts P y w = Inr s \<longrightarrow> \<not> fgt s b))
      \<or> (\<exists>pre w post s. ps = pre @ w # post \<and> b' = s \<and>
            score_of E mts P y w = Inr s \<and> fgt s b \<and>
            bw' = Some (dict_of_pairs (zip mts (triple w))) \<and>
            (\<forall>v\<in>set pre. \<forall>sv. score_of E mts P y v = Inr sv \<longrightarrow> fgt s sv \<or> sv = NaN) \<and>
            (\<forall>v\<in>set post. \<forall>sv. score_of E mts P y v = Inr sv \<longrightarrow> \<not> fgt sv s)))"
  using assms
proof (induction ps arbitrary: b bw)
  case Nil
  then show ?case by simp
next
  case (Cons w ps)
  from Cons.prems have adm: "admissible w" and adms: "\<forall>w\<in>set ps. admissible w"
    by simp_all
  from Cons.prems(1) adm obtain s0 where s0: "score_of E mts P y w = Inr s0"
    by (auto simp: grid_body_eq split: sum.splits)
  show ?case
  proof (cases "fgt s0 b")
    case True
    with Cons.prems(1) adm s0
    have run: "grid_loop E mts P y ps (s0, Some (dict_of_pairs (zip mts (triple w)))) = Inr (b', bw')"
      by (simp add: grid_body_eq)
    from True have nn: "s0 \<noteq> NaN" by (rule fgt_not_NaN)
    from Cons.IH [OF run nn adms]
    have all: "\<forall>w\<in>set ps. \<exists>s. score_of E mts P y w = Inr s"
      and alt: "(b' = s0 \<and> bw' = Some (dict_of_pairs (zip mts (triple w))) \<and>
         (\<forall>w\<in>set ps. \<forall>s. score_of E mts P y w = Inr s \<longrightarrow> \<not> fgt s s0))
      \<or> (\<exists>pre w' post s. ps = pre @ w' # post \<and> b' = s \<and>
            score_of E mts P y w' = Inr s \<and> fgt s s0 \<and>
            bw' = Some (dict_of_pairs (zip mts (triple w'))) \<and>
            (\<forall>v\<in>set pre. \<forall>sv. score_of E mts P y v = Inr sv \<longrightarrow> fgt s sv \<or> sv = NaN) \<and>
            (\<forall>v\<in>set post. \<forall>sv. score_of E mts P y v = Inr sv \<longrightarrow> \<not> fgt sv s))"
      by blast+
    from alt show ?thesis
    proof
      assume same: "b' = s0 \<and> bw' = Some (dict_of_pairs (zip mts (triple w))) \<and>
         (\<forall>w\<in>set ps. \<forall>s. score_of E mts P y w = Inr s \<longrightarrow> \<not> fgt s s0)"
      then have "w # ps = [] @ w # ps \<and> b' = s0 \<and>
            score_of E mts P y w = Inr s0 \<and> fgt s0 b \<and>
            bw' = Some (dict_of_pairs (zip mts (triple w))) \<and>
            (\<forall>v\<in>set []. \<forall>sv. score_of E mts P y v = Inr sv \<longrightarrow> fgt s0 sv \<or> sv = NaN) \<and>
            (\<forall>v\<in>set ps. \<forall>sv. score_of E mts P y v = Inr sv \<longrightarrow> \<not> fgt sv s0)"
        using True s0 by auto
      then have "\<exists>pre w' post s. w # ps = pre @ w' # post \<and> b' = s \<and>
            score_of E mts P y w' = Inr s \<and> fgt s b \<and>
            bw' = Some (dict_of_pairs (zip mts (triple w'))) \<and>
            (\<forall>v\<in>set pre. \<forall>sv. score_of E mts P y v = Inr sv \<longrightarrow> fgt s sv \<or> sv = NaN) \<and>
            (\<forall>v\<in>set post. \<forall>sv. score_of E mts P y v = Inr sv \<longrightarrow> \<not> fgt sv s)"
        by blast
      with all s0 show ?thesis by auto
    next
      assume "\<exists>pre w' post s. ps = pre @ w' # post \<and> b' = s \<and>
            score_of E mts P y w' = Inr s \<and> fgt s s0 \<and>
            bw' = Some (dict_of_pairs (zip mts (triple w'))) \<and>
            (\<forall>v\<in>set pre. \<forall>sv. score_of E mts P y v = Inr sv \<longrightarrow> fgt s sv \<or> sv = NaN) \<and>
            (\<forall>v\<in>set post. \<forall>sv. score_of E mts P y v = Inr sv \<longrightarrow> \<not> fgt sv s)"
      then obtain pre w' post s where d: "ps = pre @ w' # post" "b' = s"
            "score_of E mts P y w' = Inr s" "fgt s s0"
            "bw' = Some (dict_of_pairs (zip mts (triple w')))"
            "\<forall>v\<in>set pre. \<forall>sv. score_of E mts P y v = Inr sv \<longrightarrow> fgt s sv \<or> sv = NaN"
            "\<forall>v\<in>set post. \<forall>sv. score_of E mts P y v = Inr sv \<longrightarrow> \<not> fgt sv s"
        by blast
      from d(4) True have gt: "fgt s b" by (rule fgt_trans)
      have "w # ps = (w # pre) @ w' # post" using d(1) by simp
      moreover have "\<forall>v\<in>set (w # pre). \<forall>sv. score_of E mts P y v = Inr sv \<longrightarrow> fgt s sv \<or> sv = NaN"
        using d(4,6) s0 by auto
      ultimately have "\<exists>pre w' post s. w # ps = pre @ w' # post \<and> b' = s \<and>
            score_of E mts P y w' = Inr s \<and> fgt s b \<and>
            bw' = Some (dict_of_pairs (zip mts (triple w'))) \<and>
            (\<forall>v\<in>set pre. \<forall>sv. score_of E mts P y v = Inr sv \<longrightarrow> fgt s sv \<or> sv = NaN) \<and>
            (\<forall>v\<in>set post. \<forall>sv. score_of E mts P y v = Inr sv \<longrightarrow> \<not> fgt sv s)"
        using d(2,3,5,7) gt by blast
      with all s0 show ?thesis by auto
    qed
  next
    case False
    with Cons.prems(1) adm s0
    have run: "grid_loop E mts P y ps (b, bw) = Inr (b', bw')"
      by (simp add: grid_body_eq)
    from Cons.IH [OF run Cons.prems(2) adms]
    have all: "\<forall>w\<in>set ps. \<exists>s. score_of E mts P y w = Inr s"
      and alt: "(b' = b \<and> bw' = bw \<and>
         (\<forall>w\<in>set ps. \<forall>s. score_of E mts P y w = Inr s \<longrightarrow> \<not> fgt s b))
      \<or> (\<exists>pre w' post s. ps = pre @ w' # post \<and> b' = s \<and>
            score_of E mts P y w' = Inr s \<and> fgt s b \<and>
            bw' = Some (dict_of_pairs (zip mts (triple w'))) \<and>
            (\<forall>v\<in>set pre. \<forall>sv. score_of E mts P y v = Inr sv \<longrightarrow> fgt s sv \<or> sv = NaN) \<and>
            (\<forall>v\<in>set post. \<forall>sv. score_of E mts P y v = Inr sv \<longrightarrow> \<not> fgt sv s))"
      by blast+
    from alt show ?thesis
    proof
      assume "b' = b \<and> bw' = bw \<and>
         (\<forall>w\<in>set ps. \<forall>s. score_of E mts P y w = Inr s \<longrightarrow> \<not> fgt s b)"
      with all s0 False show ?thesis by auto
    next
      assume "\<exists>pre w' post s. ps = pre @ w' # post \<and> b' = s \<and>
            score_of E mts P y w' = Inr s \<and> fgt s b \<and>
            bw' = Some (dict_of_pairs (zip mts (triple w'))) \<and>
            (\<forall>v\<in>set pre. \<forall>sv. score_of E mts P y v = Inr sv \<longrightarrow> fgt s sv \<or> sv = NaN) \<and>
            (\<forall>v\<in>set post. \<forall>sv. score_of E mts P y v = Inr sv \<longrightarrow> \<not> fgt sv s)"
      then obtain pre w' post s where d: "ps = pre @ w' # post" "b' = s"
            "score_of E mts P y w' = Inr s" "fgt s b"
            "bw' = Some (dict_of_pairs (zip mts (triple w')))"
            "\<forall>v\<in>set pre. \<forall>sv. score_of E mts P y v = Inr sv \<longrightarrow> fgt s sv \<or> sv = NaN"
            "\<forall>v\<in>set post. \<forall>sv. score_of E mts P y v = Inr sv \<longrightarrow> \<not> fgt sv s"
        by blast
      from False d(4) Cons.prems(2) have lt: "fgt s s0 \<or> s0 = NaN" by (rule fgt_between)
      have "w # ps = (w # pre) @ w' # post" using d(1) by simp
      moreover have "\<forall>v\<in>set (w # pre). \<forall>sv. score_of E mts P y v = Inr sv \<longrightarrow> fgt s sv \<or> sv = NaN"
        using d(6) lt s0 by auto
      ultimately have "\<exists>pre w' post s. w # ps = pre @ w' # post \<and> b' = s \<and>
            score_of E mts P y w' = Inr s \<and> fgt s b \<and>
            bw' = Some (dict_of_pairs (zip mts (triple w'))) \<and>
            (\<forall>v\<in>set pre. \<forall>sv. score_of E mts P y v = Inr sv \<longrightarrow> fgt s sv \<or> sv = NaN) \<and>
            (\<forall>v\<in>set post. \<forall>sv. score_of E mts P y v = Inr sv \<longrightarrow> \<not> fgt sv s)"
        using d(2,3,4,5,7) by blast
      with all s0 show ?thesis by auto
    qed
  qed
qed

lemma candidates_bounds:
  "\<forall>(w1, w2)\<in>set candidates.
      triple (w1, w2) = [w1, w2, third_weight w1 w2] \<and>
      third_weight w1 w2 = r64 (r64 (1 - w1) - w2) \<and>
      w1 \<in> set (arange (r64 (2/10)) (r64 (8/10)) (r64 (1/10))) \<and>
      w2 \<in> set (arange (r64 (2/10)) (r64 (8/10)) (r64 (1/10))) \<and>
      1/10 \<le> w1 \<and> w1 \<le> 8/10 \<and> 1/10 \<le> w2 \<and> w2 \<le> 8/10 \<and>
      1/10 \<le> third_weight w1 w2 \<and> third_weight w1 w2 \<le> 8/10 \<and>
      \<bar>w1 + w2 + third_weight w1 w2 - 1\<bar> \<le> 1 / 2 ^ 50"
proof -
  have grid: "\<forall>(w1, w2)\<in>set candidates.
      w1 \<in> set (arange (r64 (2/10)) (r64 (8/10)) (r64 (1/10))) \<and>
      w2 \<in> set (arange (r64 (2/10)) (r64 (8/10)) (r64 (1/10)))"
    by (auto simp: candidates_def grid_points_def)
  have num: "\<forall>(w1, w2)\<in>set candidates.
      1/10 \<le> w1 \<and> w1 \<le> 8/10 \<and> 1/10 \<le> w2 \<and> w2 \<le> 8/10 \<and>
      1/10 \<le> third_weight w1 w2 \<and> third_weight w1 w2 \<le> 8/10 \<and>
      \<bar>w1 + w2 + third_weight w1 w2 - 1\<bar> \<le> 1 / 2 ^ 50"
    unfolding candidates_eq by (simp add: third_weight_grid)
  from grid num show ?thesis
    by (auto simp: triple_def third_weight_def)
qed

lemma grid_steps:
  "list_all2 (\<lambda>g k. \<bar>g - (2/10 + real k / 10)\<bar> \<le> 1 / 2 ^ 50)
     (arange (r64 (2/10)) (r64 (8/10)) (r64 (1/10))) [0 ..< 7]"
  unfolding arange_grid by (simp add: upt_rec)

lemma predict_each_stub: "predict_each stub_env (models stub_ensemble) [1, 2] = Inr stub_predictions"
  by (simp add: stub_ensemble_def stub_trainer_def predict_def stub_env_def stub_predictions_def)

lemma score_stub:
  "score_of stub_env boosting_types stub_predictions [1, 2] (w1, w2) =
     Inr (Fin (1 - 10 * (1 - (w1 + 2 * w2 + 3 * third_weight w1 w2))\<^sup>2))"
  by (simp add: score_of_def boosting_types_def stub_predictions_def triple_def dict_of_pairs_def
        dict_set_def weighted_predict_def vec_iadd_def stub_env_def r2_score_def
        check_targets_def mean_def Let_def power2_eq_square algebra_simps)

lemma grid_loop_stub:
  "grid_loop stub_env boosting_types stub_predictions [1, 2] grid_points (NInf, None) =
     Inr (Fin (- 421874119755954377324373233316717/162259276829213363391578010288128),
          Some [(''xgboost'', 1351079888211149/2251799813685248), (''lightgbm'', 3602879701896397/18014398509481984),
             (''catboost'', 3602879701896395/18014398509481984)])"
  unfolding grid_loop_filter [of _ _ _ _ grid_points] candidates_def [symmetric] candidates_eq
  by (simp add: grid_body_eq score_stub admissible_def third_weight_grid float_literals
        power2_eq_square)
     (simp add: triple_def third_weight_grid dict_of_pairs_def dict_set_def boosting_types_def)

lemma optimize_weights_stub:
  "optimize_weights stub_env stub_ensemble [1, 2] [1, 2] ''grid_search'' =
     Inr (stub_ensemble\<lparr>weights :=
            Some [(''xgboost'', 1351079888211149/2251799813685248), (''lightgbm'', 3602879701896397/18014398509481984),
             (''catboost'', 3602879701896395/18014398509481984)]\<rparr>)"
proof -
  have "length (model_types stub_ensemble) = 3" "model_types stub_ensemble = boosting_types"
    by (simp_all add: stub_ensemble_def boosting_types_def)
  then show ?thesis
    by (simp add: optimize_weights_def predict_each_stub grid_loop_stub)
qed

text \<open>
  C5: for an EnsembleTrainer with three members, \<^verbatim>\<open>optimize_weights\<close> searches the
  triples \<open>[w1, w2, w3]\<close> in which \<open>w1\<close> and \<open>w2\<close> are taken from
  \<^verbatim>\<open>np.arange(0.2, 0.8, 0.1)\<close>, whose seven elements are stepped by 0.1 from 0.2 (up
  to float64 rounding), the third weight is \<^verbatim>\<open>1 - w1 - w2\<close> in float64 arithmetic, and
  the triple is searched only when the third weight is neither below \<^verbatim>\<open>0.1\<close> nor
  above \<^verbatim>\<open>0.8\<close>. In every searched triple the three weights lie in \<open>[0.1, 0.8]\<close> and
  sum to 1 up to rounding; the searched triples are the fifteen of lemma
  \<open>candidates_eq\<close>. When the call returns, every searched triple has been scored.
  Either no score exceeds \<open>-\<infinity>\<close> and the trainer is returned unchanged, or the kept
  triple is the first maximum: its score exceeds that of every triple before it in
  iteration order (unless that score is NaN) and no later score exceeds it. This
  holds whatever float64 arithmetic the weighted sum and \<^verbatim>\<open>r2_score\<close> perform.
\<close>

theorem optimize_weights_grid_search:
  assumes three: "length (model_types et) = 3"
    and noteq: "method \<noteq> ''equal''"
    and run: "optimize_weights E et X_val y_val method = Inr et'"
  shows "\<exists>P. predict_each E (models et) X_val = Inr P \<and>
           (\<forall>v\<in>set candidates. \<exists>sv. score_of E (model_types et) P y_val v = Inr sv) \<and>
           ((et' = et \<and>
             (\<forall>v\<in>set candidates. \<forall>sv. score_of E (model_types et) P y_val v = Inr sv
                 \<longrightarrow> \<not> fgt sv NInf))
            \<or> (\<exists>pre w post s.
                 candidates = pre @ w # post \<and>
                 weights et' = Some (dict_of_pairs (zip (model_types et) (triple w))) \<and>
                 score_of E (model_types et) P y_val w = Inr s \<and> fgt s NInf \<and>
                 (\<forall>v\<in>set pre. \<exists>sv. score_of E (model_types et) P y_val v = Inr sv \<and>
                     (fgt s sv \<or> sv = NaN)) \<and>
                 (\<forall>v\<in>set post. \<exists>sv. score_of E (model_types et) P y_val v = Inr sv \<and>
                     \<not> fgt sv s))) \<and>
           (\<forall>(w1, w2)\<in>set candidates.
              triple (w1, w2) = [w1, w2, third_weight w1 w2] \<and>
              third_weight w1 w2 = r64 (r64 (1 - w1) - w2) \<and>
              w1 \<in> set (arange (r64 (2/10)) (r64 (8/10)) (r64 (1/10))) \<and>
              w2 \<in> set (arange (r64 (2/10)) (r64 (8/10)) (r64 (1/10))) \<and>
              1/10 \<le> w1 \<and> w1 \<le> 8/10 \<and> 1/10 \<le> w2 \<and> w2 \<le> 8/10 \<and>
              1/10 \<le> third_weight w1 w2 \<and> third_weight w1 w2 \<le> 8/10 \<and>
              \<bar>w1 + w2 + third_weight w1 w2 - 1\<bar> \<le> 1 / 2 ^ 50) \<and>
           list_all2 (\<lambda>g k. \<bar>g - (2/10 + real k / 10)\<bar> \<le> 1 / 2 ^ 50)
             (arange (r64 (2/10)) (r64 (8/10)) (r64 (1/10))) [0 ..< 7] \<and>
           length candidates = 15"
proof -
  from run noteq obtain P where P: "predict_each E (models et) X_val = Inr P"
    by (auto simp: optimize_weights_def and_then_def split: sum.splits)
  from run noteq three P obtain b' bw' where
    loop: "grid_loop E (model_types et) P y_val grid_points (NInf, None) = Inr (b', bw')"
    and res: "et' = (case bw' of Some ws \<Rightarrow> et\<lparr>weights := Some ws\<rparr> | None \<Rightarrow> et)"
    by (auto simp: optimize_weights_def and_then_def split: sum.splits option.splits)
  from loop have loop': "grid_loop E (model_types et) P y_val candidates (NInf, None) = Inr (b', bw')"
    by (simp add: candidates_def grid_loop_filter [symmetric])
  have adm: "\<forall>w\<in>set candidates. admissible w"
    by (simp add: candidates_def)
  have nn: "NInf \<noteq> NaN" by simp
  note fm = grid_loop_first_max [OF loop' nn adm]
  from fm have all: "\<forall>v\<in>set candidates. \<exists>sv. score_of E (model_types et) P y_val v = Inr sv"
    by blast
  from fm have alt: "(b' = NInf \<and> bw' = None \<and>
         (\<forall>w\<in>set candidates. \<forall>s. score_of E (model_types et) P y_val w = Inr s \<longrightarrow> \<not> fgt s NInf))
      \<or> (\<exists>pre w post s. candidates = pre @ w # post \<and> b' = s \<and>
            score_of E (model_types et) P y_val w = Inr s \<and> fgt s NInf \<and>
            bw' = Some (dict_of_pairs (zip (model_types et) (triple w))) \<and>
            (\<forall>v\<in>set pre. \<forall>sv. score_of E (model_types et) P y_val v = Inr sv \<longrightarrow> fgt s sv \<or> sv = NaN) \<and>
            (\<forall>v\<in>set post. \<forall>sv. score_of E (model_types et) P y_val v = Inr sv \<longrightarrow> \<not> fgt sv s))"
    by blast
  have kept: "(et' = et \<and>
             (\<forall>v\<in>set candidates. \<forall>sv. score_of E (model_types et) P y_val v = Inr sv
                 \<longrightarrow> \<not> fgt sv NInf))
            \<or> (\<exists>pre w post s.
                 candidates = pre @ w # post \<and>
                 weights et' = Some (dict_of_pairs (zip (model_types et) (triple w))) \<and>
                 score_of E (model_types et) P y_val w = Inr s \<and> fgt s NInf \<and>
                 (\<forall>v\<in>set pre. \<exists>sv. score_of E (model_types et) P y_val v = Inr sv \<and>
                     (fgt s sv \<or> sv = NaN)) \<and>
                 (\<forall>v\<in>set post. \<exists>sv. score_of E (model_types et) P y_val v = Inr sv \<and>
                     \<not> fgt sv s))"
    using alt
  proof
    assume "b' = NInf \<and> bw' = None \<and>
         (\<forall>w\<in>set candidates. \<forall>s. score_of E (model_types et) P y_val w = Inr s \<longrightarrow> \<not> fgt s NInf)"
    with res show ?thesis by simp
  next
    assume "\<exists>pre w post s. candidates = pre @ w # post \<and> b' = s \<and>
            score_of E (model_types et) P y_val w = Inr s \<and> fgt s NInf \<and>
            bw' = Some (dict_of_pairs (zip (model_types et) (triple w))) \<and>
            (\<forall>v\<in>set pre. \<forall>sv. score_of E (model_types et) P y_val v = Inr sv \<longrightarrow> fgt s sv \<or> sv = NaN) \<and>
            (\<forall>v\<in>set post. \<forall>sv. score_of E (model_types et) P y_val v = Inr sv \<longrightarrow> \<not> fgt sv s)"
    then obtain pre w post s where d: "candidates = pre @ w # post"
      "score_of E (model_types et) P y_val w = Inr s" "fgt s NInf"
      "bw' = Some (dict_of_pairs (zip (model_types et) (triple w)))"
      "\<forall>v\<in>set pre. \<forall>sv. score_of E (model_types et) P y_val v = Inr sv \<longrightarrow> fgt s sv \<or> sv = NaN"
      "\<forall>v\<in>set post. \<forall>sv. score_of E (model_types et) P y_val v = Inr sv \<longrightarrow> \<not> fgt sv s"
      by blast
    have pre: "\<forall>v\<in>set pre. \<exists>sv. score_of E (model_types et) P y_val v = Inr sv \<and>
                (fgt s sv \<or> sv = NaN)"
      using all d(1,5) by (metis Un_iff set_append)
    have post: "\<forall>v\<in>set post. \<exists>sv. score_of E (model_types et) P y_val v = Inr sv \<and> \<not> fgt sv s"
      using all d(1,6) by (metis Un_iff list.set_intros(2) set_append)
    from res d(4) have w: "weights et' = Some (dict_of_pairs (zip (model_types et) (triple w)))"
      by simp
    from d(1) w d(2,3) pre post show ?thesis
      by blast
  qed
  have n: "length candidates = 15"
    unfolding candidates_eq by simp
  from P all kept candidates_bounds grid_steps n show ?thesis
    by (intro exI conjI)
qed

theorem optimize_weights_grid_search_witness:
  "length (model_types stub_ensemble) = 3 \<and> ''grid_search'' \<noteq> ''equal'' \<and>
   optimize_weights stub_env stub_ensemble [1, 2] [1, 2] ''grid_search'' =
     Inr (stub_ensemble\<lparr>weights :=
            Some [(''xgboost'', 1351079888211149/2251799813685248), (''lightgbm'', 3602879701896397/18014398509481984),
             (''catboost'', 3602879701896395/18014398509481984)]\<rparr>) \<and>
   (\<exists>P pre w post s.
      predict_each stub_env (models stub_ensemble) [1, 2] = Inr P \<and>
      candidates = pre @ w # post \<and>
      Some [(''xgboost'', 1351079888211149/2251799813685248), (''lightgbm'', 3602879701896397/18014398509481984),
             (''catboost'', 3602879701896395/18014398509481984)] =
        Some (dict_of_pairs (zip (model_types stub_ensemble) (triple w))) \<and>
      score_of stub_env (model_types stub_ensemble) P [1, 2] w = Inr s \<and> fgt s NInf \<and>
      (\<forall>v\<in>set pre. \<exists>sv. score_of stub_env (model_types stub_ensemble) P [1, 2] v = Inr sv \<and>
          (fgt s sv \<or> sv = NaN)) \<and>
      (\<forall>v\<in>set post. \<exists>sv. score_of stub_env (model_types stub_ensemble) P [1, 2] v = Inr sv \<and>
          \<not> fgt sv s))"
proof -
  define kept where "kept = stub_ensemble\<lparr>weights :=
            Some [(''xgboost'', 1351079888211149/2251799813685248), (''lightgbm'', 3602879701896397/18014398509481984),
             (''catboost'', 3602879701896395/18014398509481984)]\<rparr>"
  have h1: "length (model_types stub_ensemble) = 3"
    by (simp add: stub_ensemble_def boosting_types_def)
  have h2: "''grid_search'' \<noteq> ''equal''" by simp
  have h4: "optimize_weights stub_env stub_ensemble [1, 2] [1, 2] ''grid_search'' = Inr kept"
    unfolding kept_def by (rule optimize_weights_stub)
  have ne: "kept \<noteq> stub_ensemble"
    by (simp add: kept_def stub_ensemble_def)
  have wk: "weights kept = Some [(''xgboost'', 1351079888211149/2251799813685248), (''lightgbm'', 3602879701896397/18014398509481984),
             (''catboost'', 3602879701896395/18014398509481984)]"
    by (simp add: kept_def)
  from optimize_weights_grid_search [OF h1 h2 h4] ne
  have ex: "\<exists>P pre w post s.
      predict_each stub_env (models stub_ensemble) [1, 2] = Inr P \<and>
      candidates = pre @ w # post \<and>
      weights kept =
        Some (dict_of_pairs (zip (model_types stub_ensemble) (triple w))) \<and>
      score_of stub_env (model_types stub_ensemble) P [1, 2] w = Inr s \<and> fgt s NInf \<and>
      (\<forall>v\<in>set pre. \<exists>sv. score_of stub_env (model_types stub_ensemble) P [1, 2] v = Inr sv \<and>
          (fgt s sv \<or> sv = NaN)) \<and>
      (\<forall>v\<in>set post. \<exists>sv. score_of stub_env (model_types stub_ensemble) P [1, 2] v = Inr sv \<and>
          \<not> fgt sv s)"
    by blast
  from h1 h2 h4 [unfolded kept_def] ex [unfolded wk] show ?thesis
    by (intro conjI)
qed

subsection \<open>TrainingPipeline: member failures and the ensemble\<close>

lemma train_members_keys:
  "fst ` set (train_members E ms X y Xv yv cv tm) =
     fst ` set tm \<union> {m \<in> set ms. m \<noteq> ''ensemble'' \<and> member_ok E X y Xv yv cv m}"
  by (induction ms arbitrary: tm)
     (auto simp: member_ok_def dict_set_keys split: sum.splits)

lemma train_members_lookup:
  "map_of (train_members E ms X y Xv yv cv tm) k =
     (if k \<in> set ms \<and> k \<noteq> ''ensemble'' \<and> member_ok E X y Xv yv cv k
      then (case train_member E k X y Xv yv cv of Inr tr \<Rightarrow> Some (Single tr) | Inl e \<Rightarrow> None)
      else map_of tm k)"
  by (induction ms arbitrary: tm)
     (auto simp: member_ok_def map_of_dict_set split: sum.splits)

lemma available_after_members:
  "available_models (train_members E ms X y Xv yv cv []) =
     filter (\<lambda>m. m \<in> set ms \<and> member_ok E X y Xv yv cv m) boosting_types"
  by (auto simp: available_models_def train_members_keys boosting_types_def)

lemma member_trainers_ok:
  assumes "\<forall>m\<in>set av. \<exists>tr. map_of tm m = Some (Single tr)"
  shows "\<exists>ps. member_trainers tm av = Inr ps \<and> map fst ps = av \<and>
           (\<forall>(m, tr)\<in>set ps. map_of tm m = Some (Single tr))"
  using assms
  by (induction av) (auto split: option.splits entry.splits)

lemma optimize_weights_fields:
  "optimize_weights E et Xv yv method = Inr et' \<Longrightarrow>
     model_types et' = model_types et \<and> models et' = models et"
  by (auto simp: optimize_weights_def and_then_def split: if_splits sum.splits option.splits prod.splits)

lemma optimize_weights_not_three:
  assumes "length (model_types et) \<noteq> 3" "method \<noteq> ''equal''"
    and "optimize_weights E et Xv yv method = Inr et'"
  shows "et' = et"
  using assms
  by (auto simp: optimize_weights_def and_then_def split: sum.splits)

lemma distinct_available: "distinct (filter P boosting_types)"
  by (simp add: boosting_types_def)

lemma train_member_stub:
  "train_member stub_env ''xgboost'' X y Xv yv False = Inr (stub_trainer ''xgboost'' XGBRegressor 1)"
  "train_member stub_env ''lightgbm'' X y Xv yv False = Inr (stub_trainer ''lightgbm'' LGBMRegressor 2)"
  "train_member stub_env ''catboost'' X y Xv yv False = Inr (stub_trainer ''catboost'' CatBoostRegressor 3)"
  by (cases Xv; cases yv;
      simp add: train_member_def train_def ModelTrainer_init_def build_model_def fit_estimator_def
        stub_env_def stub_trainer_def boosting_types_def)+

lemma train_member_stub_unknown:
  "\<not> known_model_type m \<Longrightarrow> train_member stub_env m X y Xv yv False = Inl (UnknownModelType m)"
  by (simp add: train_member_def train_unknown)

lemma member_ok_stub: "member_ok stub_env X y Xv yv False m = known_model_type m"
proof (cases "known_model_type m")
  case True
  then show ?thesis
    by (auto simp: member_ok_def known_model_type_def train_member_stub)
next
  case False
  then show ?thesis
    by (simp add: member_ok_def train_member_stub_unknown)
qed

lemma members_stub_two:
  "train_members stub_env [''xgboost'', ''lightgbm'', ''ensemble''] X y Xv yv False [] =
     [(''xgboost'', Single (stub_trainer ''xgboost'' XGBRegressor 1)),
      (''lightgbm'', Single (stub_trainer ''lightgbm'' LGBMRegressor 2))]"
  by (simp add: train_member_stub dict_set_def)

text \<open>
  C6 at a failing input: a pipeline asked for xgboost, lightgbm and the ensemble, with
  a validation split. Both members train, the two-member ensemble is built and
  \<^verbatim>\<open>optimize_weights\<close> returns without an exception, but its grid search only runs for
  three members: the weight mapping is still \<^verbatim>\<open>None\<close>, there is no sum of weights, and
  the ensemble's \<^verbatim>\<open>predict\<close> fails.
\<close>

theorem two_member_ensemble_has_no_weights:
  "train_all_models stub_env (TrainingPipeline_init [''xgboost'', ''lightgbm'', ''ensemble''])
       [1] [1] (Some [1, 2]) (Some [1, 2]) False =
     Inr \<lparr>models_to_train = [''xgboost'', ''lightgbm'', ''ensemble''],
          trained_models =
            [(''xgboost'', Single (stub_trainer ''xgboost'' XGBRegressor 1)),
             (''lightgbm'', Single (stub_trainer ''lightgbm'' LGBMRegressor 2)),
             (''ensemble'', Ensemble
                \<lparr>model_types = [''xgboost'', ''lightgbm''],
                 models = [(''xgboost'', stub_trainer ''xgboost'' XGBRegressor 1),
                           (''lightgbm'', stub_trainer ''lightgbm'' LGBMRegressor 2)],
                 weights = None\<rparr>)]\<rparr> \<and>
   ensemble_predict stub_env
       \<lparr>model_types = [''xgboost'', ''lightgbm''],
        models = [(''xgboost'', stub_trainer ''xgboost'' XGBRegressor 1),
                  (''lightgbm'', stub_trainer ''lightgbm'' LGBMRegressor 2)],
        weights = None\<rparr> [1, 2] = Inl TypeError"
proof -
  have opt: "optimize_weights stub_env
       \<lparr>model_types = [''xgboost'', ''lightgbm''],
        models = [(''xgboost'', stub_trainer ''xgboost'' XGBRegressor 1),
                  (''lightgbm'', stub_trainer ''lightgbm'' LGBMRegressor 2)],
        weights = None\<rparr> [1, 2] [1, 2] ''grid_search'' =
     Inr \<lparr>model_types = [''xgboost'', ''lightgbm''],
        models = [(''xgboost'', stub_trainer ''xgboost'' XGBRegressor 1),
                  (''lightgbm'', stub_trainer ''lightgbm'' LGBMRegressor 2)],
        weights = None\<rparr>"
    by (simp add: optimize_weights_def predict_def stub_trainer_def stub_env_def)
  have run: "train_all_models stub_env (TrainingPipeline_init [''xgboost'', ''lightgbm'', ''ensemble''])
       [1] [1] (Some [1, 2]) (Some [1, 2]) False =
     Inr \<lparr>models_to_train = [''xgboost'', ''lightgbm'', ''ensemble''],
          trained_models =
            [(''xgboost'', Single (stub_trainer ''xgboost'' XGBRegressor 1)),
             (''lightgbm'', Single (stub_trainer ''lightgbm'' LGBMRegressor 2)),
             (''ensemble'', Ensemble
                \<lparr>model_types = [''xgboost'', ''lightgbm''],
                 models = [(''xgboost'', stub_trainer ''xgboost'' XGBRegressor 1),
                           (''lightgbm'', stub_trainer ''lightgbm'' LGBMRegressor 2)],
                 weights = None\<rparr>)]\<rparr>"
    by (simp add: train_all_models_def TrainingPipeline_init_def members_stub_two
          build_ensemble_def available_models_def boosting_types_def EnsembleTrainer_init_def
          dict_of_pairs_def dict_set_def opt del: train_members.simps)
  have pred: "ensemble_predict stub_env
       \<lparr>model_types = [''xgboost'', ''lightgbm''],
        models = [(''xgboost'', stub_trainer ''xgboost'' XGBRegressor 1),
                  (''lightgbm'', stub_trainer ''lightgbm'' LGBMRegressor 2)],
        weights = None\<rparr> [1, 2] = Inl TypeError"
    by (simp add: ensemble_predict_def predict_def stub_trainer_def stub_env_def)
  from run pred show ?thesis by simp
qed

lemma available_after_members_general:
  "available_models (train_members E ms X y Xv yv cv tm) =
     filter (\<lambda>m. m \<in> fst ` set tm \<or> (m \<in> set ms \<and> member_ok E X y Xv yv cv m)) boosting_types"
  by (auto simp: available_models_def train_members_keys boosting_types_def)

lemma train_member_strict:
  "y \<noteq> [] \<Longrightarrow>
   train_member strict_env ''xgboost'' X y Xv yv False = Inr (stub_trainer ''xgboost'' XGBRegressor 1)"
  "y \<noteq> [] \<Longrightarrow>
   train_member strict_env ''lightgbm'' X y Xv yv False = Inr (stub_trainer ''lightgbm'' LGBMRegressor 2)"
  "train_member strict_env ''xgboost'' X [] Xv yv False = Inl (LibraryError 0)"
  "train_member strict_env ''lightgbm'' X [] Xv yv False = Inl (LibraryError 0)"
  by (cases Xv; cases yv;
      simp add: train_member_def train_def ModelTrainer_init_def build_model_def fit_estimator_def
        strict_env_def stub_trainer_def boosting_types_def)+

lemma first_call_run:
  "train_all_models strict_env (TrainingPipeline_init [''xgboost'', ''lightgbm'', ''ensemble''])
       [1] [1] (Some [1, 2]) (Some [1, 2]) False = Inr first_call"
proof -
  have tm: "train_members strict_env [''xgboost'', ''lightgbm'', ''ensemble''] [1] [1]
              (Some [1, 2]) (Some [1, 2]) False [] =
            [(''xgboost'', Single (stub_trainer ''xgboost'' XGBRegressor 1)),
             (''lightgbm'', Single (stub_trainer ''lightgbm'' LGBMRegressor 2))]"
    by (simp add: train_member_strict dict_set_def)
  have opt: "optimize_weights strict_env
       \<lparr>model_types = [''xgboost'', ''lightgbm''],
        models = [(''xgboost'', stub_trainer ''xgboost'' XGBRegressor 1),
                  (''lightgbm'', stub_trainer ''lightgbm'' LGBMRegressor 2)],
        weights = None\<rparr> [1, 2] [1, 2] ''grid_search'' =
     Inr \<lparr>model_types = [''xgboost'', ''lightgbm''],
        models = [(''xgboost'', stub_trainer ''xgboost'' XGBRegressor 1),
                  (''lightgbm'', stub_trainer ''lightgbm'' LGBMRegressor 2)],
        weights = None\<rparr>"
    by (simp add: optimize_weights_def predict_def stub_trainer_def strict_env_def)
  show ?thesis
    by (simp add: train_all_models_def TrainingPipeline_init_def tm first_call_def
          build_ensemble_def available_models_def boosting_types_def EnsembleTrainer_init_def
          dict_of_pairs_def dict_set_def opt del: train_members.simps)
qed

lemma second_call_run:
  "train_all_models strict_env first_call [] [] None None False = Inr second_call"
proof -
  have tm: "train_members strict_env [''xgboost'', ''lightgbm'', ''ensemble''] [] []
              None None False (trained_models first_call) = trained_models first_call"
    by (simp add: train_member_strict)
  show ?thesis
    unfolding train_all_models_def
    by (simp add: first_call_def [THEN arg_cong [of _ _ models_to_train], simplified] tm
          del: train_members.simps)
       (simp add: first_call_def second_call_def build_ensemble_def available_models_def
          boosting_types_def EnsembleTrainer_init_def dict_of_pairs_def dict_set_def
          equal_weights_def)
qed

lemma members_stub_skip:
  "train_members stub_env [''lightgbm'', ''svm'', ''catboost'', ''ensemble''] X y Xv yv False [] =
     [(''lightgbm'', Single (stub_trainer ''lightgbm'' LGBMRegressor 2)),
      (''catboost'', Single (stub_trainer ''catboost'' CatBoostRegressor 3))]"
proof -
  have "\<not> known_model_type ''svm''"
    by (simp add: known_model_type_def)
  then show ?thesis
    by (simp add: train_member_stub train_member_stub_unknown dict_set_def)
qed

lemma train_all_models_stub_skip:
  "train_all_models stub_env
       (TrainingPipeline_init [''lightgbm'', ''svm'', ''catboost'', ''ensemble''])
       [1] [1] None None False =
     Inr \<lparr>models_to_train = [''lightgbm'', ''svm'', ''catboost'', ''ensemble''],
          trained_models =
            [(''lightgbm'', Single (stub_trainer ''lightgbm'' LGBMRegressor 2)),
             (''catboost'', Single (stub_trainer ''catboost'' CatBoostRegressor 3)),
             (''ensemble'', Ensemble
                \<lparr>model_types = [''lightgbm'', ''catboost''],
                 models = [(''lightgbm'', stub_trainer ''lightgbm'' LGBMRegressor 2),
                           (''catboost'', stub_trainer ''catboost'' CatBoostRegressor 3)],
                 weights = Some [(''lightgbm'', 1/2), (''catboost'', 1/2)]\<rparr>)]\<rparr>"
  by (simp add: train_all_models_def TrainingPipeline_init_def members_stub_skip
        build_ensemble_def available_models_def boosting_types_def EnsembleTrainer_init_def
        dict_of_pairs_def dict_set_def equal_weights_def del: train_members.simps)

lemma member_ok_strict_empty:
  "\<not> member_ok strict_env [] [] None None False ''xgboost''"
  "\<not> member_ok strict_env [] [] None None False ''lightgbm''"
  by (simp_all add: member_ok_def train_member_strict)

text \<open>
  C10 (as stated): the ensemble is built only from the members that trained successfully.
  It fails on a pipeline that is used twice. The first call trains xgboost and
  lightgbm. In the second call both members raise (the training set is empty) and are
  skipped, yet their entries from the first call are still in \<^verbatim>\<open>trained_models\<close>: an
  ensemble is built from them and stored, with equal weights.
\<close>

theorem stale_members_counterexample:
  "train_all_models strict_env (TrainingPipeline_init [''xgboost'', ''lightgbm'', ''ensemble''])
       [1] [1] (Some [1, 2]) (Some [1, 2]) False = Inr first_call \<and>
   \<not> member_ok strict_env [] [] None None False ''xgboost'' \<and>
   \<not> member_ok strict_env [] [] None None False ''lightgbm'' \<and>
   train_all_models strict_env first_call [] [] None None False = Inr second_call \<and>
   map_of (trained_models second_call) ''ensemble'' =
     Some (Ensemble
            \<lparr>model_types = [''xgboost'', ''lightgbm''],
             models = [(''xgboost'', stub_trainer ''xgboost'' XGBRegressor 1),
                       (''lightgbm'', stub_trainer ''lightgbm'' LGBMRegressor 2)],
             weights = Some [(''xgboost'', 1/2), (''lightgbm'', 1/2)]\<rparr>) \<and>
   map_of (trained_models second_call) ''ensemble'' \<noteq>
     map_of (trained_models first_call) ''ensemble''"
proof -
  have e2: "map_of (trained_models second_call) ''ensemble'' =
     Some (Ensemble
            \<lparr>model_types = [''xgboost'', ''lightgbm''],
             models = [(''xgboost'', stub_trainer ''xgboost'' XGBRegressor 1),
                       (''lightgbm'', stub_trainer ''lightgbm'' LGBMRegressor 2)],
             weights = Some [(''xgboost'', 1/2), (''lightgbm'', 1/2)]\<rparr>)"
    by (simp add: second_call_def)
  have ne: "map_of (trained_models second_call) ''ensemble'' \<noteq>
     map_of (trained_models first_call) ''ensemble''"
    by (simp add: second_call_def first_call_def)
  from first_call_run member_ok_strict_empty second_call_run e2 ne show ?thesis
    by (intro conjI)
qed

text \<open>
  C10 (amended): in \<^verbatim>\<open>train_all_models\<close>, on any pipeline, the member loop never raises. A
  requested member whose training ends without an exception is stored with its trainer;
  a member that raises is skipped, its entry stays what it was before the call, and the
  loop goes on; all other entries are untouched. The available members are the
  boosting types with an entry after the loop: those trained in this call and those
  left by an earlier call on the same pipeline. Without an ensemble request, or with
  fewer than two available members, the call returns these models without building an
  ensemble and without an error. With the request and at least two available members,
  a call that returns has stored an ensemble whose members are exactly the available
  ones, each with the trainer stored under its name. On a new pipeline the available
  members are exactly the requested boosting types that trained successfully.
\<close>

theorem train_all_models_isolates_failures:
  fixes E :: "('x, 'm) env" and p :: "'m pipeline" and X :: 'x and y :: "real list"
    and Xv :: "'x option" and yv :: "real list option" and cv :: bool
  defines "ms \<equiv> models_to_train p"
    and "tm \<equiv> train_members E (models_to_train p) X y Xv yv cv (trained_models p)"
    and "avail \<equiv> filter (\<lambda>m. m \<in> fst ` set (trained_models p) \<or>
                               (m \<in> set (models_to_train p) \<and> member_ok E X y Xv yv cv m))
                     boosting_types"
  shows
    "(\<forall>m\<in>set ms. m \<noteq> ''ensemble'' \<longrightarrow>
        (case train_member E m X y Xv yv cv of
           Inr t \<Rightarrow> map_of tm m = Some (Single t)
         | Inl e \<Rightarrow> map_of tm m = map_of (trained_models p) m)) \<and>
     (\<forall>m. m \<notin> set ms \<or> m = ''ensemble'' \<longrightarrow> map_of tm m = map_of (trained_models p) m) \<and>
     (''ensemble'' \<notin> set ms \<or> length avail < 2 \<longrightarrow>
        train_all_models E p X y Xv yv cv = Inr (p\<lparr>trained_models := tm\<rparr>)) \<and>
     (''ensemble'' \<in> set ms \<and> 2 \<le> length avail \<longrightarrow>
        (\<forall>p'. train_all_models E p X y Xv yv cv = Inr p' \<longrightarrow>
           (\<exists>e. trained_models p' = dict_set ''ensemble'' (Ensemble e) tm \<and>
                model_types e = avail \<and> map fst (models e) = avail \<and>
                (\<forall>(m, t)\<in>set (models e). map_of tm m = Some (Single t))))) \<and>
     (trained_models p = [] \<longrightarrow>
        avail = filter (\<lambda>m. m \<in> set ms \<and> member_ok E X y Xv yv cv m) boosting_types \<and>
        fst ` set tm = {m \<in> set ms. m \<noteq> ''ensemble'' \<and> member_ok E X y Xv yv cv m})"
proof (intro conjI impI allI ballI)
  show "case train_member E m X y Xv yv cv of
           Inr t \<Rightarrow> map_of tm m = Some (Single t)
         | Inl e \<Rightarrow> map_of tm m = map_of (trained_models p) m"
    if "m \<in> set ms" "m \<noteq> ''ensemble''" for m
    using that
    by (auto simp: tm_def ms_def train_members_lookup member_ok_def split: sum.splits)
  show "map_of tm m = map_of (trained_models p) m" if "m \<notin> set ms \<or> m = ''ensemble''" for m
    using that by (auto simp: tm_def ms_def train_members_lookup)
  have av: "available_models tm = avail"
    by (simp add: tm_def avail_def available_after_members_general)
  show "train_all_models E p X y Xv yv cv = Inr (p\<lparr>trained_models := tm\<rparr>)"
    if "''ensemble'' \<notin> set ms \<or> length avail < 2"
    using that av
    by (auto simp: train_all_models_def ms_def tm_def [symmetric] build_ensemble_def Let_def)
  show "\<exists>e. trained_models p' = dict_set ''ensemble'' (Ensemble e) tm \<and>
                model_types e = avail \<and> map fst (models e) = avail \<and>
                (\<forall>(m, t)\<in>set (models e). map_of tm m = Some (Single t))"
    if req: "''ensemble'' \<in> set ms \<and> 2 \<le> length avail"
      and run: "train_all_models E p X y Xv yv cv = Inr p'" for p'
  proof -
    from run req av obtain ps where ps: "member_trainers tm avail = Inr ps"
      by (auto simp: train_all_models_def ms_def tm_def [symmetric] build_ensemble_def Let_def
            and_then_def split: sum.splits)
    have shape: "map fst ps = avail \<and> (\<forall>(m, tr)\<in>set ps. map_of tm m = Some (Single tr))"
      using ps
    proof (induction avail arbitrary: ps)
      case Nil
      then show ?case by simp
    next
      case (Cons m ms')
      then show ?case
        by (auto simp: and_then_def split: option.splits entry.splits sum.splits)
    qed
    have "distinct (map fst ps)"
      using shape by (simp add: avail_def distinct_available)
    then have dp: "dict_of_pairs ps = ps"
      by (rule dict_of_pairs_distinct)
    define e0 where "e0 = (EnsembleTrainer_init avail :: 'm ensemble)\<lparr>models := ps\<rparr>"
    define r where "r = (case (Xv, yv) of
               (Some X_val, Some y_val) \<Rightarrow> optimize_weights E e0 X_val y_val ''grid_search''
             | _ \<Rightarrow> Inr (e0\<lparr>weights := Some (equal_weights avail)\<rparr>))"
    from req av ps dp
    have be: "build_ensemble E tm Xv yv =
                and_then r (\<lambda>e'. Inr (dict_set ''ensemble'' (Ensemble e') tm))"
      by (cases Xv; cases yv) (simp_all add: build_ensemble_def Let_def r_def e0_def)
    from run req be obtain e where re: "r = Inr e"
      and tmp: "trained_models p' = dict_set ''ensemble'' (Ensemble e) tm"
      by (auto simp: train_all_models_def ms_def tm_def [symmetric]
            Let_def and_then_def split: sum.splits)
    from re have e: "(\<exists>Xval yval. optimize_weights E e0 Xval yval ''grid_search'' = Inr e)
              \<or> e = e0\<lparr>weights := Some (equal_weights avail)\<rparr>"
      by (auto simp: r_def split: option.splits)
    from e have "model_types e = avail \<and> models e = ps"
      by (auto simp: e0_def EnsembleTrainer_init_def dest: optimize_weights_fields)
    with tmp shape show ?thesis by auto
  qed
  show "avail = filter (\<lambda>m. m \<in> set ms \<and> member_ok E X y Xv yv cv m) boosting_types"
    if "trained_models p = []"
    using that by (simp add: avail_def ms_def)
  show "fst ` set tm = {m \<in> set ms. m \<noteq> ''ensemble'' \<and> member_ok E X y Xv yv cv m}"
    if "trained_models p = []"
    using that by (simp add: tm_def ms_def train_members_keys)
qed

theorem train_all_models_isolates_failures_witness:
  "length (filter (\<lambda>m. m \<in> fst ` set (trained_models
                      (TrainingPipeline_init [''random_forest'', ''xgboost'', ''ensemble''] :: real pipeline)) \<or>
                    (m \<in> set (models_to_train
                      (TrainingPipeline_init [''random_forest'', ''xgboost'', ''ensemble''] :: real pipeline)) \<and>
                     member_ok stub_env [1] [1] None None False m)) boosting_types) < 2 \<and>
   train_all_models stub_env (TrainingPipeline_init [''random_forest'', ''xgboost'', ''ensemble''])
       [1] [1] None None False =
     Inr \<lparr>models_to_train = [''random_forest'', ''xgboost'', ''ensemble''],
          trained_models = [(''xgboost'', Single (stub_trainer ''xgboost'' XGBRegressor 1))]\<rparr> \<and>
   ''ensemble'' \<in> set (models_to_train first_call) \<and>
   2 \<le> length (filter (\<lambda>m. m \<in> fst ` set (trained_models first_call) \<or>
                         (m \<in> set (models_to_train first_call) \<and>
                          member_ok strict_env [] [] None None False m)) boosting_types) \<and>
   (\<exists>p' e. train_all_models strict_env first_call [] [] None None False = Inr p' \<and>
          map_of (trained_models p') ''ensemble'' = Some (Ensemble e) \<and>
          model_types e = [''xgboost'', ''lightgbm''] \<and>
          map fst (models e) = [''xgboost'', ''lightgbm''])"
proof -
  define fresh :: "real pipeline"
    where "fresh = TrainingPipeline_init [''random_forest'', ''xgboost'', ''ensemble'']"
  have unk: "\<not> known_model_type ''random_forest''"
    by (simp add: known_model_type_def)
  have av1: "filter (\<lambda>m. m \<in> fst ` set (trained_models fresh) \<or>
                (m \<in> set (models_to_train fresh) \<and> member_ok stub_env [1] [1] None None False m))
               boosting_types = [''xgboost'']"
    by (simp add: fresh_def TrainingPipeline_init_def boosting_types_def member_ok_stub
          known_model_type_def)
  have h1: "length (filter (\<lambda>m. m \<in> fst ` set (trained_models fresh) \<or>
                (m \<in> set (models_to_train fresh) \<and> member_ok stub_env [1] [1] None None False m))
               boosting_types) < 2"
    unfolding av1 by simp
  have tm1: "train_members stub_env (models_to_train fresh) [1] [1] None None False
               (trained_models fresh) =
               [(''xgboost'', Single (stub_trainer ''xgboost'' XGBRegressor 1))]"
    by (simp add: fresh_def TrainingPipeline_init_def train_member_stub train_member_stub_unknown
          unk dict_set_def)
  have av2: "filter (\<lambda>m. m \<in> fst ` set (trained_models first_call) \<or>
                (m \<in> set (models_to_train first_call) \<and>
                 member_ok strict_env [] [] None None False m)) boosting_types =
             [''xgboost'', ''lightgbm'']"
    by (simp add: first_call_def boosting_types_def)
  have h2: "''ensemble'' \<in> set (models_to_train first_call) \<and>
      2 \<le> length (filter (\<lambda>m. m \<in> fst ` set (trained_models first_call) \<or>
                (m \<in> set (models_to_train first_call) \<and>
                 member_ok strict_env [] [] None None False m)) boosting_types)"
    unfolding av2 by (simp add: first_call_def)
  note a = train_all_models_isolates_failures
             [where E = stub_env and p = fresh and X = "[1]" and y = "[1]" and Xv = None
                and yv = None and cv = False]
  note b = train_all_models_isolates_failures
             [where E = strict_env and p = first_call and X = "[]" and y = "[]" and Xv = None
                and yv = None and cv = False]
  from a [THEN conjunct2, THEN conjunct2, THEN conjunct1] h1
  have "train_all_models stub_env fresh [1] [1] None None False =
     Inr (fresh\<lparr>trained_models := train_members stub_env (models_to_train fresh) [1] [1]
                   None None False (trained_models fresh)\<rparr>)"
    by blast
  then have c1: "train_all_models stub_env fresh [1] [1] None None False =
     Inr \<lparr>models_to_train = [''random_forest'', ''xgboost'', ''ensemble''],
          trained_models = [(''xgboost'', Single (stub_trainer ''xgboost'' XGBRegressor 1))]\<rparr>"
    unfolding tm1 by (simp add: fresh_def TrainingPipeline_init_def)
  from b [THEN conjunct2, THEN conjunct2, THEN conjunct2, THEN conjunct1] h2 second_call_run
  obtain p' e where p: "train_all_models strict_env first_call [] [] None None False = Inr p'"
    and tp: "trained_models p' = dict_set ''ensemble'' (Ensemble e)
          (train_members strict_env (models_to_train first_call) [] [] None None False
             (trained_models first_call))"
    and mt: "model_types e = filter (\<lambda>m. m \<in> fst ` set (trained_models first_call) \<or>
                (m \<in> set (models_to_train first_call) \<and>
                 member_ok strict_env [] [] None None False m)) boosting_types"
    and ks: "map fst (models e) = filter (\<lambda>m. m \<in> fst ` set (trained_models first_call) \<or>
                (m \<in> set (models_to_train first_call) \<and>
                 member_ok strict_env [] [] None None False m)) boosting_types"
    by blast
  from tp have ens: "map_of (trained_models p') ''ensemble'' = Some (Ensemble e)"
    by (simp add: map_of_dict_set del: train_members.simps)
  from mt have mt': "model_types e = [''xgboost'', ''lightgbm'']"
    unfolding av2 .
  from ks have ks': "map fst (models e) = [''xgboost'', ''lightgbm'']"
    unfolding av2 .
  have c2: "\<exists>p' e. train_all_models strict_env first_call [] [] None None False = Inr p' \<and>
          map_of (trained_models p') ''ensemble'' = Some (Ensemble e) \<and>
          model_types e = [''xgboost'', ''lightgbm''] \<and>
          map fst (models e) = [''xgboost'', ''lightgbm'']"
    using p ens mt' ks' by (intro exI conjI)
  from h1 c1 h2 c2 show ?thesis
    unfolding fresh_def by (intro conjI) blast+
qed

subsection \<open>ModelEvaluator: the accuracy buckets\<close>

lemma fle_mono: "fle r (Fin a) \<Longrightarrow> a \<le> b \<Longrightarrow> fle r (Fin b)"
  by (cases r) auto

lemma within_pct_mono:
  assumes "a \<le> b"
  shows "within_pct y_true y_pred a \<le> within_pct y_true y_pred b"
proof -
  let ?rs = "relative_errors y_true y_pred"
  have "filter (\<lambda>r. fle r (Fin a)) ?rs = filter (\<lambda>r. fle r (Fin a)) (filter (\<lambda>r. fle r (Fin b)) ?rs)"
    using assms by (auto simp: fle_mono intro: filter_cong)
  then have "length (filter (\<lambda>r. fle r (Fin a)) ?rs) \<le> length (filter (\<lambda>r. fle r (Fin b)) ?rs)"
    by (metis length_filter_le)
  then show ?thesis
    by (simp add: within_pct_def divide_right_mono)
qed

lemma within_pct_range:
  "0 \<le> within_pct y_true y_pred k \<and>
   (length y_true = length y_pred \<longrightarrow> within_pct y_true y_pred k \<le> 100)"
proof -
  let ?c = "length (filter (\<lambda>r. fle r (Fin k)) (relative_errors y_true y_pred))"
  have nonneg: "0 \<le> within_pct y_true y_pred k"
    by (simp add: within_pct_def)
  have "within_pct y_true y_pred k \<le> 100" if "length y_true = length y_pred"
  proof -
    have "?c \<le> length (relative_errors y_true y_pred)"
      by (rule length_filter_le)
    also have "\<dots> = length y_true"
      using that by (simp add: relative_errors_def)
    finally have "real ?c \<le> real (length y_true)"
      by simp
    then have "real ?c / real (length y_true) \<le> 1"
      by (cases "length y_true = 0") (simp_all add: divide_le_eq_1)
    then have "real ?c / real (length y_true) * 100 \<le> 1 * 100"
      by (rule mult_right_mono) simp
    then show ?thesis
      by (simp add: within_pct_def)
  qed
  with nonneg show ?thesis by blast
qed

lemma evaluate_checks:
  "evaluate np_scalar y_true y_pred = Inr m \<Longrightarrow> length y_true = length y_pred \<and> y_true \<noteq> []"
  by (auto simp: evaluate_def r2_score_def check_targets_def and_then_def split: if_splits sum.splits)

lemma evaluate_within:
  "evaluate np_scalar y_true y_pred = Inr m \<Longrightarrow>
     within_5_pct m = within_pct y_true y_pred (5/100) \<and>
     within_10_pct m = within_pct y_true y_pred (10/100)"
  by (auto simp: evaluate_def and_then_def split: sum.splits)

lemma evaluate_returns:
  assumes "length y_true = length y_pred" "y_true \<noteq> []" "length y_true \<noteq> 2 \<or> np_scalar"
  shows "\<exists>m. evaluate np_scalar y_true y_pred = Inr m"
proof -
  from assms(1,2) have "\<exists>r2. r2_score y_true y_pred = Inr r2"
    by (simp add: r2_score_def check_targets_def Let_def)
  then obtain r2 where "r2_score y_true y_pred = Inr r2" ..
  moreover from assms(3) have "\<exists>adj. adjusted_r2 np_scalar r2 (length y_true) = Inr adj"
    by (auto simp: adjusted_r2_def Let_def)
  then obtain adj where "adjusted_r2 np_scalar r2 (length y_true) = Inr adj" ..
  ultimately show ?thesis
    by (simp add: evaluate_def)
qed

text \<open>
  C8: for two vectors of equal length (not empty, and not of length two when the
  adjusted \<open>R\<^sup>2\<close> would divide a Python float by zero), \<^verbatim>\<open>evaluate\<close> returns metrics;
  whenever it returns metrics, \<^verbatim>\<open>within_10_pct\<close> is at least \<^verbatim>\<open>within_5_pct\<close> and both
  lie between 0 and 100.
\<close>

theorem evaluate_within_bounds:
  "(length y_true = length y_pred \<and> y_true \<noteq> [] \<and> (length y_true \<noteq> 2 \<or> np_scalar)
      \<longrightarrow> (\<exists>m. evaluate np_scalar y_true y_pred = Inr m)) \<and>
   (\<forall>m. evaluate np_scalar y_true y_pred = Inr m \<longrightarrow>
      within_5_pct m \<le> within_10_pct m \<and>
      0 \<le> within_5_pct m \<and> within_5_pct m \<le> 100 \<and>
      0 \<le> within_10_pct m \<and> within_10_pct m \<le> 100)"
proof (intro conjI allI impI)
  assume "length y_true = length y_pred \<and> y_true \<noteq> [] \<and> (length y_true \<noteq> 2 \<or> np_scalar)"
  then show "\<exists>m. evaluate np_scalar y_true y_pred = Inr m"
    using evaluate_returns by blast
next
  fix m
  assume run: "evaluate np_scalar y_true y_pred = Inr m"
  note w = evaluate_within [OF run] and len = evaluate_checks [OF run]
  show "within_5_pct m \<le> within_10_pct m"
    using w within_pct_mono [of "5/100" "10/100" y_true y_pred] by simp
  show "0 \<le> within_5_pct m" "0 \<le> within_10_pct m"
    using w within_pct_range by simp_all
  show "within_5_pct m \<le> 100" "within_10_pct m \<le> 100"
    using w len within_pct_range by simp_all
qed

lemma evaluate_stub:
  "\<exists>m. evaluate False [100, 200, 0] [104, 216, 0] = Inr m \<and>
       within_5_pct m = 100 / 3 \<and> within_10_pct m = 200 / 3"
proof -
  have "\<exists>m. evaluate False [100, 200, 0] [104, 216, 0] = Inr m"
    by (rule evaluate_returns) simp_all
  then obtain m where m: "evaluate False [100, 200, 0] [104, 216, 0] = Inr m" ..
  from evaluate_within [OF m]
  have "within_5_pct m = 100 / 3 \<and> within_10_pct m = 200 / 3"
    by (simp add: within_pct_def relative_errors_def inf_of_sign_def fin_small)
  with m show ?thesis by blast
qed

theorem evaluate_within_bounds_witness:
  "length [100, 200, 0 :: real] = length [104, 216, 0 :: real] \<and>
   (\<exists>m. evaluate False [100, 200, 0] [104, 216, 0] = Inr m \<and>
        within_5_pct m = 100 / 3 \<and> within_10_pct m = 200 / 3 \<and>
        within_5_pct m \<le> within_10_pct m \<and> within_10_pct m \<le> 100)"
proof -
  from evaluate_stub obtain m where m: "evaluate False [100, 200, 0] [104, 216, 0] = Inr m"
    and v: "within_5_pct m = 100 / 3" "within_10_pct m = 200 / 3"
    by blast
  from evaluate_within_bounds [of "[100, 200, 0]" "[104, 216, 0]" False] m
  have "within_5_pct m \<le> within_10_pct m \<and> within_10_pct m \<le> 100"
    by blast
  with m v show ?thesis by auto
qed


subsection \<open>FeatureEngineer: guarded divisions\<close>

lemma get_col_set_col [simp]:
  "get_col (set_col c v df) c' = (if c' = c then Some v else get_col df c')"
  by (simp add: get_col_def set_col_def AList.update_conv')

lemma has_col_iff: "has_col df c \<longleftrightarrow> get_col df c \<noteq> None"
  by (simp add: has_col_def columns_def get_col_def map_of_eq_None_iff)

lemma nrows_set_col [simp]: "nrows (set_col c v df) = nrows df"
  by (simp add: set_col_def)

lemma num_col_simps:
  "get_col df c = Some (NumCol xs) \<Longrightarrow> num_col df c = Inr xs"
  "get_col df c = Some (StrCol ys) \<Longrightarrow> num_col df c = Inl OutsideModel"
  "get_col df c = None \<Longrightarrow> num_col df c = Inl KeyError"
  by (simp_all add: num_col_def)

lemma numeric_okD:
  "numeric_ok df \<Longrightarrow> c \<in> set numeric_names \<Longrightarrow> get_col df c = Some v \<Longrightarrow> \<exists>xs. v = NumCol xs"
  by (cases v) (auto simp: numeric_ok_def list_all_iff)

lemma numeric_ok_set_col:
  "numeric_ok df \<Longrightarrow> numeric_ok (set_col c (NumCol xs) df)"
  by (auto simp: numeric_ok_def list_all_iff)

lemma numeric_has:
  assumes "numeric_ok df" "c \<in> set numeric_names" "has_col df c"
  shows "\<exists>xs. get_col df c = Some (NumCol xs) \<and> num_col df c = Inr xs"
proof -
  from assms(3) obtain v where v: "get_col df c = Some v"
    by (auto simp: has_col_iff)
  with numeric_okD [OF assms(1,2)] obtain xs where "v = NumCol xs" by blast
  with v show ?thesis by (simp add: num_col_simps)
qed

lemma unchanged_exceptD:
  "unchanged_except outs df df' \<Longrightarrow> c \<notin> set outs \<Longrightarrow> get_col df' c = get_col df c"
  by (simp add: unchanged_except_def)

lemma unchanged_except_trans:
  "unchanged_except a df df1 \<Longrightarrow> unchanged_except b df1 df2 \<Longrightarrow>
   unchanged_except (a @ b) df df2"
  by (simp add: unchanged_except_def)

lemma names_in [simp]:
  "''total_area'' \<in> set numeric_names" "''kitchen_area'' \<in> set numeric_names"
  "''bath_area'' \<in> set numeric_names" "''other_area'' \<in> set numeric_names"
  "''rooms_count'' \<in> set numeric_names" "''floor'' \<in> set numeric_names"
  "''floor_max'' \<in> set numeric_names" "''extra_area'' \<in> set numeric_names"
  "''year'' \<in> set numeric_names" "''ceil_height'' \<in> set numeric_names"
  "''building_age'' \<in> set numeric_names"
  by (simp_all add: numeric_names_def NUMERICAL_FEATURES_def)

lemma numeric_ok_not_str:
  "numeric_ok df \<Longrightarrow> c \<in> set numeric_names \<Longrightarrow> get_col df c \<noteq> Some (StrCol ys)"
  by (auto dest: numeric_okD)

lemma area_ratio_step:
  assumes ok: "numeric_ok df"
  shows "\<exists>df'. create_area_ratio_features df = Inr df' \<and> numeric_ok df' \<and>
           unchanged_except [''kitchen_ratio'', ''bath_ratio'', ''living_area'', ''living_ratio'',
                             ''area_per_room''] df df' \<and>
           (\<forall>ta xs. get_col df ''total_area'' = Some (NumCol ta) \<longrightarrow>
              (get_col df ''rooms_count'' = Some (NumCol xs) \<longrightarrow>
                 get_col df' ''area_per_room'' = Some (NumCol (map2 fdiv ta (replace0 (Fin 1) xs)))) \<and>
              (get_col df ''kitchen_area'' = Some (NumCol xs) \<longrightarrow>
                 get_col df' ''kitchen_ratio'' = Some (NumCol (map2 fdiv xs (replace0 NaN ta)))) \<and>
              (get_col df ''bath_area'' = Some (NumCol xs) \<longrightarrow>
                 get_col df' ''bath_ratio'' = Some (NumCol (map2 fdiv xs (replace0 NaN ta)))) \<and>
              (get_col df ''other_area'' = Some (NumCol xs) \<longrightarrow>
                 get_col df' ''living_ratio'' = Some (NumCol (map2 fdiv xs (replace0 NaN ta)))))"
  using ok numeric_ok_not_str [OF ok]
  by (auto simp: create_area_ratio_features_def Let_def has_col_iff num_col_def
        numeric_ok_set_col unchanged_except_def split: option.splits column.splits)

lemma building_age_step:
  assumes ok: "numeric_ok df"
  shows "\<exists>df'. create_building_age_features cfg df = Inr df' \<and> numeric_ok df' \<and>
           unchanged_except [''building_age'', ''building_age_squared''] df df'"
  using ok numeric_ok_not_str [OF ok]
  by (auto simp: create_building_age_features_def Let_def has_col_iff num_col_def
        numeric_ok_set_col unchanged_except_def split: option.splits column.splits)

lemma floor_step:
  assumes ok: "numeric_ok df"
  shows "\<exists>df'. create_floor_features df = Inr df' \<and> numeric_ok df' \<and>
           unchanged_except [''is_first_floor'', ''is_last_floor'', ''floor_ratio''] df df' \<and>
           (\<forall>fl fm. get_col df ''floor'' = Some (NumCol fl) \<longrightarrow>
              get_col df ''floor_max'' = Some (NumCol fm) \<longrightarrow>
              get_col df' ''floor_ratio'' = Some (NumCol (map2 fdiv fl (replace0 (Fin 1) fm))))"
  using ok numeric_ok_not_str [OF ok]
  by (auto simp: create_floor_features_def Let_def has_col_iff num_col_def
        numeric_ok_set_col unchanged_except_def split: option.splits column.splits)

lemma amenities_step:
  assumes ok: "numeric_ok df"
  shows "numeric_ok (create_amenities_score df) \<and>
         unchanged_except [''amenities_score''] df (create_amenities_score df)"
  using ok
  by (auto simp: create_amenities_score_def numeric_ok_set_col unchanged_except_def
        split: option.splits)

lemma volume_step:
  assumes ok: "numeric_ok df"
  shows "\<exists>df'. create_volume_feature df = Inr df' \<and> numeric_ok df' \<and>
           unchanged_except [''volume''] df df'"
  using ok numeric_ok_not_str [OF ok]
  by (auto simp: create_volume_feature_def Let_def has_col_iff num_col_def
        numeric_ok_set_col unchanged_except_def split: option.splits column.splits)

lemma extra_area_step:
  assumes ok: "numeric_ok df"
  shows "\<exists>df'. create_extra_area_features df = Inr df' \<and> numeric_ok df' \<and>
           unchanged_except [''has_extra_area'', ''extra_area_ratio''] df df' \<and>
           (\<forall>ea ta. get_col df ''extra_area'' = Some (NumCol ea) \<longrightarrow>
              get_col df ''total_area'' = Some (NumCol ta) \<longrightarrow>
              get_col df' ''extra_area_ratio'' = Some (NumCol (map2 fdiv ea (replace0 (Fin 1) ta))))"
  using ok numeric_ok_not_str [OF ok]
  by (auto simp: create_extra_area_features_def Let_def has_col_iff num_col_def
        numeric_ok_set_col unchanged_except_def split: option.splits column.splits)

lemma interaction_step:
  assumes ok: "numeric_ok df"
  shows "\<exists>df'. create_interaction_features df = Inr df' \<and> numeric_ok df' \<and>
           unchanged_except [''rooms_floor_interaction'', ''area_age_interaction''] df df'"
  using ok numeric_ok_not_str [OF ok]
  by (auto simp: create_interaction_features_def Let_def has_col_iff num_col_def
        numeric_ok_set_col unchanged_except_def split: option.splits column.splits)

lemma default_config_enabled:
  "cfg_get (effective_config None) ''building_age''"
  "cfg_get (effective_config None) ''area_ratios''"
  "cfg_get (effective_config None) ''floor_features''"
  "cfg_get (effective_config None) ''amenities_score''"
  "cfg_get (effective_config None) ''volume''"
  "cfg_get (effective_config None) ''extra_area_features''"
  "cfg_get (effective_config None) ''interaction_features''"
  by (simp_all add: effective_config_def FEATURE_ENGINEERING_CONFIG_def cfg_get_def)

lemma engineer_all_default:
  assumes ok: "numeric_ok df"
  shows "\<exists>df'. engineer_all None df = Inr df' \<and> numeric_ok df' \<and> nrows df' = nrows df \<and>
           (\<forall>c. c \<notin> set derived_names \<longrightarrow> get_col df' c = get_col df c) \<and>
           (\<forall>ta xs. get_col df ''total_area'' = Some (NumCol ta) \<longrightarrow>
              (get_col df ''rooms_count'' = Some (NumCol xs) \<longrightarrow>
                 get_col df' ''area_per_room'' = Some (NumCol (map2 fdiv ta (replace0 (Fin 1) xs)))) \<and>
              (get_col df ''kitchen_area'' = Some (NumCol xs) \<longrightarrow>
                 get_col df' ''kitchen_ratio'' = Some (NumCol (map2 fdiv xs (replace0 NaN ta)))) \<and>
              (get_col df ''bath_area'' = Some (NumCol xs) \<longrightarrow>
                 get_col df' ''bath_ratio'' = Some (NumCol (map2 fdiv xs (replace0 NaN ta)))) \<and>
              (get_col df ''other_area'' = Some (NumCol xs) \<longrightarrow>
                 get_col df' ''living_ratio'' = Some (NumCol (map2 fdiv xs (replace0 NaN ta)))) \<and>
              (get_col df ''extra_area'' = Some (NumCol xs) \<longrightarrow>
                 get_col df' ''extra_area_ratio'' =
                   Some (NumCol (map2 fdiv xs (replace0 (Fin 1) ta))))) \<and>
           (\<forall>fl fm. get_col df ''floor'' = Some (NumCol fl) \<longrightarrow>
              get_col df ''floor_max'' = Some (NumCol fm) \<longrightarrow>
              get_col df' ''floor_ratio'' = Some (NumCol (map2 fdiv fl (replace0 (Fin 1) fm))))"
proof -
  let ?cfg = "effective_config None"
  from building_age_step [OF ok, of ?cfg] obtain df1 where
    s1: "create_building_age_features ?cfg df = Inr df1" and ok1: "numeric_ok df1"
    and u1: "unchanged_except [''building_age'', ''building_age_squared''] df df1"
    by blast
  from area_ratio_step [OF ok1] obtain df2 where
    s2: "create_area_ratio_features df1 = Inr df2" and ok2: "numeric_ok df2"
    and u2: "unchanged_except [''kitchen_ratio'', ''bath_ratio'', ''living_area'', ''living_ratio'',
                             ''area_per_room''] df1 df2"
    and v2: "\<forall>ta xs. get_col df1 ''total_area'' = Some (NumCol ta) \<longrightarrow>
              (get_col df1 ''rooms_count'' = Some (NumCol xs) \<longrightarrow>
                 get_col df2 ''area_per_room'' = Some (NumCol (map2 fdiv ta (replace0 (Fin 1) xs)))) \<and>
              (get_col df1 ''kitchen_area'' = Some (NumCol xs) \<longrightarrow>
                 get_col df2 ''kitchen_ratio'' = Some (NumCol (map2 fdiv xs (replace0 NaN ta)))) \<and>
              (get_col df1 ''bath_area'' = Some (NumCol xs) \<longrightarrow>
                 get_col df2 ''bath_ratio'' = Some (NumCol (map2 fdiv xs (replace0 NaN ta)))) \<and>
              (get_col df1 ''other_area'' = Some (NumCol xs) \<longrightarrow>
                 get_col df2 ''living_ratio'' = Some (NumCol (map2 fdiv xs (replace0 NaN ta))))"
    by blast
  from floor_step [OF ok2] obtain df3 where
    s3: "create_floor_features df2 = Inr df3" and ok3: "numeric_ok df3"
    and u3: "unchanged_except [''is_first_floor'', ''is_last_floor'', ''floor_ratio''] df2 df3"
    and v3: "\<forall>fl fm. get_col df2 ''floor'' = Some (NumCol fl) \<longrightarrow>
              get_col df2 ''floor_max'' = Some (NumCol fm) \<longrightarrow>
              get_col df3 ''floor_ratio'' = Some (NumCol (map2 fdiv fl (replace0 (Fin 1) fm)))"
    by blast
  define df4 where "df4 = create_amenities_score df3"
  from amenities_step [OF ok3] have ok4: "numeric_ok df4"
    and u4: "unchanged_except [''amenities_score''] df3 df4"
    by (simp_all add: df4_def)
  from volume_step [OF ok4] obtain df5 where
    s5: "create_volume_feature df4 = Inr df5" and ok5: "numeric_ok df5"
    and u5: "unchanged_except [''volume''] df4 df5"
    by blast
  from extra_area_step [OF ok5] obtain df6 where
    s6: "create_extra_area_features df5 = Inr df6" and ok6: "numeric_ok df6"
    and u6: "unchanged_except [''has_extra_area'', ''extra_area_ratio''] df5 df6"
    and v6: "\<forall>ea ta. get_col df5 ''extra_area'' = Some (NumCol ea) \<longrightarrow>
              get_col df5 ''total_area'' = Some (NumCol ta) \<longrightarrow>
              get_col df6 ''extra_area_ratio'' = Some (NumCol (map2 fdiv ea (replace0 (Fin 1) ta)))"
    by blast
  from interaction_step [OF ok6] obtain df7 where
    s7: "create_interaction_features df6 = Inr df7" and ok7: "numeric_ok df7"
    and u7: "unchanged_except [''rooms_floor_interaction'', ''area_age_interaction''] df6 df7"
    by blast
  have run: "engineer_all None df = Inr df7"
    by (simp add: engineer_all_def Let_def when_enabled_def default_config_enabled
          s1 s2 s3 df4_def [symmetric] s5 s6 s7)
  note t12 = unchanged_except_trans [OF u1 u2]
  note t13 = unchanged_except_trans [OF t12 u3]
  note t14 = unchanged_except_trans [OF t13 u4]
  note t15 = unchanged_except_trans [OF t14 u5]
  note t16 = unchanged_except_trans [OF t15 u6]
  note t17 = unchanged_except_trans [OF t16 u7]
  note t37 = unchanged_except_trans [OF unchanged_except_trans [OF unchanged_except_trans
               [OF unchanged_except_trans [OF u3 u4] u5] u6] u7]
  note t47 = unchanged_except_trans [OF unchanged_except_trans [OF unchanged_except_trans
               [OF u4 u5] u6] u7]
  have all: "unchanged_except derived_names df df7"
    using t17 by (simp add: derived_names_def)
  have rows: "nrows df7 = nrows df"
    using all by (simp add: unchanged_except_def)
  have keep: "\<forall>c. c \<notin> set derived_names \<longrightarrow> get_col df7 c = get_col df c"
    using all by (simp add: unchanged_except_def)
  have r1: "get_col df1 ''total_area'' = get_col df ''total_area''"
    "get_col df1 ''rooms_count'' = get_col df ''rooms_count''"
    "get_col df1 ''kitchen_area'' = get_col df ''kitchen_area''"
    "get_col df1 ''bath_area'' = get_col df ''bath_area''"
    "get_col df1 ''other_area'' = get_col df ''other_area''"
    by (rule unchanged_exceptD [OF u1], simp)+
  have r2: "get_col df2 ''floor'' = get_col df ''floor''"
    "get_col df2 ''floor_max'' = get_col df ''floor_max''"
    by (rule unchanged_exceptD [OF t12], simp)+
  have r5: "get_col df5 ''total_area'' = get_col df ''total_area''"
    "get_col df5 ''extra_area'' = get_col df ''extra_area''"
    by (rule unchanged_exceptD [OF t15], simp)+
  have l2: "get_col df7 ''area_per_room'' = get_col df2 ''area_per_room''"
    "get_col df7 ''kitchen_ratio'' = get_col df2 ''kitchen_ratio''"
    "get_col df7 ''bath_ratio'' = get_col df2 ''bath_ratio''"
    "get_col df7 ''living_ratio'' = get_col df2 ''living_ratio''"
    by (rule unchanged_exceptD [OF t37], simp)+
  have l3: "get_col df7 ''floor_ratio'' = get_col df3 ''floor_ratio''"
    by (rule unchanged_exceptD [OF t47], simp)
  have l6: "get_col df7 ''extra_area_ratio'' = get_col df6 ''extra_area_ratio''"
    by (rule unchanged_exceptD [OF u7], simp)
  from v2 have v2': "\<forall>ta xs. get_col df ''total_area'' = Some (NumCol ta) \<longrightarrow>
              (get_col df ''rooms_count'' = Some (NumCol xs) \<longrightarrow>
                 get_col df7 ''area_per_room'' = Some (NumCol (map2 fdiv ta (replace0 (Fin 1) xs)))) \<and>
              (get_col df ''kitchen_area'' = Some (NumCol xs) \<longrightarrow>
                 get_col df7 ''kitchen_ratio'' = Some (NumCol (map2 fdiv xs (replace0 NaN ta)))) \<and>
              (get_col df ''bath_area'' = Some (NumCol xs) \<longrightarrow>
                 get_col df7 ''bath_ratio'' = Some (NumCol (map2 fdiv xs (replace0 NaN ta)))) \<and>
              (get_col df ''other_area'' = Some (NumCol xs) \<longrightarrow>
                 get_col df7 ''living_ratio'' = Some (NumCol (map2 fdiv xs (replace0 NaN ta))))"
    unfolding r1 l2 .
  from v3 have v3': "\<forall>fl fm. get_col df ''floor'' = Some (NumCol fl) \<longrightarrow>
              get_col df ''floor_max'' = Some (NumCol fm) \<longrightarrow>
              get_col df7 ''floor_ratio'' = Some (NumCol (map2 fdiv fl (replace0 (Fin 1) fm)))"
    unfolding r2 l3 .
  from v6 have v6': "\<forall>ea ta. get_col df ''extra_area'' = Some (NumCol ea) \<longrightarrow>
              get_col df ''total_area'' = Some (NumCol ta) \<longrightarrow>
              get_col df7 ''extra_area_ratio'' = Some (NumCol (map2 fdiv ea (replace0 (Fin 1) ta)))"
    unfolding r5 l6 .
  from run ok7 rows keep v2' v3' v6' show ?thesis
    by blast
qed

lemma fdiv_one: "is_finite a \<Longrightarrow> fdiv a (Fin 1) = a"
  by (cases a) (simp_all add: is_finite_def fin_def)

lemma fdiv_finite_iff:
  "is_finite a \<Longrightarrow> is_finite b \<Longrightarrow> b \<noteq> Fin 0 \<Longrightarrow>
   is_finite (fdiv a b) \<longleftrightarrow> quotient_fits a b"
proof (cases a; cases b)
  fix x y
  assume "b \<noteq> Fin 0" "a = Fin x" "b = Fin y"
  then show "is_finite (fdiv a b) \<longleftrightarrow> quotient_fits a b"
    by (simp add: is_finite_fin quotient_fits_def)
qed (simp_all add: is_finite_def)

lemma fdiv_not_NaN:
  "is_finite a \<Longrightarrow> is_finite b \<Longrightarrow> b \<noteq> Fin 0 \<Longrightarrow> fdiv a b \<noteq> NaN"
  by (cases a; cases b) (simp_all add: fin_not_NaN is_finite_def)

text \<open>
  A quotient of finite operands that overflows: \<^verbatim>\<open>1e308 / 0.5\<close> is infinite, as
  \<^verbatim>\<open>area_per_room\<close> for a \<^verbatim>\<open>total_area\<close> of \<^verbatim>\<open>1e308\<close> and a \<^verbatim>\<open>rooms_count\<close> of
  \<^verbatim>\<open>0.5\<close>.
\<close>

lemma quotient_overflow:
  "is_finite (Fin (10 ^ 308)) \<and> is_finite (Fin (1/2)) \<and>
   fdiv (Fin (10 ^ 308)) (Fin (1/2)) = PInf \<and> \<not> quotient_fits (Fin (10 ^ 308)) (Fin (1/2))"
  by (simp add: is_finite_def fin_def inf_of_sign_def quotient_fits_def overflow_threshold_def)

lemma fdiv_NaN [simp]: "fdiv a NaN = NaN"
  by (cases a) simp_all

lemma replace0_nth:
  "i < length xs \<Longrightarrow> replace0 v xs ! i = (if xs ! i = Fin 0 then v else xs ! i)"
  by (simp add: replace0_def)

lemma map2_fdiv_nth:
  "i < length xs \<Longrightarrow> length ys = length xs \<Longrightarrow>
   map2 fdiv xs (replace0 v ys) ! i = fdiv (xs ! i) (if ys ! i = Fin 0 then v else ys ! i)"
  by (simp add: replace0_def)

lemma safe_ratio:
  assumes "list_all is_finite xs" "list_all is_finite ys" "length ys = length xs" "i < length xs"
  shows "(ys ! i = Fin 0 \<longrightarrow> map2 fdiv xs (replace0 (Fin 1) ys) ! i = xs ! i) \<and>
         (ys ! i \<noteq> Fin 0 \<longrightarrow>
            (is_finite (map2 fdiv xs (replace0 (Fin 1) ys) ! i) \<longleftrightarrow>
               quotient_fits (xs ! i) (ys ! i))) \<and>
         map2 fdiv xs (replace0 (Fin 1) ys) ! i \<noteq> NaN"
proof -
  from assms have f: "is_finite (xs ! i)" "is_finite (ys ! i)"
    by (simp_all add: list_all_length)
  have v: "map2 fdiv xs (replace0 (Fin 1) ys) ! i =
             fdiv (xs ! i) (if ys ! i = Fin 0 then Fin 1 else ys ! i)"
    using assms(3,4) by (simp add: map2_fdiv_nth)
  show ?thesis
  proof (cases "ys ! i = Fin 0")
    case True
    from f(1) have "xs ! i \<noteq> NaN"
      by (auto simp: is_finite_def)
    with True f(1) show ?thesis
      unfolding v by (simp add: fdiv_one)
  next
    case False
    with f show ?thesis
      unfolding v by (simp add: fdiv_finite_iff fdiv_not_NaN)
  qed
qed

lemma nan_ratio:
  assumes "list_all is_finite xs" "list_all is_finite ys" "length ys = length xs" "i < length xs"
  shows "(ys ! i = Fin 0 \<longrightarrow> map2 fdiv xs (replace0 NaN ys) ! i = NaN) \<and>
         (ys ! i \<noteq> Fin 0 \<longrightarrow>
            (is_finite (map2 fdiv xs (replace0 NaN ys) ! i) \<longleftrightarrow>
               quotient_fits (xs ! i) (ys ! i)) \<and>
            map2 fdiv xs (replace0 NaN ys) ! i \<noteq> NaN)"
proof -
  from assms have "is_finite (xs ! i)" "is_finite (ys ! i)"
    by (simp_all add: list_all_length)
  then show ?thesis
    using assms(3,4) by (simp add: map2_fdiv_nth fdiv_finite_iff fdiv_not_NaN)
qed

text \<open>
  C2 (amended): for every row, the engineered \<^verbatim>\<open>area_per_room\<close> is \<^verbatim>\<open>total_area\<close> divided
  by \<^verbatim>\<open>rooms_count\<close>, where a \<^verbatim>\<open>rooms_count\<close> of 0 is replaced by 1 (a studio counts as
  one room); for \<^verbatim>\<open>rooms_count = 3\<close> and \<^verbatim>\<open>total_area = 65\<close> it is 65/3.
\<close>

theorem area_per_room_studio_as_one:
  assumes ok: "numeric_ok df"
    and ta: "get_col df ''total_area'' = Some (NumCol ta)"
    and rc: "get_col df ''rooms_count'' = Some (NumCol rc)"
    and len: "length ta = nrows df" "length rc = nrows df"
  shows "\<exists>apr. engineered_column df ''area_per_room'' = Inr (Some (NumCol apr)) \<and>
           length apr = nrows df \<and>
           (\<forall>i<nrows df. apr ! i = fdiv (ta ! i) (if rc ! i = Fin 0 then Fin 1 else rc ! i))"
proof -
  from engineer_all_default [OF ok] ta rc obtain df' where
    run: "engineer_all None df = Inr df'"
    and apr: "get_col df' ''area_per_room'' = Some (NumCol (map2 fdiv ta (replace0 (Fin 1) rc)))"
    by blast
  have "engineered_column df ''area_per_room'' =
          Inr (Some (NumCol (map2 fdiv ta (replace0 (Fin 1) rc))))"
    by (simp add: engineered_column_def run apr)
  moreover have "length (map2 fdiv ta (replace0 (Fin 1) rc)) = nrows df"
    using len by (simp add: replace0_def)
  moreover have "\<forall>i<nrows df. map2 fdiv ta (replace0 (Fin 1) rc) ! i =
                   fdiv (ta ! i) (if rc ! i = Fin 0 then Fin 1 else rc ! i)"
    using len by (simp add: map2_fdiv_nth)
  ultimately show ?thesis by blast
qed

lemma sample_numeric_ok: "numeric_ok (sample_frame t)"
  by (simp add: numeric_ok_def numeric_names_def NUMERICAL_FEATURES_def sample_frame_def get_col_def)

lemma sample_cols:
  "get_col (sample_frame t) ''total_area'' = Some (NumCol [Fin t])"
  "get_col (sample_frame t) ''rooms_count'' = Some (NumCol [Fin 3])"
  "get_col (sample_frame t) ''kitchen_area'' = Some (NumCol [Fin 10])"
  "get_col (sample_frame t) ''bath_area'' = Some (NumCol [Fin 5])"
  "get_col (sample_frame t) ''other_area'' = Some (NumCol [Fin (101/2)])"
  "get_col (sample_frame t) ''extra_area'' = Some (NumCol [Fin 10])"
  "get_col (sample_frame t) ''floor'' = Some (NumCol [Fin 5])"
  "get_col (sample_frame t) ''floor_max'' = Some (NumCol [Fin 10])"
  "nrows (sample_frame t) = 1"
  by (simp_all add: sample_frame_def get_col_def)

text \<open>
  C2 (as stated): \<^verbatim>\<open>area_per_room = total_area / (rooms_count + 1)\<close>. It fails on the
  sample record of the tests, with \<^verbatim>\<open>rooms_count = 3\<close> and \<^verbatim>\<open>total_area = 65\<close>: the
  engineered value is 65/3, not 65/4.
\<close>

theorem area_per_room_counterexample:
  "engineered_column (sample_frame 65) ''area_per_room'' = Inr (Some (NumCol [Fin (65/3)])) \<and>
   Fin (65/3) \<noteq> Fin (65/4)"
proof -
  from engineer_all_default [OF sample_numeric_ok, of 65] obtain df' where
    "engineer_all None (sample_frame 65) = Inr df'"
    "get_col df' ''area_per_room'' = Some (NumCol (map2 fdiv [Fin 65] (replace0 (Fin 1) [Fin 3])))"
    using sample_cols(1,2) [of 65] by blast
  then show ?thesis
    by (simp add: engineered_column_def replace0_def fin_small)
qed

theorem area_per_room_studio_as_one_witness:
  "numeric_ok (sample_frame 65) \<and>
   get_col (sample_frame 65) ''total_area'' = Some (NumCol [Fin 65]) \<and>
   get_col (sample_frame 65) ''rooms_count'' = Some (NumCol [Fin 3]) \<and>
   (\<exists>apr. engineered_column (sample_frame 65) ''area_per_room'' = Inr (Some (NumCol apr)) \<and>
          apr ! 0 = Fin (65/3))"
proof -
  from area_per_room_studio_as_one
         [OF sample_numeric_ok sample_cols(1) sample_cols(2), of 65]
  obtain apr where "engineered_column (sample_frame 65) ''area_per_room'' = Inr (Some (NumCol apr))"
    and "\<forall>i<nrows (sample_frame 65). apr ! i =
           fdiv ([Fin 65] ! i) (if [Fin 3] ! i = Fin 0 then Fin 1 else [Fin 3] ! i)"
    by (auto simp: sample_cols)
  then have "engineered_column (sample_frame 65) ''area_per_room'' = Inr (Some (NumCol apr)) \<and>
          apr ! 0 = Fin (65/3)"
    by (simp add: sample_cols fin_small)
  with sample_numeric_ok sample_cols(1,2) [of 65] show ?thesis by blast
qed

lemma sample_finite:
  "finite_column (sample_frame 0) ''total_area'' [Fin 0]"
  "finite_column (sample_frame t) ''rooms_count'' [Fin 3]"
  "finite_column (sample_frame t) ''kitchen_area'' [Fin 10]"
  "finite_column (sample_frame t) ''bath_area'' [Fin 5]"
  "finite_column (sample_frame t) ''other_area'' [Fin (101/2)]"
  "finite_column (sample_frame t) ''extra_area'' [Fin 10]"
  "finite_column (sample_frame t) ''floor'' [Fin 5]"
  "finite_column (sample_frame t) ''floor_max'' [Fin 10]"
  by (simp_all add: finite_column_def sample_cols is_finite_small)

text \<open>
  C1 (as stated): every derived ratio of a row with \<^verbatim>\<open>total_area = 0\<close> is finite. It
  fails on the sample record with \<^verbatim>\<open>total_area = 0\<close>: \<^verbatim>\<open>kitchen_ratio\<close> is NaN, because
  the divisor 0 is replaced by NaN.
\<close>

theorem zero_area_ratio_counterexample:
  "engineered_column (sample_frame 0) ''kitchen_ratio'' = Inr (Some (NumCol [NaN])) \<and>
   \<not> is_finite NaN"
proof -
  from engineer_all_default [OF sample_numeric_ok, of 0] obtain df' where
    "engineer_all None (sample_frame 0) = Inr df'"
    "get_col df' ''kitchen_ratio'' = Some (NumCol (map2 fdiv [Fin 10] (replace0 NaN [Fin 0])))"
    using sample_cols(1,3) [of 0] by blast
  then show ?thesis
    by (simp add: engineered_column_def replace0_def is_finite_def)
qed

text \<open>
  C1 (amended): on a batch whose numeric columns hold finite floats, \<^verbatim>\<open>engineer_all\<close>
  completes without raising, also for rows with \<^verbatim>\<open>total_area = 0\<close>, \<^verbatim>\<open>floor_max = 0\<close>
  or \<^verbatim>\<open>rooms_count = 0\<close>, and no ratio is computed with a zero divisor. Where
  \<^verbatim>\<open>rooms_count\<close>, \<^verbatim>\<open>floor_max\<close> or (for \<^verbatim>\<open>extra_area_ratio\<close>) \<^verbatim>\<open>total_area\<close> is 0, the
  divisor is replaced by 1: \<^verbatim>\<open>area_per_room\<close> is \<^verbatim>\<open>total_area\<close>, \<^verbatim>\<open>floor_ratio\<close> is
  \<^verbatim>\<open>floor\<close> and \<^verbatim>\<open>extra_area_ratio\<close> is \<^verbatim>\<open>extra_area\<close>, all finite. Where \<^verbatim>\<open>total_area\<close>
  is 0, \<^verbatim>\<open>kitchen_ratio\<close>, \<^verbatim>\<open>bath_ratio\<close> and \<^verbatim>\<open>living_ratio\<close> are NaN (the divisor is
  replaced by NaN). Every other ratio is the quotient by the non-zero divisor: it is
  never NaN, and it is finite exactly when the quotient stays below the float64
  overflow threshold (lemma \<open>quotient_overflow\<close> has a quotient that does not).
\<close>

theorem engineer_all_division_safety:
  assumes ok: "numeric_ok df"
    and ta: "finite_column df ''total_area'' ta" and rc: "finite_column df ''rooms_count'' rc"
    and ka: "finite_column df ''kitchen_area'' ka" and ba: "finite_column df ''bath_area'' ba"
    and oa: "finite_column df ''other_area'' oa" and ea: "finite_column df ''extra_area'' ea"
    and fl: "finite_column df ''floor'' fl" and fm: "finite_column df ''floor_max'' fm"
  shows "\<exists>apr fr er kr br lr.
           engineered_column df ''area_per_room'' = Inr (Some (NumCol apr)) \<and>
           engineered_column df ''floor_ratio'' = Inr (Some (NumCol fr)) \<and>
           engineered_column df ''extra_area_ratio'' = Inr (Some (NumCol er)) \<and>
           engineered_column df ''kitchen_ratio'' = Inr (Some (NumCol kr)) \<and>
           engineered_column df ''bath_ratio'' = Inr (Some (NumCol br)) \<and>
           engineered_column df ''living_ratio'' = Inr (Some (NumCol lr)) \<and>
           (\<forall>i<nrows df.
              (rc ! i = Fin 0 \<longrightarrow> apr ! i = ta ! i) \<and>
              (fm ! i = Fin 0 \<longrightarrow> fr ! i = fl ! i) \<and>
              (ta ! i = Fin 0 \<longrightarrow>
                 er ! i = ea ! i \<and> kr ! i = NaN \<and> br ! i = NaN \<and> lr ! i = NaN) \<and>
              (rc ! i \<noteq> Fin 0 \<longrightarrow>
                 (is_finite (apr ! i) \<longleftrightarrow> quotient_fits (ta ! i) (rc ! i))) \<and>
              (fm ! i \<noteq> Fin 0 \<longrightarrow>
                 (is_finite (fr ! i) \<longleftrightarrow> quotient_fits (fl ! i) (fm ! i))) \<and>
              (ta ! i \<noteq> Fin 0 \<longrightarrow>
                 (is_finite (er ! i) \<longleftrightarrow> quotient_fits (ea ! i) (ta ! i)) \<and>
                 (is_finite (kr ! i) \<longleftrightarrow> quotient_fits (ka ! i) (ta ! i)) \<and>
                 (is_finite (br ! i) \<longleftrightarrow> quotient_fits (ba ! i) (ta ! i)) \<and>
                 (is_finite (lr ! i) \<longleftrightarrow> quotient_fits (oa ! i) (ta ! i)) \<and>
                 kr ! i \<noteq> NaN \<and> br ! i \<noteq> NaN \<and> lr ! i \<noteq> NaN) \<and>
              apr ! i \<noteq> NaN \<and> fr ! i \<noteq> NaN \<and> er ! i \<noteq> NaN)"
proof -
  from engineer_all_default [OF ok] obtain df' where
    run: "engineer_all None df = Inr df'"
    and v: "\<forall>ta xs. get_col df ''total_area'' = Some (NumCol ta) \<longrightarrow>
              (get_col df ''rooms_count'' = Some (NumCol xs) \<longrightarrow>
                 get_col df' ''area_per_room'' = Some (NumCol (map2 fdiv ta (replace0 (Fin 1) xs)))) \<and>
              (get_col df ''kitchen_area'' = Some (NumCol xs) \<longrightarrow>
                 get_col df' ''kitchen_ratio'' = Some (NumCol (map2 fdiv xs (replace0 NaN ta)))) \<and>
              (get_col df ''bath_area'' = Some (NumCol xs) \<longrightarrow>
                 get_col df' ''bath_ratio'' = Some (NumCol (map2 fdiv xs (replace0 NaN ta)))) \<and>
              (get_col df ''other_area'' = Some (NumCol xs) \<longrightarrow>
                 get_col df' ''living_ratio'' = Some (NumCol (map2 fdiv xs (replace0 NaN ta)))) \<and>
              (get_col df ''extra_area'' = Some (NumCol xs) \<longrightarrow>
                 get_col df' ''extra_area_ratio'' =
                   Some (NumCol (map2 fdiv xs (replace0 (Fin 1) ta))))"
    and w: "\<forall>fl fm. get_col df ''floor'' = Some (NumCol fl) \<longrightarrow>
              get_col df ''floor_max'' = Some (NumCol fm) \<longrightarrow>
              get_col df' ''floor_ratio'' = Some (NumCol (map2 fdiv fl (replace0 (Fin 1) fm)))"
    by blast
  note fc = finite_column_def
  define apr where "apr = map2 fdiv ta (replace0 (Fin 1) rc)"
  define fr where "fr = map2 fdiv fl (replace0 (Fin 1) fm)"
  define er where "er = map2 fdiv ea (replace0 (Fin 1) ta)"
  define kr where "kr = map2 fdiv ka (replace0 NaN ta)"
  define br where "br = map2 fdiv ba (replace0 NaN ta)"
  define lr where "lr = map2 fdiv oa (replace0 NaN ta)"
  have c1: "engineered_column df ''area_per_room'' = Inr (Some (NumCol apr))"
    using v ta rc by (simp add: engineered_column_def run fc apr_def)
  have c2: "engineered_column df ''floor_ratio'' = Inr (Some (NumCol fr))"
    using w fl fm by (simp add: engineered_column_def run fc fr_def)
  have c3: "engineered_column df ''extra_area_ratio'' = Inr (Some (NumCol er))"
    using v ta ea by (simp add: engineered_column_def run fc er_def)
  have c4: "engineered_column df ''kitchen_ratio'' = Inr (Some (NumCol kr))"
    using v ta ka by (simp add: engineered_column_def run fc kr_def)
  have c5: "engineered_column df ''bath_ratio'' = Inr (Some (NumCol br))"
    using v ta ba by (simp add: engineered_column_def run fc br_def)
  have c6: "engineered_column df ''living_ratio'' = Inr (Some (NumCol lr))"
    using v ta oa by (simp add: engineered_column_def run fc lr_def)
  have rows: "(rc ! i = Fin 0 \<longrightarrow> apr ! i = ta ! i) \<and>
              (fm ! i = Fin 0 \<longrightarrow> fr ! i = fl ! i) \<and>
              (ta ! i = Fin 0 \<longrightarrow>
                 er ! i = ea ! i \<and> kr ! i = NaN \<and> br ! i = NaN \<and> lr ! i = NaN) \<and>
              (rc ! i \<noteq> Fin 0 \<longrightarrow>
                 (is_finite (apr ! i) \<longleftrightarrow> quotient_fits (ta ! i) (rc ! i))) \<and>
              (fm ! i \<noteq> Fin 0 \<longrightarrow>
                 (is_finite (fr ! i) \<longleftrightarrow> quotient_fits (fl ! i) (fm ! i))) \<and>
              (ta ! i \<noteq> Fin 0 \<longrightarrow>
                 (is_finite (er ! i) \<longleftrightarrow> quotient_fits (ea ! i) (ta ! i)) \<and>
                 (is_finite (kr ! i) \<longleftrightarrow> quotient_fits (ka ! i) (ta ! i)) \<and>
                 (is_finite (br ! i) \<longleftrightarrow> quotient_fits (ba ! i) (ta ! i)) \<and>
                 (is_finite (lr ! i) \<longleftrightarrow> quotient_fits (oa ! i) (ta ! i)) \<and>
                 kr ! i \<noteq> NaN \<and> br ! i \<noteq> NaN \<and> lr ! i \<noteq> NaN) \<and>
              apr ! i \<noteq> NaN \<and> fr ! i \<noteq> NaN \<and> er ! i \<noteq> NaN"
    if i: "i < nrows df" for i
  proof -
    from ta rc i have a: "list_all is_finite ta" "list_all is_finite rc"
      "length rc = length ta" "i < length ta"
      by (simp_all add: fc)
    from fl fm i have b: "list_all is_finite fl" "list_all is_finite fm"
      "length fm = length fl" "i < length fl"
      by (simp_all add: fc)
    from ea ta i have c: "list_all is_finite ea" "length ta = length ea" "i < length ea"
      by (simp_all add: fc)
    from ka ba oa ta i have d: "list_all is_finite ka" "length ta = length ka" "i < length ka"
      "list_all is_finite ba" "length ta = length ba" "i < length ba"
      "list_all is_finite oa" "length ta = length oa" "i < length oa"
      by (simp_all add: fc)
    note s1 = safe_ratio [OF a(1) a(2) a(3) a(4), folded apr_def]
    note s2 = safe_ratio [OF b(1) b(2) b(3) b(4), folded fr_def]
    note s3 = safe_ratio [OF c(1) a(1) c(2) c(3), folded er_def]
    note n1 = nan_ratio [OF d(1) a(1) d(2) d(3), folded kr_def]
    note n2 = nan_ratio [OF d(4) a(1) d(5) d(6), folded br_def]
    note n3 = nan_ratio [OF d(7) a(1) d(8) d(9), folded lr_def]
    from s1 s2 s3 n1 n2 n3 show ?thesis
      by blast
  qed
  from c1 c2 c3 c4 c5 c6 rows show ?thesis by blast
qed

theorem engineer_all_division_safety_witness:
  "numeric_ok (sample_frame 0) \<and>
   finite_column (sample_frame 0) ''total_area'' [Fin 0] \<and>
   finite_column (sample_frame 0) ''rooms_count'' [Fin 3] \<and>
   finite_column (sample_frame 0) ''kitchen_area'' [Fin 10] \<and>
   finite_column (sample_frame 0) ''bath_area'' [Fin 5] \<and>
   finite_column (sample_frame 0) ''other_area'' [Fin (101/2)] \<and>
   finite_column (sample_frame 0) ''extra_area'' [Fin 10] \<and>
   finite_column (sample_frame 0) ''floor'' [Fin 5] \<and>
   finite_column (sample_frame 0) ''floor_max'' [Fin 10] \<and>
   quotient_fits (Fin 0) (Fin 3) \<and> quotient_fits (Fin 5) (Fin 10) \<and>
   (\<exists>apr fr er kr br lr.
      engineered_column (sample_frame 0) ''area_per_room'' = Inr (Some (NumCol apr)) \<and>
      engineered_column (sample_frame 0) ''floor_ratio'' = Inr (Some (NumCol fr)) \<and>
      engineered_column (sample_frame 0) ''extra_area_ratio'' = Inr (Some (NumCol er)) \<and>
      engineered_column (sample_frame 0) ''kitchen_ratio'' = Inr (Some (NumCol kr)) \<and>
      engineered_column (sample_frame 0) ''bath_ratio'' = Inr (Some (NumCol br)) \<and>
      engineered_column (sample_frame 0) ''living_ratio'' = Inr (Some (NumCol lr)) \<and>
      is_finite (apr ! 0) \<and> is_finite (fr ! 0) \<and> er ! 0 = Fin 10 \<and>
      kr ! 0 = NaN \<and> br ! 0 = NaN \<and> lr ! 0 = NaN)"
proof -
  have q: "quotient_fits (Fin 0) (Fin 3)" "quotient_fits (Fin 5) (Fin 10)"
    by (simp_all add: quotient_fits_def overflow_threshold_def)
  from engineer_all_division_safety
         [OF sample_numeric_ok sample_finite(1) sample_finite(2) sample_finite(3)
             sample_finite(4) sample_finite(5) sample_finite(6) sample_finite(7)
             sample_finite(8)]
  obtain apr fr er kr br lr where e:
    "engineered_column (sample_frame 0) ''area_per_room'' = Inr (Some (NumCol apr))"
    "engineered_column (sample_frame 0) ''floor_ratio'' = Inr (Some (NumCol fr))"
    "engineered_column (sample_frame 0) ''extra_area_ratio'' = Inr (Some (NumCol er))"
    "engineered_column (sample_frame 0) ''kitchen_ratio'' = Inr (Some (NumCol kr))"
    "engineered_column (sample_frame 0) ''bath_ratio'' = Inr (Some (NumCol br))"
    "engineered_column (sample_frame 0) ''living_ratio'' = Inr (Some (NumCol lr))"
    and rows: "\<forall>i<nrows (sample_frame 0).
        ([Fin 0] ! i = Fin 0 \<longrightarrow>
           er ! i = [Fin 10] ! i \<and> kr ! i = NaN \<and> br ! i = NaN \<and> lr ! i = NaN) \<and>
        ([Fin 3] ! i \<noteq> Fin 0 \<longrightarrow>
           (is_finite (apr ! i) \<longleftrightarrow> quotient_fits ([Fin 0] ! i) ([Fin 3] ! i))) \<and>
        ([Fin 10] ! i \<noteq> Fin 0 \<longrightarrow>
           (is_finite (fr ! i) \<longleftrightarrow> quotient_fits ([Fin 5] ! i) ([Fin 10] ! i)))"
    by blast
  from rows q have r: "is_finite (apr ! 0) \<and> is_finite (fr ! 0) \<and> er ! 0 = Fin 10 \<and>
      kr ! 0 = NaN \<and> br ! 0 = NaN \<and> lr ! 0 = NaN"
    by (simp add: sample_cols)
  from e r have "\<exists>apr fr er kr br lr.
      engineered_column (sample_frame 0) ''area_per_room'' = Inr (Some (NumCol apr)) \<and>
      engineered_column (sample_frame 0) ''floor_ratio'' = Inr (Some (NumCol fr)) \<and>
      engineered_column (sample_frame 0) ''extra_area_ratio'' = Inr (Some (NumCol er)) \<and>
      engineered_column (sample_frame 0) ''kitchen_ratio'' = Inr (Some (NumCol kr)) \<and>
      engineered_column (sample_frame 0) ''bath_ratio'' = Inr (Some (NumCol br)) \<and>
      engineered_column (sample_frame 0) ''living_ratio'' = Inr (Some (NumCol lr)) \<and>
      is_finite (apr ! 0) \<and> is_finite (fr ! 0) \<and> er ! 0 = Fin 10 \<and>
      kr ! 0 = NaN \<and> br ! 0 = NaN \<and> lr ! 0 = NaN"
    by blast
  with sample_numeric_ok [of 0] sample_finite(1) sample_finite(2-8) [of 0] q show ?thesis
    by (intro conjI)
qed

subsection \<open>Label encoding: unseen categories\<close>

lemma index_of_SomeD: "index_of x xs = Some i \<Longrightarrow> i < length xs \<and> xs ! i = x"
  by (induction xs arbitrary: i) (auto split: if_splits)

lemma index_of_mem: "x \<in> set xs \<Longrightarrow> \<exists>i. index_of x xs = Some i"
  by (induction xs) auto

lemma index_of_hd: "xs \<noteq> [] \<Longrightarrow> index_of (hd xs) xs = Some 0"
  by (cases xs) simp_all

lemma fallback_ok:
  assumes "classes \<noteq> []"
  shows "fallback classes x = Inr (if x \<in> set classes then x else hd classes)"
  using assms by (cases classes) (auto simp: fallback_def)

lemma map_err_total:
  assumes "\<forall>x\<in>set xs. f x = Inr (g x)"
  shows "map_err f xs = Inr (map g xs)"
  using assms by (induction xs) auto

lemma le_transform_total:
  assumes "\<forall>x\<in>set xs. x \<in> set classes"
  shows "le_transform classes xs = Inr (map (\<lambda>x. the (index_of x classes)) xs)"
  using assms by (induction xs) (auto dest: index_of_mem)

lemma fit_encoder_set: "set (fit_encoder ys) = set ys"
  by (simp add: fit_encoder_def)

lemma fit_encoder_nonempty: "ys \<noteq> [] \<Longrightarrow> fit_encoder ys \<noteq> []"
  using fit_encoder_set [of ys] by (metis set_empty)

lemma apply_encoding_eq:
  assumes "classes \<noteq> []"
  shows "apply_encoding classes xs =
           Inr (map (\<lambda>x. the (index_of (if x \<in> set classes then x else hd classes) classes)) xs)"
proof -
  have m: "map_err (fallback classes) xs =
             Inr (map (\<lambda>x. if x \<in> set classes then x else hd classes) xs)"
    by (rule map_err_total) (simp add: fallback_ok [OF assms])
  have "\<forall>v\<in>set (map (\<lambda>x. if x \<in> set classes then x else hd classes) xs). v \<in> set classes"
    using assms by auto
  from le_transform_total [OF this] m show ?thesis
    by (simp add: apply_encoding_def comp_def)
qed

text \<open>
  The two statements of the branch \<^verbatim>\<open>fit=False\<close> on the strings of one column, for a
  non-empty vocabulary: they do not raise; a value of the vocabulary gets its own code,
  and a value absent from the vocabulary gets the code of the first class, which is 0.
\<close>

lemma apply_encoding_falls_back:
  assumes "classes \<noteq> []"
  shows "\<exists>codes. apply_encoding classes xs = Inr codes \<and> length codes = length xs \<and>
           (\<forall>i<length xs.
              codes ! i < length classes \<and>
              (xs ! i \<in> set classes \<longrightarrow> classes ! (codes ! i) = xs ! i) \<and>
              (xs ! i \<notin> set classes \<longrightarrow>
                 codes ! i = 0 \<and> le_transform classes [hd classes] = Inr [codes ! i]))"
proof -
  let ?v = "\<lambda>x. if x \<in> set classes then x else hd classes"
  let ?codes = "map (\<lambda>x. the (index_of (?v x) classes)) xs"
  have run: "apply_encoding classes xs = Inr ?codes"
    by (rule apply_encoding_eq [OF assms])
  have hd0: "le_transform classes [hd classes] = Inr [0]"
    using index_of_hd [OF assms] by simp
  have "?codes ! i < length classes \<and>
        (xs ! i \<in> set classes \<longrightarrow> classes ! (?codes ! i) = xs ! i) \<and>
        (xs ! i \<notin> set classes \<longrightarrow>
           ?codes ! i = 0 \<and> le_transform classes [hd classes] = Inr [?codes ! i])"
    if i: "i < length xs" for i
  proof (cases "xs ! i \<in> set classes")
    case True
    from index_of_mem [OF True] obtain k where k: "index_of (xs ! i) classes = Some k" ..
    from i True k have c: "?codes ! i = k"
      by simp
    from index_of_SomeD [OF k] have "k < length classes" "classes ! k = xs ! i"
      by blast+
    with True show ?thesis
      unfolding c by blast
  next
    case False
    with i index_of_hd [OF assms] have c: "?codes ! i = 0"
      by simp
    from assms have "0 < length classes"
      by simp
    with False hd0 show ?thesis
      unfolding c by blast
  qed
  then have "\<forall>i<length xs. ?codes ! i < length classes \<and>
        (xs ! i \<in> set classes \<longrightarrow> classes ! (?codes ! i) = xs ! i) \<and>
        (xs ! i \<notin> set classes \<longrightarrow>
           ?codes ! i = 0 \<and> le_transform classes [hd classes] = Inr [?codes ! i])"
    by blast
  moreover have "length ?codes = length xs"
    by simp
  ultimately show ?thesis
    using run by blast
qed

lemma fit_yes_no: "fit_encoder [''Yes'', ''No'', ''Yes''] = [''No'', ''Yes'']"
  by (simp add: fit_encoder_def)

subsection \<open>The pipeline on the store: the caller's frame is never written\<close>

lemma DataCleaner_clean_eq:
  "DataCleaner_clean L a h =
     (case clean L (h ! a) of
        Inl e \<Rightarrow> (Inl e, h @ [h ! a])
      | Inr df \<Rightarrow> (Inr (length h), h @ [df]))"
  by (simp add: DataCleaner_clean_def st_bind_def st_copy_def st_in_place_def st_return_def
        split: sum.splits)

lemma FeatureEngineer_engineer_all_eq:
  "FeatureEngineer_engineer_all cfg a h =
     (case engineer_all cfg (h ! a) of
        Inl e \<Rightarrow> (Inl e, h @ [h ! a])
      | Inr df \<Rightarrow> (Inr (length h), h @ [df]))"
  by (simp add: FeatureEngineer_engineer_all_def st_bind_def st_copy_def st_in_place_def
        st_return_def split: sum.splits)

lemma DataPreprocessor_encode_categorical_eq:
  "DataPreprocessor_encode_categorical L encs fit a h =
     (case encode_categorical L encs fit (h ! a) of
        Inl e \<Rightarrow> (Inl e, h @ [h ! a])
      | Inr (encs', v) \<Rightarrow> (Inr (encs', length h), h @ [v]))"
  by (simp add: DataPreprocessor_encode_categorical_def st_bind_def st_copy_def st_in_place_def
        st_return_def st_read_def st_lift_def split: sum.splits prod.splits)

lemma prepare_eq:
  "prepare L encs fit a h =
     (case clean L (h ! a) of
        Inl e \<Rightarrow> (Inl e, h @ [h ! a])
      | Inr c \<Rightarrow>
          (case engineer_all None c of
             Inl e \<Rightarrow> (Inl e, h @ [c, c])
           | Inr g \<Rightarrow>
               (case encode_categorical L encs fit g of
                  Inl e \<Rightarrow> (Inl e, h @ [c, g, g])
                | Inr (encs', v) \<Rightarrow> (Inr (encs', length h + 2), h @ [c, g, v]))))"
  by (simp add: prepare_def st_bind_def DataCleaner_clean_eq FeatureEngineer_engineer_all_eq
        DataPreprocessor_encode_categorical_eq nth_append split: sum.splits prod.splits)

lemma prepare_extends: "\<exists>ys. snd (prepare L encs fit a h) = h @ ys"
  by (simp add: prepare_eq split: sum.splits prod.splits)

lemma prepare_result:
  "prepare L encs fit a h = (Inr (encs', d), h') \<Longrightarrow> d < length h' \<and> length h \<le> d"
  by (auto simp: prepare_eq split: sum.splits prod.splits)

lemma st_bind_read: "st_bind (st_read a) f h = f (h ! a) h"
  by (simp add: st_bind_def st_read_def)

lemma st_bind_new: "st_bind (st_new df) f h = f (length h) (h @ [df])"
  by (simp add: st_bind_def st_new_def)

lemma st_bind_return: "st_bind (st_return v) f h = f v h"
  by (simp add: st_bind_def st_return_def)

lemma st_bind_lift:
  "st_bind (st_lift r) f h = (case r of Inl e \<Rightarrow> (Inl e, h) | Inr v \<Rightarrow> f v h)"
  by (simp add: st_bind_def st_lift_def split: sum.splits)

lemma st_bind_in_place_total:
  "st_bind (st_in_place a (\<lambda>v. Inr (g v))) f h = f () (h[a := g (h ! a)])"
  by (simp add: st_bind_def st_in_place_def)

lemma st_bind_result:
  "m h = (Inr v, h') \<Longrightarrow> st_bind m f h = f v h'"
  "m h = (Inl e, h') \<Longrightarrow> st_bind m f h = (Inl e, h')"
  by (simp_all add: st_bind_def)

lemma transform_tail:
  assumes d: "d < length h1"
  shows "st_bind (st_read d) (\<lambda>enc.
        st_bind (st_new (F enc))
          (\<lambda>X.
        st_bind (st_read X) (\<lambda>Xv.
        st_bind (st_in_place X (\<lambda>v. Inr (add_missing (missing_features names Xv) v)))
          (\<lambda>_.
        st_bind (st_read X) (\<lambda>Xv1.
        st_bind (if extra_features names Xv1 \<noteq> []
                 then st_new (drop_cols (extra_features names Xv1) Xv1)
                 else st_return X) (\<lambda>X1.
        st_bind (st_read X1) (\<lambda>Xv2.
        st_bind (st_lift (select_cols names Xv2)) (\<lambda>Xv3.
        st_new Xv3)))))))) h1 =
     (let X0 = F (h1 ! d);
          X1 = add_missing (missing_features names X0) X0;
          extra = extra_features names X1
      in if extra \<noteq> []
         then (case select_cols names (drop_cols extra X1) of
                 Inl e \<Rightarrow> (Inl e, h1 @ [X1, drop_cols extra X1])
               | Inr X3 \<Rightarrow> (Inr (length h1 + 2), h1 @ [X1, drop_cols extra X1, X3]))
         else (case select_cols names X1 of
                 Inl e \<Rightarrow> (Inl e, h1 @ [X1])
               | Inr X3 \<Rightarrow> (Inr (length h1 + 1), h1 @ [X1, X3])))"
proof -
  define X0 where "X0 = F (h1 ! d)"
  define X1 where "X1 = add_missing (missing_features names X0) X0"
  define extra where "extra = extra_features names X1"
  have upd: "(h1 @ [X0])[length h1 := X1] = h1 @ [X1]"
    by simp
  have step1: "st_bind (st_read d) (\<lambda>enc.
        st_bind (st_new (F enc))
          (\<lambda>X.
        st_bind (st_read X) (\<lambda>Xv.
        st_bind (st_in_place X (\<lambda>v. Inr (add_missing (missing_features names Xv) v)))
          (\<lambda>_.
        st_bind (st_read X) (\<lambda>Xv1.
        st_bind (if extra_features names Xv1 \<noteq> []
                 then st_new (drop_cols (extra_features names Xv1) Xv1)
                 else st_return X) (\<lambda>X1.
        st_bind (st_read X1) (\<lambda>Xv2.
        st_bind (st_lift (select_cols names Xv2)) (\<lambda>Xv3.
        st_new Xv3)))))))) h1 =
        st_bind (if extra \<noteq> [] then st_new (drop_cols extra X1) else st_return (length h1))
          (\<lambda>X1.
        st_bind (st_read X1) (\<lambda>Xv2.
        st_bind (st_lift (select_cols names Xv2)) (\<lambda>Xv3.
        st_new Xv3))) (h1 @ [X1])"
    by (simp only: st_bind_read st_bind_new st_bind_in_place_total nth_append_length
          X0_def [symmetric] X1_def [symmetric] upd extra_def [symmetric])
  show ?thesis
  proof (cases "extra = []")
    case True
    have "st_bind (if extra \<noteq> [] then st_new (drop_cols extra X1) else st_return (length h1))
          (\<lambda>X1.
        st_bind (st_read X1) (\<lambda>Xv2.
        st_bind (st_lift (select_cols names Xv2)) (\<lambda>Xv3.
        st_new Xv3))) (h1 @ [X1]) =
        (case select_cols names X1 of
                 Inl e \<Rightarrow> (Inl e, h1 @ [X1])
               | Inr X3 \<Rightarrow> (Inr (length h1 + 1), h1 @ [X1, X3]))"
      using True
      by (simp add: st_bind_return st_bind_read st_bind_lift st_new_def split: sum.splits)
    with True show ?thesis
      unfolding step1 Let_def X0_def [symmetric] X1_def [symmetric] extra_def [symmetric]
      by simp
  next
    case False
    have "st_bind (if extra \<noteq> [] then st_new (drop_cols extra X1) else st_return (length h1))
          (\<lambda>X1.
        st_bind (st_read X1) (\<lambda>Xv2.
        st_bind (st_lift (select_cols names Xv2)) (\<lambda>Xv3.
        st_new Xv3))) (h1 @ [X1]) =
        (case select_cols names (drop_cols extra X1) of
                 Inl e \<Rightarrow> (Inl e, h1 @ [X1, drop_cols extra X1])
               | Inr X3 \<Rightarrow> (Inr (length h1 + 2), h1 @ [X1, drop_cols extra X1, X3]))"
      using False
      by (simp add: st_bind_new st_bind_read st_bind_lift st_new_def nth_append split: sum.splits)
    with False show ?thesis
      unfolding step1 Let_def X0_def [symmetric] X1_def [symmetric] extra_def [symmetric]
      by simp
  qed
qed

lemma transform_st_eq:
  "transform_st L pp a h =
     (if \<not> is_fitted pp then (Inl PreprocessorNotFitted, h)
      else
        (case prepare L (label_encoders pp) False a h of
           (Inl e, h1) \<Rightarrow> (Inl e, h1)
         | (Inr (encs, d), h1) \<Rightarrow>
             (let X0 = drop_cols (filter (has_col (h1 ! d)) [''index'', ''Unnamed: 0'', ''price''])
                         (h1 ! d);
                  X1 = add_missing (missing_features (feature_names pp) X0) X0;
                  extra = extra_features (feature_names pp) X1
              in if extra \<noteq> []
                 then (case select_cols (feature_names pp) (drop_cols extra X1) of
                         Inl e \<Rightarrow> (Inl e, h1 @ [X1, drop_cols extra X1])
                       | Inr X3 \<Rightarrow> (Inr (length h1 + 2), h1 @ [X1, drop_cols extra X1, X3]))
                 else (case select_cols (feature_names pp) X1 of
                         Inl e \<Rightarrow> (Inl e, h1 @ [X1])
                       | Inr X3 \<Rightarrow> (Inr (length h1 + 1), h1 @ [X1, X3])))))"
proof (cases "is_fitted pp")
  case False
  then show ?thesis
    by (simp add: transform_st_def st_lift_def)
next
  case True
  obtain r h1 where p: "prepare L (label_encoders pp) False a h = (r, h1)"
    by (cases "prepare L (label_encoders pp) False a h")
  show ?thesis
  proof (cases r)
    case (Inl e)
    with True p show ?thesis
      by (simp add: transform_st_def st_bind_result)
  next
    case (Inr v)
    obtain encs d where v: "v = (encs, d)" by (cases v)
    from p Inr v have pr: "prepare L (label_encoders pp) False a h = (Inr (encs, d), h1)"
      by simp
    from prepare_result [OF pr] have d: "d < length h1" by simp
    show ?thesis
      using True
      by (simp add: transform_st_def pr transform_tail [OF d]
            st_bind_result(1) [of "prepare L (label_encoders pp) False a" h "(encs, d)" h1, OF pr])
  qed
qed

lemma st_grows_bind:
  assumes "st_grows m" "\<And>v. st_grows (f v)"
  shows "st_grows (st_bind m f)"
  unfolding st_grows_def
proof
  fix h
  from assms(1) obtain ys where ys: "snd (m h) = h @ ys"
    unfolding st_grows_def by blast
  show "\<exists>zs. snd (st_bind m f h) = h @ zs"
  proof (cases "m h")
    case (Pair r h')
    with ys have h': "h' = h @ ys" by simp
    show ?thesis
    proof (cases r)
      case (Inl e)
      with Pair h' show ?thesis by (simp add: st_bind_def)
    next
      case (Inr v)
      from assms(2) [of v] obtain zs where "snd (f v h') = h' @ zs"
        unfolding st_grows_def by blast
      with Pair Inr h' show ?thesis by (simp add: st_bind_def)
    qed
  qed
qed

lemma st_grows_basic:
  "st_grows (st_read a)" "st_grows (st_new df)" "st_grows (st_return v)" "st_grows (st_lift r)"
  "st_grows (st_copy a)"
  by (simp_all add: st_grows_def st_read_def st_new_def st_return_def st_lift_def st_copy_def)

lemma st_grows_prepare: "st_grows (prepare L encs fit a)"
  by (simp add: st_grows_def prepare_extends)

lemma st_grows_if: "st_grows m1 \<Longrightarrow> st_grows m2 \<Longrightarrow> st_grows (if c then m1 else m2)"
  by simp

lemma st_grows_case_prod: "(\<And>a b. st_grows (f a b)) \<Longrightarrow> st_grows (case_prod f v)"
  by (cases v) simp

lemma fit_transform_st_grows: "st_grows (fit_transform_st L pp a target_col)"
  unfolding fit_transform_st_def
  by (intro st_grows_bind st_grows_basic st_grows_prepare st_grows_if st_grows_case_prod)

lemma transform_st_grows: "st_grows (transform_st L pp a)"
  unfolding st_grows_def
proof
  fix h
  obtain ys where "snd (prepare L (label_encoders pp) False a h) = h @ ys"
    using prepare_extends by blast
  then show "\<exists>zs. snd (transform_st L pp a h) = h @ zs"
    by (cases "prepare L (label_encoders pp) False a h")
       (auto simp: transform_st_eq Let_def simp del: filter.simps split: sum.splits prod.splits)
qed

text \<open>
  C9: \<open>fit_transform\<close> and \<open>transform\<close> never mutate the frame the caller passes in.
  The store holds every frame object alive at the call; the caller's frame is the one at
  address \<open>a\<close>. Whatever the outcome of the call (a result or a raised error), every
  frame that existed before the call is unchanged afterwards: the store only grows by
  the private copies made by \<open>DataCleaner\<close>, \<open>FeatureEngineer\<close> and
  \<open>_encode_categorical\<close>, and every in-place update hits one of those copies. In
  particular the caller's frame holds exactly the columns and values it held before.
\<close>

theorem pipeline_leaves_caller_frame:
  "take (length h) (snd (fit_transform_st L pp a target_col h)) = h \<and>
   take (length h) (snd (transform_st L pp a h)) = h \<and>
   (a < length h \<longrightarrow>
      snd (fit_transform_st L pp a target_col h) ! a = h ! a \<and>
      snd (transform_st L pp a h) ! a = h ! a)"
proof -
  from fit_transform_st_grows [of L pp a target_col]
  obtain ys where f: "snd (fit_transform_st L pp a target_col h) = h @ ys"
    unfolding st_grows_def by blast
  from transform_st_grows [of L pp a]
  obtain zs where t: "snd (transform_st L pp a h) = h @ zs"
    unfolding st_grows_def by blast
  show ?thesis
    unfolding f t by (simp add: nth_append)
qed

lemma transform_eq:
  "transform L pp df =
     (if \<not> is_fitted pp then Inl PreprocessorNotFitted
      else and_then (encoded_frame L pp df) (reconcile (feature_names pp)))"
proof (cases "is_fitted pp")
  case False
  then show ?thesis
    by (simp add: transform_def transform_st_eq)
next
  case True
  show ?thesis
  proof (cases "clean L df")
    case (Inl e)
    with True show ?thesis
      by (simp add: transform_def transform_st_eq prepare_eq encoded_frame_def)
  next
    case c: (Inr c)
    show ?thesis
    proof (cases "engineer_all None c")
      case (Inl e)
      with True c show ?thesis
        by (simp add: transform_def transform_st_eq prepare_eq encoded_frame_def)
    next
      case g: (Inr g)
      show ?thesis
      proof (cases "encode_categorical L (label_encoders pp) False g")
        case (Inl e)
        with True c g show ?thesis
          by (simp add: transform_def transform_st_eq prepare_eq encoded_frame_def)
      next
        case (Inr ev)
        obtain encs v where ev: "ev = (encs, v)" by (cases ev)
        define X0 where
          "X0 = drop_cols (filter (has_col v) [''index'', ''Unnamed: 0'', ''price'']) v"
        have nth3: "[df, c, g, v] ! 3 = v" by simp
        from True c g Inr ev show ?thesis
          unfolding transform_def transform_st_eq prepare_eq encoded_frame_def reconcile_def
            reconcile_with_def
          by (simp add: nth3 X0_def [symmetric] Let_def del: filter.simps split: sum.splits)
      qed
    qed
  qed
qed


subsection \<open>Adding, dropping and reordering feature columns\<close>

lemma get_col_drop_cols:
  "get_col (drop_cols ex Y) c = (if c \<in> set ex then None else get_col Y c)"
proof -
  have "map_of (filter (\<lambda>(n, v). n \<notin> set ex) xs) c =
          (if c \<in> set ex then None else map_of xs c)" for xs :: "(string \<times> column) list"
    by (induction xs) auto
  then show ?thesis
    by (simp add: get_col_def drop_cols_def)
qed

lemma nrows_drop_cols [simp]: "nrows (drop_cols ex Y) = nrows Y"
  by (simp add: drop_cols_def)

lemma fold_set_col:
  "get_col (fold (\<lambda>c. set_col c z) ms Y) c = (if c \<in> set ms then Some z else get_col Y c)"
  by (induction ms arbitrary: Y) auto

lemma nrows_fold_set_col [simp]: "nrows (fold (\<lambda>c. set_col c z) ms Y) = nrows Y"
  by (induction ms arbitrary: Y) auto

lemma get_col_add_missing:
  "get_col (add_missing ms Y) c =
     (if c \<in> set ms then Some (zero_col (nrows Y)) else get_col Y c)"
  by (simp add: add_missing_def fold_set_col)

lemma nrows_add_missing [simp]: "nrows (add_missing ms Y) = nrows Y"
  by (simp add: add_missing_def)

lemma map_of_tabulate:
  "c \<in> set names \<Longrightarrow> map_of (map (\<lambda>n. (n, f n)) names) c = Some (f c)"
  by (induction names) auto

lemma select_cols_ok:
  assumes "\<forall>n\<in>set names. has_col Y n"
  shows "select_cols names Y = Inr \<lparr>nrows = nrows Y, cols = map (\<lambda>n. (n, the (get_col Y n))) names\<rparr>"
  using assms by (simp add: select_cols_def)

lemma select_cols_props:
  assumes "select_cols names Y = Inr X"
  shows "columns X = names \<and> nrows X = nrows Y \<and> (\<forall>c\<in>set names. get_col X c = get_col Y c)"
proof -
  from assms have has: "\<forall>n\<in>set names. has_col Y n"
    and X: "X = Y\<lparr>cols := map (\<lambda>n. (n, the (get_col Y n))) names\<rparr>"
    by (auto simp: select_cols_def split: if_splits)
  have "get_col X c = get_col Y c" if "c \<in> set names" for c
  proof -
    from has that obtain v where "get_col Y c = Some v"
      by (auto simp: has_col_iff)
    with that show ?thesis
      by (simp add: X get_col_def map_of_tabulate)
  qed
  then show ?thesis
    by (simp add: X columns_def comp_def)
qed

lemma reconcile_with_props:
  assumes cover: "\<forall>c\<in>set names. \<not> has_col X0 c \<longrightarrow> c \<in> set ms"
  shows "\<exists>X. reconcile_with ms names X0 = Inr X \<and> columns X = names \<and> nrows X = nrows X0 \<and>
           (\<forall>c\<in>set names. get_col X c =
              (if c \<in> set ms then Some (zero_col (nrows X0)) else get_col X0 c)) \<and>
           cols X = map (\<lambda>n. (n, the (if n \<in> set ms then Some (zero_col (nrows X0))
                                        else get_col X0 n))) names"
proof -
  define X1 where "X1 = add_missing ms X0"
  define extra where "extra = extra_features names X1"
  define X2 where "X2 = (if extra \<noteq> [] then drop_cols extra X1 else X1)"
  have g1: "get_col X1 c = (if c \<in> set ms then Some (zero_col (nrows X0)) else get_col X0 c)" for c
    by (simp add: X1_def get_col_add_missing)
  have notextra: "c \<notin> set extra" if "c \<in> set names" for c
    using that by (simp add: extra_def extra_features_def)
  have g2: "get_col X2 c = get_col X1 c" if "c \<in> set names" for c
    using notextra [OF that] by (simp add: X2_def get_col_drop_cols)
  have n2: "nrows X2 = nrows X0"
    by (simp add: X2_def X1_def)
  have has: "\<forall>n\<in>set names. has_col X2 n"
    using cover by (auto simp: has_col_iff g2 g1)
  have run: "reconcile_with ms names X0 = select_cols names X2"
    by (simp add: reconcile_with_def Let_def X1_def [symmetric] extra_def [symmetric] X2_def)
  define X where "X = \<lparr>nrows = nrows X2, cols = map (\<lambda>n. (n, the (get_col X2 n))) names\<rparr>"
  from select_cols_ok [OF has] have X: "select_cols names X2 = Inr X"
    by (simp add: X_def)
  have "map (\<lambda>n. (n, the (get_col X2 n))) names =
        map (\<lambda>n. (n, the (if n \<in> set ms then Some (zero_col (nrows X0)) else get_col X0 n))) names"
    by (rule map_cong) (simp_all add: g2 g1)
  then have cx: "cols X = map (\<lambda>n. (n, the (if n \<in> set ms then Some (zero_col (nrows X0))
                                        else get_col X0 n))) names"
    by (simp add: X_def)
  from select_cols_props [OF X] g2 g1 n2 run X cx show ?thesis
    by auto
qed

lemma missing_features_set:
  "set (missing_features names X0) = {c \<in> set names. \<not> has_col X0 c}"
  by (auto simp: missing_features_def)

lemma reconcile_props:
  "\<exists>X. reconcile names X0 = Inr X \<and> columns X = names \<and> nrows X = nrows X0 \<and>
        (\<forall>c\<in>set names. get_col X c =
           (if has_col X0 c then get_col X0 c else Some (zero_col (nrows X0))))"
proof -
  have "\<forall>c\<in>set names. \<not> has_col X0 c \<longrightarrow> c \<in> set (missing_features names X0)"
    by (simp add: missing_features_set)
  from reconcile_with_props [OF this] obtain X where
    X: "reconcile names X0 = Inr X" "columns X = names" "nrows X = nrows X0"
      "\<forall>c\<in>set names. get_col X c =
         (if c \<in> set (missing_features names X0) then Some (zero_col (nrows X0)) else get_col X0 c)"
    unfolding reconcile_def by blast
  from X(4) have "\<forall>c\<in>set names. get_col X c =
           (if has_col X0 c then get_col X0 c else Some (zero_col (nrows X0)))"
    by (simp add: missing_features_set)
  with X(1,2,3) show ?thesis by blast
qed

text \<open>The order in which the set of missing features is iterated does not matter.\<close>

lemma reconcile_order_independent:
  assumes "set ms = set (missing_features names X0)"
  shows "reconcile_with ms names X0 = reconcile names X0"
proof -
  have c1: "\<forall>c\<in>set names. \<not> has_col X0 c \<longrightarrow> c \<in> set ms"
    using assms by (simp add: missing_features_set)
  have c2: "\<forall>c\<in>set names. \<not> has_col X0 c \<longrightarrow> c \<in> set (missing_features names X0)"
    by (simp add: missing_features_set)
  from reconcile_with_props [OF c1] obtain X where
    X: "reconcile_with ms names X0 = Inr X" "nrows X = nrows X0"
      "cols X = map (\<lambda>n. (n, the (if n \<in> set ms then Some (zero_col (nrows X0))
                                   else get_col X0 n))) names"
    by blast
  from reconcile_with_props [OF c2] obtain Y where
    Y: "reconcile names X0 = Inr Y" "nrows Y = nrows X0"
      "cols Y = map (\<lambda>n. (n, the (if n \<in> set (missing_features names X0)
                                   then Some (zero_col (nrows X0)) else get_col X0 n))) names"
    unfolding reconcile_def by blast
  from X(2,3) Y(2,3) assms have "X = Y" by simp
  with X(1) Y(1) show ?thesis by simp
qed


subsection \<open>Well-typed batches pass cleaning, engineering and encoding\<close>

lemma set_finsert: "set (finsert x ys) = insert x (set ys)"
  by (induction ys) auto

lemma set_fsort: "set (fsort xs) = set xs"
  by (induction xs) (simp_all add: fsort_def set_finsert)

lemma fold_max_attained:
  assumes "xs \<noteq> []" "\<forall>x\<in>set xs. 0 < f x"
  shows "\<exists>x\<in>set xs. f x = fold max (map f xs) (0::nat)"
proof -
  have "fold max (map f xs) 0 = Max (set (0 # map f xs))"
    by (rule Max.set_eq_fold [symmetric])
  moreover have "Max (set (0 # map f xs)) \<in> set (0 # map f xs)"
    by (rule Max_in) simp_all
  moreover have "Max (set (0 # map f xs)) \<noteq> 0"
  proof -
    from assms obtain x where x: "x \<in> set xs" "0 < f x"
      by (cases xs) auto
    have "f x \<in> set (0 # map f xs)"
      using x(1) by simp
    then have "f x \<le> Max (set (0 # map f xs))"
      by (intro Max_ge) simp_all
    with x(2) show ?thesis by linarith
  qed
  ultimately show ?thesis by auto
qed

lemma mode0_ok:
  assumes "xs \<noteq> []" "set sd = set xs"
  shows "\<exists>m. mode0 sd xs = Inr m \<and> m \<in> set xs"
proof -
  have "\<forall>x\<in>set xs. 0 < count_list xs x"
    by (auto simp: count_list_0_iff intro: gr0I)
  from fold_max_attained [OF assms(1) this]
  obtain x where x: "x \<in> set xs" "count_list xs x = fold max (map (count_list xs) xs) 0"
    by blast
  let ?top = "fold max (map (count_list xs) xs) 0"
  from x assms(2) have "x \<in> set (filter (\<lambda>x. count_list xs x = ?top) sd)"
    by simp
  then obtain m rest where mr: "filter (\<lambda>x. count_list xs x = ?top) sd = m # rest"
    by (cases "filter (\<lambda>x. count_list xs x = ?top) sd") auto
  then have "m \<in> set (filter (\<lambda>x. count_list xs x = ?top) sd)"
    by simp
  with assms(2) have "m \<in> set xs" by simp
  with mr show ?thesis
    by (simp add: mode0_def Let_def)
qed

lemma filter_nonempty_if_fewer:
  "length (filter P xs) < length xs \<Longrightarrow> filter (\<lambda>x. \<not> P x) xs \<noteq> []"
  by (metis filter_False filter_True length_filter_le less_irrefl_nat list.size(3) not_less0
      filter_empty_conv)

lemma fill_mode_ok:
  assumes "count_missing v < col_len v"
  shows "\<exists>v'. fill_mode v = Inr v' \<and> fillable v' \<and> col_len v' = col_len v \<and>
           (\<forall>xs. v = NumCol xs \<longrightarrow> (\<exists>ys. v' = NumCol ys))"
proof (cases v)
  case (NumCol xs)
  let ?present = "filter (\<lambda>x. x \<noteq> NaN) xs"
  from assms NumCol have "?present \<noteq> []"
    using filter_nonempty_if_fewer [of "\<lambda>x. x = NaN" xs]
    by (simp add: count_missing_def col_len_def)
  from mode0_ok [OF this, of "fsort (remdups ?present)"]
  obtain m where m: "mode0 (fsort (remdups ?present)) ?present = Inr m" "m \<in> set ?present"
    by (auto simp: set_fsort)
  then have "m \<noteq> NaN" by simp
  then have "count_missing (NumCol (map (\<lambda>x. if x = NaN then m else x) xs)) = 0"
    by (simp add: count_missing_def filter_empty_conv)
  with NumCol m(1) show ?thesis
    by (simp add: fill_mode_def Let_def fillable_def col_len_def)
next
  case (StrCol xs)
  let ?present = "map the (filter (\<lambda>x. x \<noteq> None) xs)"
  from assms StrCol have "filter (\<lambda>x. x \<noteq> None) xs \<noteq> []"
    using filter_nonempty_if_fewer [of "\<lambda>x. x = None" xs]
    by (simp add: count_missing_def col_len_def)
  then have "?present \<noteq> []" by simp
  from mode0_ok [OF this, of "sort (remdups ?present)"]
  obtain m where m: "mode0 (sort (remdups ?present)) ?present = Inr m"
    by auto
  have "count_missing (StrCol (map (\<lambda>x. if x = None then Some m else x) xs)) = 0"
    by (simp add: count_missing_def filter_empty_conv)
  with StrCol m show ?thesis
    by (simp add: fill_mode_def Let_def fillable_def col_len_def)
qed

lemma feature_lists_disjoint:
  "c \<in> set NUMERICAL_FEATURES \<Longrightarrow> c \<notin> set CATEGORICAL_FEATURES"
  "c \<in> set CATEGORICAL_FEATURES \<Longrightarrow> c \<notin> set numeric_names"
  "c \<in> set NUMERICAL_FEATURES \<Longrightarrow> c \<in> set numeric_names"
  "''building_age'' \<notin> set NUMERICAL_FEATURES"
  "''building_age'' \<notin> set CATEGORICAL_FEATURES"
  "distinct NUMERICAL_FEATURES" "distinct CATEGORICAL_FEATURES"
  by (auto simp: NUMERICAL_FEATURES_def CATEGORICAL_FEATURES_def numeric_names_def)

lemma numeric_ok_set_col_other:
  "c \<notin> set numeric_names \<Longrightarrow> numeric_ok (set_col c v df) = numeric_ok df"
  by (auto simp: numeric_ok_def list_all_iff)

lemma categorical_ok_set_col_other:
  "c \<notin> set CATEGORICAL_FEATURES \<Longrightarrow> categorical_ok (set_col c v df) = categorical_ok df"
  by (auto simp: categorical_ok_def list_all_iff)

lemma categorical_ok_set_col:
  "fillable v \<Longrightarrow> categorical_ok df \<Longrightarrow> categorical_ok (set_col c v df)"
  by (auto simp: categorical_ok_def list_all_iff)

lemma categorical_okD:
  "categorical_ok df \<Longrightarrow> c \<in> set CATEGORICAL_FEATURES \<Longrightarrow> get_col df c = Some v \<Longrightarrow> fillable v"
  by (auto simp: categorical_ok_def list_all_iff split: option.splits)

lemma fill_columns_ok:
  assumes "numeric_ok df" "categorical_ok df"
    and "\<forall>c\<in>set cs. \<exists>v. get_col df c = Some v \<and> 0 < col_len v"
  shows "\<exists>df'. fill_columns cs df = Inr df' \<and> numeric_ok df'"
  using assms
proof (induction cs arbitrary: df)
  case Nil
  then show ?case by simp
next
  case (Cons c cs)
  from Cons.prems(3) obtain v where v: "get_col df c = Some v" "0 < col_len v"
    by auto
  consider (num) "c \<in> set NUMERICAL_FEATURES"
    | (cat) "c \<notin> set NUMERICAL_FEATURES" "c \<in> set CATEGORICAL_FEATURES"
    | (other) "c \<notin> set NUMERICAL_FEATURES" "c \<notin> set CATEGORICAL_FEATURES"
    by blast
  then show ?case
  proof cases
    case num
    from numeric_okD [OF Cons.prems(1) feature_lists_disjoint(3) [OF num] v(1)]
    obtain xs where xs: "v = NumCol xs" by blast
    define v' where "v' = NumCol (map (\<lambda>x. if x = NaN then median xs else x) xs)"
    have fm: "fill_median v = Inr v'"
      by (simp add: fill_median_def xs v'_def)
    have len: "col_len v' = col_len v"
      by (simp add: v'_def xs col_len_def)
    let ?df1 = "set_col c v' df"
    have ok1: "numeric_ok ?df1"
      unfolding v'_def by (rule numeric_ok_set_col [OF Cons.prems(1)])
    have cat1: "categorical_ok ?df1"
      using Cons.prems(2) feature_lists_disjoint(1) [OF num]
      by (simp add: categorical_ok_set_col_other)
    have pre1: "\<forall>c'\<in>set cs. \<exists>w. get_col ?df1 c' = Some w \<and> 0 < col_len w"
      using Cons.prems(3) v(2) len by auto
    from Cons.IH [OF ok1 cat1 pre1] v(1) num fm show ?thesis
      by simp
  next
    case cat
    from categorical_okD [OF Cons.prems(2) cat(2) v(1)] v(2)
    have "count_missing v < col_len v"
      by (auto simp: fillable_def)
    from fill_mode_ok [OF this] obtain v' where
      fm: "fill_mode v = Inr v'" and fv: "fillable v'" and len: "col_len v' = col_len v"
      by (elim exE conjE)
    let ?df1 = "set_col c v' df"
    have ok1: "numeric_ok ?df1"
      using Cons.prems(1) feature_lists_disjoint(2) [OF cat(2)]
      by (simp add: numeric_ok_set_col_other)
    have cat1: "categorical_ok ?df1"
      by (rule categorical_ok_set_col [OF fv Cons.prems(2)])
    have pre1: "\<forall>c'\<in>set cs. \<exists>w. get_col ?df1 c' = Some w \<and> 0 < col_len w"
      using Cons.prems(3) v(2) len by auto
    from Cons.IH [OF ok1 cat1 pre1] v(1) cat fm show ?thesis
      by simp
  next
    case other
    have pre1: "\<forall>c'\<in>set cs. \<exists>w. get_col df c' = Some w \<and> 0 < col_len w"
      using Cons.prems(3) by auto
    from Cons.IH [OF Cons.prems(1,2) pre1] v(1) other show ?thesis
      by simp
  qed
qed

lemma count_missing_le: "count_missing v \<le> col_len v"
  by (cases v) (simp_all add: count_missing_def col_len_def)

lemma handle_missing_values_ok:
  assumes "wf_frame df" "numeric_ok df" "categorical_ok df"
  shows "\<exists>df'. handle_missing_values df = Inr df' \<and> numeric_ok df'"
proof -
  have "\<exists>v. get_col df c = Some v \<and> 0 < col_len v"
    if "c \<in> set (map fst (filter (\<lambda>(n, c). count_missing c > 0) (cols df)))" for c
  proof -
    from that obtain v where in_cols: "(c, v) \<in> set (cols df)" and m: "0 < count_missing v"
      by auto
    from assms(1) in_cols have "get_col df c = Some v"
      by (simp add: wf_frame_def get_col_def)
    moreover from m count_missing_le [of v] have "0 < col_len v"
      by linarith
    ultimately show ?thesis by blast
  qed
  then show ?thesis
    unfolding handle_missing_values_def
    by (intro fill_columns_ok assms(2,3)) blast
qed

lemma get_col_remove_duplicates:
  "\<exists>f. (\<forall>xs. \<exists>ys. f (NumCol xs) = NumCol ys) \<and>
       (\<forall>c. get_col (remove_duplicates df) c = map_option f (get_col df c))"
proof (cases "cols df = []")
  case True
  then have "\<forall>c. get_col (remove_duplicates df) c = map_option id (get_col df c)"
    by (simp add: remove_duplicates_def option.map_id)
  then show ?thesis by (intro exI [of _ id]) simp
next
  case False
  define keep where
    "keep = filter (\<lambda>i. row df i \<notin> set (map (row df) [0 ..< i])) [0 ..< nrows df]"
  have rd: "remove_duplicates df =
              \<lparr>nrows = length keep, cols = map (\<lambda>(n, c). (n, take_rows keep c)) (cols df)\<rparr>"
    using False unfolding remove_duplicates_def keep_def Let_def by simp
  have "get_col (remove_duplicates df) c = map_option (take_rows keep) (get_col df c)" for c
    unfolding rd by (simp add: get_col_def map_of_map)
  moreover have "\<forall>xs. \<exists>ys. take_rows keep (NumCol xs) = NumCol ys"
    by (simp add: take_rows_def)
  ultimately show ?thesis by blast
qed

lemma numeric_ok_remove_duplicates:
  assumes "numeric_ok df"
  shows "numeric_ok (remove_duplicates df)"
proof -
  from get_col_remove_duplicates [of df] obtain f where
    f: "\<forall>xs. \<exists>ys. f (NumCol xs) = NumCol ys"
       "\<forall>c. get_col (remove_duplicates df) c = map_option f (get_col df c)"
    by blast
  have "case get_col (remove_duplicates df) c of Some (StrCol xs) \<Rightarrow> False | _ \<Rightarrow> True"
    if "c \<in> set numeric_names" for c
  proof (cases "get_col df c")
    case None
    with f(2) show ?thesis by simp
  next
    case (Some v)
    from numeric_okD [OF assms that Some] obtain xs where "v = NumCol xs" by blast
    with f Some obtain ys where "get_col (remove_duplicates df) c = Some (NumCol ys)"
      by (metis option.simps(9))
    then show ?thesis by simp
  qed
  then show ?thesis
    by (simp add: numeric_ok_def list_all_iff)
qed

lemma get_col_update_present:
  "get_col (update_present f c df) c' =
     (if c' = c then map_option f (get_col df c) else get_col df c')"
  by (simp add: update_present_def split: option.splits)

lemma fold_update_present:
  "distinct cs \<Longrightarrow>
   get_col (fold (update_present f) cs df) c =
     (if c \<in> set cs then map_option f (get_col df c) else get_col df c)"
  by (induction cs arbitrary: df) (auto simp: get_col_update_present)

lemma numeric_ok_fix_data_types:
  assumes "numeric_ok df"
  shows "numeric_ok (fix_data_types L df)"
proof -
  have "case get_col (fix_data_types L df) c of Some (StrCol xs) \<Rightarrow> False | _ \<Rightarrow> True"
    if c: "c \<in> set numeric_names" for c
  proof (cases "c \<in> set NUMERICAL_FEATURES")
    case True
    then have "get_col (fix_data_types L df) c = map_option (as_numeric L) (get_col df c)"
      using feature_lists_disjoint(1) [OF True]
      by (simp add: fix_data_types_def fold_update_present feature_lists_disjoint(6,7))
    then show ?thesis
      by (cases "get_col df c") (auto simp: as_numeric_def split: column.splits)
  next
    case False
    with c have cb: "c = ''building_age''"
      by (simp add: numeric_names_def)
    then have "get_col (fix_data_types L df) c = get_col df c"
      using feature_lists_disjoint(4,5)
      by (simp add: fix_data_types_def fold_update_present feature_lists_disjoint(6,7))
    with assms c show ?thesis
      by (simp add: numeric_ok_def list_all_iff)
  qed
  then show ?thesis
    by (simp add: numeric_ok_def list_all_iff)
qed

lemma clean_ok:
  assumes "well_typed df"
  shows "\<exists>c. clean L df = Inr c \<and> numeric_ok c"
proof -
  from assms have "wf_frame df" "numeric_ok df" "categorical_ok df"
    by (simp_all add: well_typed_def)
  from handle_missing_values_ok [OF this] obtain df1 where
    "handle_missing_values df = Inr df1" "numeric_ok df1"
    by blast
  moreover have "numeric_ok (fix_data_types L (remove_duplicates df1))"
    by (intro numeric_ok_fix_data_types numeric_ok_remove_duplicates) fact
  ultimately show ?thesis
    by (simp add: clean_def handle_outliers_def REMOVE_OUTLIERS_def)
qed

lemma encoders_okD: "encoders_ok encs \<Longrightarrow> map_of encs c = Some classes \<Longrightarrow> classes \<noteq> []"
  by (auto simp: encoders_ok_def list_all_iff dest: map_of_SomeD)

lemma encode_columns_ok:
  assumes "encoders_ok encs"
  shows "\<exists>df'. encode_columns L False cs (encs, df) = Inr (encs, df')"
  using assms
proof (induction cs arbitrary: df)
  case Nil
  then show ?case by simp
next
  case (Cons c cs)
  show ?case
  proof (cases "get_col df c")
    case None
    with Cons show ?thesis by simp
  next
    case (Some v)
    show ?thesis
    proof (cases "map_of encs c")
      case None
      with Some Cons show ?thesis by simp
    next
      case cl: (Some classes)
      from encoders_okD [OF Cons.prems cl] have "classes \<noteq> []" .
      from apply_encoding_eq [OF this, of "astype_str L v"]
      obtain codes where "apply_encoding classes (astype_str L v) = Inr codes"
        by blast
      with Some cl Cons.IH [OF Cons.prems] show ?thesis
        by simp
    qed
  qed
qed

lemma encoded_frame_ok:
  assumes "well_typed df" "encoders_ok (label_encoders pp)"
  shows "\<exists>E. encoded_frame L pp df = Inr E"
proof -
  from clean_ok [OF assms(1)] obtain c where c: "clean L df = Inr c" "numeric_ok c"
    by blast
  from engineer_all_default [OF c(2)] obtain g where g: "engineer_all None c = Inr g"
    by blast
  from encode_columns_ok [OF assms(2)] obtain v where
    "encode_categorical L (label_encoders pp) False g = Inr (label_encoders pp, v)"
    unfolding encode_categorical_def by blast
  with c(1) g show ?thesis
    by (simp add: encoded_frame_def)
qed


subsection \<open>The encoding step: unseen categories\<close>

lemma encode_columns_column:
  assumes "encoders_ok encs" "distinct cs"
  shows "\<exists>df'. encode_columns L False cs (encs, df) = Inr (encs, df') \<and>
           (\<forall>c v classes. c \<in> set cs \<longrightarrow> get_col df c = Some v \<longrightarrow>
              map_of encs c = Some classes \<longrightarrow>
              (\<exists>codes. apply_encoding classes (astype_str L v) = Inr codes \<and>
                        get_col df' c = Some (code_column codes))) \<and>
           (\<forall>c. c \<notin> set cs \<longrightarrow> get_col df' c = get_col df c)"
  using assms
proof (induction cs arbitrary: df)
  case Nil
  then show ?case by simp
next
  case (Cons c cs)
  from Cons.prems have d: "distinct cs" and nc: "c \<notin> set cs"
    by simp_all
  show ?case
  proof (cases "get_col df c")
    case None
    from Cons.IH [OF Cons.prems(1) d, of df] obtain df' where
      r: "encode_columns L False cs (encs, df) = Inr (encs, df')"
      and a: "\<forall>c v classes. c \<in> set cs \<longrightarrow> get_col df c = Some v \<longrightarrow>
              map_of encs c = Some classes \<longrightarrow>
              (\<exists>codes. apply_encoding classes (astype_str L v) = Inr codes \<and>
                        get_col df' c = Some (code_column codes))"
      and b: "\<forall>c. c \<notin> set cs \<longrightarrow> get_col df' c = get_col df c"
      by blast
    have "encode_columns L False (c # cs) (encs, df) = Inr (encs, df')"
      using None r by simp
    moreover have "\<forall>c' v classes. c' \<in> set (c # cs) \<longrightarrow> get_col df c' = Some v \<longrightarrow>
              map_of encs c' = Some classes \<longrightarrow>
              (\<exists>codes. apply_encoding classes (astype_str L v) = Inr codes \<and>
                        get_col df' c' = Some (code_column codes))"
      using a None by auto
    moreover have "\<forall>c'. c' \<notin> set (c # cs) \<longrightarrow> get_col df' c' = get_col df c'"
      using b by simp
    ultimately show ?thesis by blast
  next
    case (Some v)
    show ?thesis
    proof (cases "map_of encs c")
      case None
      from Cons.IH [OF Cons.prems(1) d, of df] obtain df' where
        r: "encode_columns L False cs (encs, df) = Inr (encs, df')"
        and a: "\<forall>c v classes. c \<in> set cs \<longrightarrow> get_col df c = Some v \<longrightarrow>
                map_of encs c = Some classes \<longrightarrow>
                (\<exists>codes. apply_encoding classes (astype_str L v) = Inr codes \<and>
                          get_col df' c = Some (code_column codes))"
        and b: "\<forall>c. c \<notin> set cs \<longrightarrow> get_col df' c = get_col df c"
        by blast
      have "encode_columns L False (c # cs) (encs, df) = Inr (encs, df')"
        using None Some r by simp
      moreover have "\<forall>c' v classes. c' \<in> set (c # cs) \<longrightarrow> get_col df c' = Some v \<longrightarrow>
                map_of encs c' = Some classes \<longrightarrow>
                (\<exists>codes. apply_encoding classes (astype_str L v) = Inr codes \<and>
                          get_col df' c' = Some (code_column codes))"
        using a None by auto
      moreover have "\<forall>c'. c' \<notin> set (c # cs) \<longrightarrow> get_col df' c' = get_col df c'"
        using b by simp
      ultimately show ?thesis by blast
    next
      case cl: (Some classes)
      from encoders_okD [OF Cons.prems(1) cl] have "classes \<noteq> []" .
      from apply_encoding_eq [OF this, of "astype_str L v"]
      obtain codes where codes: "apply_encoding classes (astype_str L v) = Inr codes"
        by blast
      define df1 where "df1 = set_col c (code_column codes) df"
      from Cons.IH [OF Cons.prems(1) d, of df1] obtain df' where
        r: "encode_columns L False cs (encs, df1) = Inr (encs, df')"
        and a: "\<forall>c v classes. c \<in> set cs \<longrightarrow> get_col df1 c = Some v \<longrightarrow>
                map_of encs c = Some classes \<longrightarrow>
                (\<exists>codes. apply_encoding classes (astype_str L v) = Inr codes \<and>
                          get_col df' c = Some (code_column codes))"
        and b: "\<forall>c. c \<notin> set cs \<longrightarrow> get_col df' c = get_col df1 c"
        by blast
      have run: "encode_columns L False (c # cs) (encs, df) = Inr (encs, df')"
        using Some cl codes r by (simp add: df1_def)
      have here: "get_col df' c = Some (code_column codes)"
        using b nc by (simp add: df1_def)
      have other: "get_col df1 c' = get_col df c'" if "c' \<noteq> c" for c'
        using that by (simp add: df1_def)
      have "\<exists>codes'. apply_encoding classes' (astype_str L v') = Inr codes' \<and>
                      get_col df' c' = Some (code_column codes')"
        if m: "c' \<in> set (c # cs)" and g: "get_col df c' = Some v'"
          and e: "map_of encs c' = Some classes'" for c' v' classes'
      proof (cases "c' = c")
        case True
        with g e Some cl have "v' = v" "classes' = classes"
          by simp_all
        with True codes here show ?thesis
          by blast
      next
        case False
        with m have "c' \<in> set cs" by simp
        moreover from False g have "get_col df1 c' = Some v'"
          by (simp add: other)
        ultimately show ?thesis
          using a e by blast
      qed
      moreover have "\<forall>c'. c' \<notin> set (c # cs) \<longrightarrow> get_col df' c' = get_col df c'"
        using b other by auto
      ultimately show ?thesis
        using run by blast
    qed
  qed
qed

text \<open>
  C7: the encoding step of \<^verbatim>\<open>transform\<close>, \<^verbatim>\<open>_encode_categorical\<close> with \<^verbatim>\<open>fit=False\<close>, on
  fitted encoders with non-empty vocabularies (as they are after fitting on at least one
  row, lemma \<open>fit_encoder_nonempty\<close>). The step does not raise and leaves the encoders
  as they are. A categorical column that has an encoder is replaced by its codes, one
  per row: a value of the vocabulary gets its own code, and a value absent from the
  vocabulary gets the code of the first class, which is 0 and a valid code.
\<close>

theorem unseen_category_falls_back:
  assumes encs: "encoders_ok encs"
    and cat: "c \<in> set CATEGORICAL_FEATURES"
    and fitted: "map_of encs c = Some classes"
    and col: "get_col df c = Some v"
  shows "\<exists>df' codes.
           encode_categorical L encs False df = Inr (encs, df') \<and>
           get_col df' c = Some (code_column codes) \<and>
           length codes = length (astype_str L v) \<and>
           (\<forall>i<length codes.
              codes ! i < length classes \<and>
              (astype_str L v ! i \<in> set classes \<longrightarrow>
                 classes ! (codes ! i) = astype_str L v ! i) \<and>
              (astype_str L v ! i \<notin> set classes \<longrightarrow>
                 codes ! i = 0 \<and> le_transform classes [hd classes] = Inr [codes ! i]))"
proof -
  have d: "distinct CATEGORICAL_FEATURES"
    by (simp add: CATEGORICAL_FEATURES_def)
  from encode_columns_column [OF encs d, of L df] cat col fitted
  obtain df' codes where run: "encode_categorical L encs False df = Inr (encs, df')"
    and ap: "apply_encoding classes (astype_str L v) = Inr codes"
    and g: "get_col df' c = Some (code_column codes)"
    unfolding encode_categorical_def by blast
  from encoders_okD [OF encs fitted] have ne: "classes \<noteq> []" .
  from apply_encoding_falls_back [OF ne, of "astype_str L v"] ap
  have len: "length codes = length (astype_str L v)"
    and all: "\<forall>i<length (astype_str L v).
              codes ! i < length classes \<and>
              (astype_str L v ! i \<in> set classes \<longrightarrow>
                 classes ! (codes ! i) = astype_str L v ! i) \<and>
              (astype_str L v ! i \<notin> set classes \<longrightarrow>
                 codes ! i = 0 \<and> le_transform classes [hd classes] = Inr [codes ! i])"
    by auto
  note all' = all [folded len]
  from run g len all' show ?thesis
    by (intro exI conjI)
qed

theorem unseen_category_falls_back_witness:
  "encoders_ok encoders_gas \<and> ''gas'' \<in> set CATEGORICAL_FEATURES \<and>
   map_of encoders_gas ''gas'' = Some [''No'', ''Yes''] \<and>
   get_col raw_frame ''gas'' = Some (StrCol [Some ''Maybe'']) \<and>
   ''Maybe'' \<notin> set [''No'', ''Yes''] \<and>
   (\<exists>df'. encode_categorical stub_lib encoders_gas False raw_frame = Inr (encoders_gas, df') \<and>
          get_col df' ''gas'' = Some (NumCol [Fin 0]))"
proof -
  define c where "c = ''gas''"
  define cl where "cl = [''No'', ''Yes'']"
  define v where "v = StrCol [Some ''Maybe'']"
  have h1: "encoders_ok encoders_gas"
    by (simp add: encoders_ok_def encoders_gas_def fit_yes_no)
  have h2: "c \<in> set CATEGORICAL_FEATURES"
    by (simp add: c_def CATEGORICAL_FEATURES_def)
  have h3: "map_of encoders_gas c = Some cl"
    by (simp add: encoders_gas_def fit_yes_no c_def cl_def)
  have h4: "get_col raw_frame c = Some v"
    by (simp add: raw_frame_def get_col_def c_def v_def)
  have xs: "astype_str stub_lib v = [''Maybe'']"
    by (simp add: astype_str_def v_def)
  have unseen: "''Maybe'' \<notin> set cl"
    by (simp add: cl_def)
  from unseen_category_falls_back [OF h1 h2 h3 h4, of stub_lib]
  obtain df' codes where run: "encode_categorical stub_lib encoders_gas False raw_frame =
      Inr (encoders_gas, df')"
    and g: "get_col df' c = Some (code_column codes)"
    and len: "length codes = length (astype_str stub_lib v)"
    and all: "\<forall>i<length codes.
              codes ! i < length cl \<and>
              (astype_str stub_lib v ! i \<in> set cl \<longrightarrow>
                 cl ! (codes ! i) = astype_str stub_lib v ! i) \<and>
              (astype_str stub_lib v ! i \<notin> set cl \<longrightarrow>
                 codes ! i = 0 \<and> le_transform cl [hd cl] = Inr [codes ! i])"
    by blast
  from len have l1: "length codes = 1"
    by (simp add: xs)
  then have l0: "0 < length codes"
    by simp
  have nm: "astype_str stub_lib v ! 0 \<notin> set cl"
    using unseen by (simp add: xs)
  note q = all [rule_format, OF l0]
  note z = q [THEN conjunct2, THEN conjunct2, THEN mp, OF nm, THEN conjunct1]
  from l1 z have "codes = [0]"
    by (cases codes) simp_all
  with g have g': "get_col df' c = Some (NumCol [Fin 0])"
    by (simp add: code_column_def)
  from run g' have "\<exists>df'. encode_categorical stub_lib encoders_gas False raw_frame =
         Inr (encoders_gas, df') \<and> get_col df' c = Some (NumCol [Fin 0])"
    by (intro exI conjI)
  with h1 h2 h3 h4 unseen show ?thesis
    unfolding c_def cl_def v_def by (intro conjI)
qed

subsection \<open>Schema stability of transform\<close>

lemma fit_tail:
  assumes "st_bind (st_read d) (\<lambda>enc.
     st_bind (if has_col enc t
              then st_bind (st_new (A enc)) (\<lambda>X. st_return (X, B enc))
              else st_return (d, None)) (\<lambda>(X, y).
     st_bind (st_read X) (\<lambda>Xv.
     st_bind (st_new (F Xv)) (\<lambda>X'.
     st_bind (st_read X') (\<lambda>Xv'.
     st_return (G Xv', X', y)))))) h1 = (Inr (r, X', y), h')"
  shows "X' < length h' \<and> r = G (h' ! X')"
proof -
  have inner: "st_bind (st_bind (st_new df) (\<lambda>X. st_return (X, v))) f h = f (length h, v) (h @ [df])"
    for df v h f
    by (simp add: st_bind_def st_new_def st_return_def)
  from assms show ?thesis
    by (auto simp: st_bind_read st_bind_new st_bind_return st_return_def nth_append inner
          split: if_splits)
qed

lemma fit_transform_st_freezes:
  assumes "fit_transform_st L pp a target_col h = (Inr (pp', X, y), h')"
  shows "is_fitted pp' \<and> feature_names pp' = columns (h' ! X)"
proof -
  obtain iss where v: "validate_all (h ! a) = Inr iss"
    using assms
    by (cases "validate_all (h ! a)")
       (simp_all add: fit_transform_st_def st_bind_read st_bind_lift)
  obtain r h1 where p: "prepare L (label_encoders pp) True a h = (r, h1)"
    by (cases "prepare L (label_encoders pp) True a h")
  show ?thesis
  proof (cases r)
    case (Inl e)
    with assms v p show ?thesis
      by (simp add: fit_transform_st_def st_bind_read st_bind_lift st_bind_result)
  next
    case (Inr ed)
    obtain encs d where ed: "ed = (encs, d)" by (cases ed)
    from p Inr ed have pr: "prepare L (label_encoders pp) True a h = (Inr (encs, d), h1)"
      by simp
    note b = st_bind_result(1) [of "prepare L (label_encoders pp) True a" h "(encs, d)" h1, OF pr]
    from assms v have "st_bind (st_read d) (\<lambda>enc.
     st_bind (if has_col enc target_col
              then st_bind (st_new (drop_cols [target_col] enc)) (\<lambda>X.
                     st_return (X, get_col enc target_col))
              else st_return (d, None)) (\<lambda>(X, y).
     st_bind (st_read X) (\<lambda>Xv.
     st_bind (st_new (drop_cols (filter (has_col Xv) [''index'', ''Unnamed: 0'']) Xv)) (\<lambda>X'.
     st_bind (st_read X') (\<lambda>Xv'.
     st_return (pp\<lparr>label_encoders := encs, feature_names := columns Xv', is_fitted := True\<rparr>,
                X', y)))))) h1 = (Inr (pp', X, y), h')"
      by (simp add: fit_transform_st_def st_bind_read st_bind_lift b del: filter.simps)
    from fit_tail [OF this] show ?thesis
      by simp
  qed
qed

lemma fit_transform_freezes:
  assumes "fit_transform L pp df target_col = Inr (pp', X, y)"
  shows "is_fitted pp' \<and> feature_names pp' = columns X"
proof -
  obtain r h' where run: "fit_transform_st L pp 0 target_col [df] = (r, h')"
    by (cases "fit_transform_st L pp 0 target_col [df]")
  with assms obtain Xa where "r = Inr (pp', Xa, y)" "X = h' ! Xa"
    by (auto simp: fit_transform_def split: sum.splits prod.splits)
  with run fit_transform_st_freezes [of L pp 0 target_col "[df]" pp' Xa y h'] show ?thesis
    by simp
qed

lemma hm_raw: "handle_missing_values raw_frame = Inr raw_frame"
  by (simp add: handle_missing_values_def raw_frame_def count_missing_def)

lemma rd_raw: "remove_duplicates raw_frame = raw_frame"
  by (simp add: remove_duplicates_def raw_frame_def row_def take_rows_def)

lemma fix_raw: "fix_data_types stub_lib raw_frame = raw_frame"
  by (simp add: fix_data_types_def update_present_def get_col_def set_col_def raw_frame_def
        NUMERICAL_FEATURES_def CATEGORICAL_FEATURES_def as_numeric_def astype_str_def)

lemma clean_raw: "clean stub_lib raw_frame = Inr raw_frame"
  by (simp add: clean_def hm_raw rd_raw fix_raw handle_outliers_def REMOVE_OUTLIERS_def)

lemma engineer_raw: "engineer_all None raw_frame = Inr engineered_raw_frame"
  by (simp add: engineer_all_def effective_config_def FEATURE_ENGINEERING_CONFIG_def
        when_enabled_def cfg_get_def create_building_age_features_def
        create_area_ratio_features_def create_floor_features_def create_amenities_score_def
        create_volume_feature_def create_extra_area_features_def
        create_interaction_features_def has_col_def columns_def raw_frame_def get_col_def
        num_col_def set_col_def replace0_def fin_small engineered_raw_frame_def)

lemma encode_raw:
  "encode_categorical stub_lib (label_encoders fitted_preprocessor) False engineered_raw_frame =
     Inr (label_encoders fitted_preprocessor, encoded_raw_frame)"
  by (simp add: encode_categorical_def CATEGORICAL_FEATURES_def get_col_def set_col_def
        astype_str_def apply_encoding_def fallback_def code_column_def fitted_preprocessor_def
        engineered_raw_frame_def encoded_raw_frame_def)

lemma encoded_raw:
  "encoded_frame stub_lib fitted_preprocessor raw_frame = Inr encoded_raw_frame"
proof -
  have d: "drop_cols (filter (has_col encoded_raw_frame) [''index'', ''Unnamed: 0'', ''price''])
             encoded_raw_frame = encoded_raw_frame"
    by (simp add: has_col_def columns_def drop_cols_def encoded_raw_frame_def)
  show ?thesis
    unfolding encoded_frame_def clean_raw and_then_simps engineer_raw encode_raw
    by (simp add: d del: filter.simps)
qed

lemma encoded_raw_cols:
  "nrows encoded_raw_frame = 1"
  "has_col encoded_raw_frame ''total_area''" "has_col encoded_raw_frame ''gas''"
  "has_col encoded_raw_frame ''area_per_room''" "\<not> has_col encoded_raw_frame ''district_name''"
  "get_col encoded_raw_frame ''total_area'' = Some (NumCol [Fin 65])"
  "get_col encoded_raw_frame ''gas'' = Some (NumCol [Fin 0])"
  "get_col encoded_raw_frame ''area_per_room'' = Some (NumCol [Fin (65/3)])"
  by (simp_all add: encoded_raw_frame_def has_col_def columns_def get_col_def)

lemma missing_gas_raises:
  "transform stub_lib fitted_preprocessor missing_gas_frame = Inl KeyError"
proof -
  have "handle_missing_values missing_gas_frame = Inl KeyError"
    by (simp add: handle_missing_values_def missing_gas_frame_def count_missing_def
          get_col_def NUMERICAL_FEATURES_def CATEGORICAL_FEATURES_def fill_mode_def mode0_def)
  then have "encoded_frame stub_lib fitted_preprocessor missing_gas_frame = Inl KeyError"
    by (simp add: encoded_frame_def clean_def)
  then show ?thesis
    by (simp add: transform_eq fitted_preprocessor_def)
qed

lemma missing_gas_types:
  "wf_frame missing_gas_frame" "numeric_ok missing_gas_frame"
  "check_data_types missing_gas_frame = []"
  "get_col missing_gas_frame ''gas'' = Some (StrCol [None])"
  by (simp_all add: wf_frame_def numeric_ok_def numeric_names_def check_data_types_def
        NUMERICAL_FEATURES_def CATEGORICAL_FEATURES_def missing_gas_frame_def get_col_def
        col_len_def)

text \<open>
  C3 (as stated): for every fitted preprocessor and every well-typed batch,
  \<^verbatim>\<open>transform\<close> returns a frame. It fails on a one-row batch whose \<^verbatim>\<open>gas\<close> value is
  missing: the columns have the types the validator expects, but the cleaning step
  fills the column with \<^verbatim>\<open>mode()[0]\<close>, and the mode of a column without a present value
  is empty, so the call raises.
\<close>

theorem transform_raises_counterexample:
  "is_fitted fitted_preprocessor \<and> encoders_ok (label_encoders fitted_preprocessor) \<and>
   wf_frame missing_gas_frame \<and> numeric_ok missing_gas_frame \<and>
   check_data_types missing_gas_frame = [] \<and>
   get_col missing_gas_frame ''gas'' = Some (StrCol [None]) \<and>
   transform stub_lib fitted_preprocessor missing_gas_frame = Inl KeyError"
proof -
  have "is_fitted fitted_preprocessor" "encoders_ok (label_encoders fitted_preprocessor)"
    by (simp_all add: fitted_preprocessor_def encoders_ok_def)
  with missing_gas_types missing_gas_raises show ?thesis
    by (intro conjI)
qed

text \<open>
  C3 (amended): schema stability of \<^verbatim>\<open>transform\<close>. For a fitted preprocessor whose
  encoders have a non-empty vocabulary and a well-typed batch in which every categorical
  feature column is complete or has at least one present value, \<^verbatim>\<open>transform\<close> returns
  a frame. Whenever it returns a frame \<open>X\<close>, the column list of \<open>X\<close> equals
  \<open>feature_names\<close>, in the same order; \<open>X\<close> has the rows of the encoded frame; a frozen
  column present after encoding is that column, a frozen column absent after encoding
  is a column of zeros, one per row, and no other column survives. Nothing is assumed
  on the column order or extra columns of the raw batch. And \<open>feature_names\<close> is the
  list frozen by \<^verbatim>\<open>fit_transform\<close>: the preprocessor it returns is fitted and its
  \<open>feature_names\<close> is the column list of the training features.
\<close>

theorem transform_schema:
  "(is_fitted pp \<and> well_typed df \<and> encoders_ok (label_encoders pp)
      \<longrightarrow> (\<exists>X. transform L pp df = Inr X)) \<and>
   (\<forall>X. transform L pp df = Inr X \<longrightarrow>
      columns X = feature_names pp \<and>
      (\<exists>E. encoded_frame L pp df = Inr E \<and> nrows X = nrows E \<and>
           (\<forall>c\<in>set (feature_names pp).
              get_col X c =
                (if has_col E c then get_col E c
                 else Some (NumCol (replicate (nrows E) (Fin 0))))))) \<and>
   (\<forall>pp0 df0 target_col X0 y.
      fit_transform L pp0 df0 target_col = Inr (pp, X0, y) \<longrightarrow>
      is_fitted pp \<and> feature_names pp = columns X0)"
proof (intro conjI allI impI)
  assume h: "is_fitted pp \<and> well_typed df \<and> encoders_ok (label_encoders pp)"
  then obtain E where E: "encoded_frame L pp df = Inr E"
    using encoded_frame_ok by blast
  from reconcile_props [of "feature_names pp" E] obtain X where
    "reconcile (feature_names pp) E = Inr X"
    by blast
  with h E show "\<exists>X. transform L pp df = Inr X"
    by (simp add: transform_eq)
next
  fix X
  assume run: "transform L pp df = Inr X"
  then obtain E where E: "encoded_frame L pp df = Inr E"
    and rec: "reconcile (feature_names pp) E = Inr X"
    by (auto simp: transform_eq and_then_def split: if_splits sum.splits)
  from reconcile_props [of "feature_names pp" E] rec
  have props: "columns X = feature_names pp" "nrows X = nrows E"
    "\<forall>c\<in>set (feature_names pp).
       get_col X c = (if has_col E c then get_col E c else Some (zero_col (nrows E)))"
    by auto
  show "columns X = feature_names pp" by (rule props(1))
  note filled = props(3) [unfolded zero_col_def]
  from E props(2) filled
  show "\<exists>E. encoded_frame L pp df = Inr E \<and> nrows X = nrows E \<and>
           (\<forall>c\<in>set (feature_names pp).
              get_col X c =
                (if has_col E c then get_col E c
                 else Some (NumCol (replicate (nrows E) (Fin 0)))))"
    by blast
next
  fix pp0 df0 target_col X0 y
  assume "fit_transform L pp0 df0 target_col = Inr (pp, X0, y)"
  from fit_transform_freezes [OF this]
  show "is_fitted pp" "feature_names pp = columns X0"
    by simp_all
qed

lemma raw_frame_well_typed: "well_typed raw_frame"
  by (simp add: well_typed_def wf_frame_def numeric_ok_def categorical_ok_def numeric_names_def
        NUMERICAL_FEATURES_def CATEGORICAL_FEATURES_def raw_frame_def get_col_def col_len_def
        fillable_def count_missing_def)

theorem transform_schema_witness:
  "is_fitted fitted_preprocessor \<and> well_typed raw_frame \<and>
   encoders_ok (label_encoders fitted_preprocessor) \<and>
   (\<exists>X. transform stub_lib fitted_preprocessor raw_frame = Inr X \<and>
        columns X = [''total_area'', ''gas'', ''area_per_room'', ''district_name''] \<and>
        nrows X = 1 \<and>
        get_col X ''total_area'' = Some (NumCol [Fin 65]) \<and>
        get_col X ''gas'' = Some (NumCol [Fin 0]) \<and>
        get_col X ''area_per_room'' = Some (NumCol [Fin (65/3)]) \<and>
        get_col X ''district_name'' = Some (NumCol [Fin 0]))"
proof -
  define names where "names = feature_names fitted_preprocessor"
  define c1 where "c1 = ''total_area''"
  define c2 where "c2 = ''gas''"
  define c3 where "c3 = ''area_per_room''"
  define c4 where "c4 = ''district_name''"
  have nm: "names = [c1, c2, c3, c4]"
    by (simp add: names_def fitted_preprocessor_def c1_def c2_def c3_def c4_def)
  have h: "is_fitted fitted_preprocessor \<and> well_typed raw_frame \<and>
           encoders_ok (label_encoders fitted_preprocessor)"
    by (simp add: fitted_preprocessor_def raw_frame_well_typed encoders_ok_def)
  note t = transform_schema [of fitted_preprocessor raw_frame stub_lib]
  from t [THEN conjunct1] h obtain X where
    X: "transform stub_lib fitted_preprocessor raw_frame = Inr X"
    by (elim impE exE)
  note u = t [THEN conjunct2, THEN conjunct1, rule_format, OF X]
  note cs = u [THEN conjunct1, folded names_def]
  note ex = u [THEN conjunct2, folded names_def]
  from ex encoded_raw have n: "nrows X = nrows encoded_raw_frame"
    and g: "\<forall>c\<in>set names. get_col X c =
                    (if has_col encoded_raw_frame c then get_col encoded_raw_frame c
                     else Some (NumCol (replicate (nrows encoded_raw_frame) (Fin 0))))"
    by auto
  have m: "c1 \<in> set names" "c2 \<in> set names" "c3 \<in> set names" "c4 \<in> set names"
    by (simp_all add: nm)
  have v1: "get_col X c1 = Some (NumCol [Fin 65])"
    using g [rule_format, OF m(1)] by (simp add: c1_def encoded_raw_cols)
  have v2: "get_col X c2 = Some (NumCol [Fin 0])"
    using g [rule_format, OF m(2)] by (simp add: c2_def encoded_raw_cols)
  have v3: "get_col X c3 = Some (NumCol [Fin (65/3)])"
    using g [rule_format, OF m(3)] by (simp add: c3_def encoded_raw_cols)
  have v4: "get_col X c4 = Some (NumCol [Fin 0])"
    using g [rule_format, OF m(4)] by (simp add: c4_def encoded_raw_cols)
  from n have n1: "nrows X = 1"
    by (simp add: encoded_raw_cols)
  from cs have cs': "columns X = [c1, c2, c3, c4]"
    unfolding nm .
  from X cs' n1 v1 v2 v3 v4
  have "\<exists>X. transform stub_lib fitted_preprocessor raw_frame = Inr X \<and>
        columns X = [c1, c2, c3, c4] \<and> nrows X = 1 \<and>
        get_col X c1 = Some (NumCol [Fin 65]) \<and>
        get_col X c2 = Some (NumCol [Fin 0]) \<and>
        get_col X c3 = Some (NumCol [Fin (65/3)]) \<and>
        get_col X c4 = Some (NumCol [Fin 0])"
    by (intro exI conjI)
  with h show ?thesis
    unfolding c1_def c2_def c3_def c4_def by (intro conjI) (elim conjE, assumption)+
qed

theorem pipeline_leaves_caller_frame_witness:
  "(0::nat) < length [raw_frame] \<and>
   snd (fit_transform_st stub_lib DataPreprocessor_init 0 ''price'' [raw_frame]) ! 0 = raw_frame \<and>
   snd (transform_st stub_lib fitted_preprocessor 0 [raw_frame]) ! 0 = raw_frame \<and>
   take (length [raw_frame])
     (snd (transform_st stub_lib fitted_preprocessor 0 [raw_frame])) = [raw_frame]"
proof -
  note f = pipeline_leaves_caller_frame
    [of "[raw_frame]" stub_lib DataPreprocessor_init 0 "''price''"]
  note t = pipeline_leaves_caller_frame
    [of "[raw_frame]" stub_lib fitted_preprocessor 0 "''price''"]
  have len: "(0::nat) < length [raw_frame]"
    by simp
  from f len
  have a: "snd (fit_transform_st stub_lib DataPreprocessor_init 0 ''price'' [raw_frame]) ! 0
             = raw_frame"
    by simp
  from t len
  have b: "snd (transform_st stub_lib fitted_preprocessor 0 [raw_frame]) ! 0 = raw_frame"
    by simp
  from t
  have c: "take (length [raw_frame])
     (snd (transform_st stub_lib fitted_preprocessor 0 [raw_frame])) = [raw_frame]"
    by (elim conjE)
  from len a b c show ?thesis
    by (intro conjI)
qed

end
